(* ===== verification/Prelude.thy ===== *)
theory Prelude
  imports Complex_Main "HOL-Library.Sublist"
begin

text \<open>
  Shared vocabulary of the development: the Python values, exceptions, dictionaries and
  string primitives the backend's modules are written with. Every component theory imports
  this one. A Python \<open>dict\<close> is an association list with distinct keys in insertion order
  (\<open>pydict\<close>), refined to a HOL map by \<open>map_of\<close>; Python's \<open>p in s\<close> on strings is
  \<open>py_in\<close>, proved equal to the library's \<open>sublist\<close>; exceptions are values of
  \<open>py_exc\<close>, and a call that may raise returns \<open>'a py = py_exc + 'a\<close>.
\<close>

named_theorems py_simps "evaluation rules of the Python primitives of the model"

section \<open>Characters and strings\<close>

abbreviation NL :: char where
  "NL \<equiv> CHR 0x0A"

abbreviation QUOTE :: char where
  "QUOTE \<equiv> CHR 0x27"

text \<open>
  \<open>str.isspace\<close> on the one-byte characters of the model, read as the code points
  U+0000--U+00FF: tab, line feed, vertical tab, form feed, carriage return, the separators
  0x1C--0x1F, space, next line (0x85) and no-break space (0xA0).
\<close>

definition py_isspace :: "char \<Rightarrow> bool" where
  "py_isspace c \<longleftrightarrow> (let n = (of_char c :: nat) in (9 \<le> n \<and> n \<le> 13) \<or> (28 \<le> n \<and> n \<le> 32) \<or> n = 133 \<or> n = 160)"

definition lstrip :: "string \<Rightarrow> string" where
  "lstrip s = dropWhile py_isspace s"

text \<open>\<open>repr\<close> of a string as Python prints it inside an f-string of an error: quoted.\<close>

definition py_quote :: "string \<Rightarrow> string" where
  "py_quote s = QUOTE # s @ [QUOTE]"

text \<open>Formatting an \<open>Optional[str]\<close> in an f-string.\<close>

fun py_fmt_opt :: "string option \<Rightarrow> string" where
  "py_fmt_opt None = ''None''"
| "py_fmt_opt (Some s) = s"

subsection \<open>Substring test \<open>p in s\<close>\<close>

fun py_in :: "'a list \<Rightarrow> 'a list \<Rightarrow> bool" where
  "py_in p [] \<longleftrightarrow> p = []"
| "py_in p (c # s) \<longleftrightarrow> take (length p) (c # s) = p \<or> py_in p s"

lemma prefix_iff_take: "prefix p s \<longleftrightarrow> take (length p) s = p"
proof
  assume "prefix p s"
  then obtain zs where "s = p @ zs" by (auto simp: prefix_def)
  then show "take (length p) s = p" by simp
next
  assume "take (length p) s = p"
  then have "s = p @ drop (length p) s" by (metis append_take_drop_id)
  then show "prefix p s" by (auto simp: prefix_def)
qed

lemma py_in_iff_sublist: "py_in p s \<longleftrightarrow> sublist p s"
  by (induction p s rule: py_in.induct) (auto simp: sublist_Cons_right prefix_iff_take)

lemma py_in_append_mono [intro]: "py_in p s \<Longrightarrow> py_in p (a @ s @ b)"
  unfolding py_in_iff_sublist by (metis sublist_appendI sublist_order.dual_order.trans)

lemma py_in_refl [simp]: "py_in p p"
  by (simp add: py_in_iff_sublist)

section \<open>Exceptions\<close>

text \<open>
  The exception classes the modelled code raises or catches, each with the text
  \<open>str(e)\<close> gives. \<open>OSError\<close> stands for the whole family raised by the file system
  (\<open>PermissionError\<close>, \<open>IsADirectoryError\<close>, \<open>OSError\<close> itself), which the code never
  distinguishes.
\<close>

datatype py_exc =
    Exception string
  | ModelNotFoundError string
  | ValueError string
  | TypeError string
  | SyntaxError string
  | FileNotFoundError string
  | OSError string
  | AttributeError string

type_synonym 'a py = "py_exc + 'a"

primrec exc_str :: "py_exc \<Rightarrow> string" where
  "exc_str (Exception m) = m"
| "exc_str (ModelNotFoundError m) = m"
| "exc_str (ValueError m) = m"
| "exc_str (TypeError m) = m"
| "exc_str (SyntaxError m) = m"
| "exc_str (FileNotFoundError m) = m"
| "exc_str (OSError m) = m"
| "exc_str (AttributeError m) = m"

primrec is_syntax_error :: "py_exc \<Rightarrow> bool" where
  "is_syntax_error (Exception m) = False"
| "is_syntax_error (ModelNotFoundError m) = False"
| "is_syntax_error (ValueError m) = False"
| "is_syntax_error (TypeError m) = False"
| "is_syntax_error (SyntaxError m) = True"
| "is_syntax_error (FileNotFoundError m) = False"
| "is_syntax_error (OSError m) = False"
| "is_syntax_error (AttributeError m) = False"

section \<open>Python values\<close>

text \<open>
  The objects that \<open>eval\<close> or \<open>json.loads\<close> produce from a model's text, and that the
  agent inspects: \<open>None\<close>, booleans, integers, strings, lists and string-keyed dicts.
  Floats are not distinguished from the other scalars the code never inspects.
\<close>

datatype pyval =
    PNone
  | PBool bool
  | PInt int
  | PStr string
  | PList "pyval list"
  | PDict "(string \<times> pyval) list"

text \<open>Python truthiness (\<open>bool(x)\<close>).\<close>

fun py_truthy :: "pyval \<Rightarrow> bool" where
  "py_truthy PNone = False"
| "py_truthy (PBool b) = b"
| "py_truthy (PInt i) = (i \<noteq> 0)"
| "py_truthy (PStr s) = (s \<noteq> [])"
| "py_truthy (PList xs) = (xs \<noteq> [])"
| "py_truthy (PDict d) = (d \<noteq> [])"

section \<open>Dictionaries\<close>

text \<open>
  A Python \<open>dict\<close>: keys in insertion order, each at most once. Assigning to a present
  key replaces its value in place; a new key goes to the end.
\<close>

type_synonym ('k, 'v) pydict = "('k \<times> 'v) list"

abbreviation dict_get :: "('k, 'v) pydict \<Rightarrow> 'k \<Rightarrow> 'v option" where
  "dict_get d \<equiv> map_of d"

fun dict_set :: "('k, 'v) pydict \<Rightarrow> 'k \<Rightarrow> 'v \<Rightarrow> ('k, 'v) pydict" where
  "dict_set [] k v = [(k, v)]"
| "dict_set ((k', v') # d) k v = (if k' = k then (k, v) # d else (k', v') # dict_set d k v)"

definition dict_del :: "('k, 'v) pydict \<Rightarrow> 'k \<Rightarrow> ('k, 'v) pydict" where
  "dict_del d k = filter (\<lambda>(k', _). k' \<noteq> k) d"

abbreviation dict_keys :: "('k, 'v) pydict \<Rightarrow> 'k list" where
  "dict_keys d \<equiv> map fst d"

abbreviation dict_wf :: "('k, 'v) pydict \<Rightarrow> bool" where
  "dict_wf d \<equiv> distinct (dict_keys d)"

lemma map_of_dict_set [simp, py_simps]: "map_of (dict_set d k v) = (map_of d)(k \<mapsto> v)"
  by (induction d) (auto simp: fun_eq_iff)

lemma keys_dict_set:
  "dict_keys (dict_set d k v) = (if k \<in> set (dict_keys d) then dict_keys d else dict_keys d @ [k])"
  by (induction d) force+

lemma set_keys_dict_set [simp]: "set (dict_keys (dict_set d k v)) = insert k (set (dict_keys d))"
  by (simp add: keys_dict_set insert_absorb del: set_map)

lemma dict_wf_set [simp, intro]: "dict_wf d \<Longrightarrow> dict_wf (dict_set d k v)"
  by (simp add: keys_dict_set)

lemma map_of_dict_del [simp, py_simps]: "map_of (dict_del d k) = (map_of d)(k := None)"
  by (induction d) (auto simp: dict_del_def fun_eq_iff)

lemma keys_dict_del: "dict_keys (dict_del d k) = filter (\<lambda>k'. k' \<noteq> k) (dict_keys d)"
  by (induction d) (auto simp: dict_del_def)

lemma dict_wf_del [simp, intro]: "dict_wf d \<Longrightarrow> dict_wf (dict_del d k)"
  by (simp add: keys_dict_del)

lemma dict_set_dict_set [simp]: "dict_set (dict_set d k v1) k v2 = dict_set d k v2"
  by (induction d) auto

lemma values_dict_set: "set (map snd (dict_set d k v)) \<subseteq> insert v (set (map snd d))"
  by (induction d) (fastforce split: if_splits)+

section \<open>Runs of step relations\<close>

text \<open>An interleaving written out step by step is a run of the relation.\<close>

lemma steps2: "R a b \<Longrightarrow> R b c \<Longrightarrow> R\<^sup>*\<^sup>* a c"
  by (meson rtranclp.rtrancl_into_rtrancl rtranclp.rtrancl_refl)

lemma steps4: "R a b \<Longrightarrow> R b c \<Longrightarrow> R c d \<Longrightarrow> R d e \<Longrightarrow> R\<^sup>*\<^sup>* a e"
  by (meson rtranclp.rtrancl_into_rtrancl rtranclp.rtrancl_refl)

end
