(* ===== verification/Safety.thy ===== *)
theory Safety
  imports Prelude "HOL-Library.Multiset"
begin

text \<open>
  The safety policy: the static checks a proposed source text must pass before it is written.
  Two versions live in the code. \<open>CodeModifier\<close> (src/backend/core/agent/modifier.py) has
  \<open>validate_syntax\<close> and \<open>validate_safety\<close> (three denied modules), used by
  \<open>apply_changes\<close>; \<open>CodeImprovement\<close> (src/backend/core/agent/improvement.py) has the
  ordered battery \<open>_check_syntax\<close>, \<open>_check_dangerous_imports\<close> (seven denied modules),
  \<open>_check_file_operations\<close> and \<open>_check_network_operations\<close>, run first-failure-wins by
  \<open>implement_improvements\<close>. Python's parser \<open>ast.parse\<close> is a library the code only
  calls: it is a parameter \<open>parse\<close> of every check. Its result is modelled by \<open>pynode\<close>,
  which keeps the two node classes the checks inspect (\<open>ast.Import\<close>, \<open>ast.ImportFrom\<close>)
  and every other node as a labelled \<open>Node\<close> with its children.
\<close>

section \<open>Syntax trees and \<open>ast.walk\<close>\<close>

datatype pynode =
    Import "string list"                    \<comment> \<open>\<open>import a, b.c\<close>: the alias names\<close>
  | ImportFrom "string option" "string list" \<comment> \<open>\<open>from m import x\<close>; \<open>None\<close> for \<open>from . import x\<close>\<close>
  | Node string "pynode list"                \<comment> \<open>any other node class, with its children\<close>

type_synonym parser = "string \<Rightarrow> pynode py"

fun children :: "pynode \<Rightarrow> pynode list" where
  "children (Node _ cs) = cs"
| "children _ = []"

text \<open>
  \<open>ast.walk\<close>: a queue of nodes, the first popped, its children appended, the node
  yielded. Breadth-first; it ends because the total size of the queue decreases.
\<close>

function ast_walk :: "pynode list \<Rightarrow> pynode list" where
  "ast_walk [] = []"
| "ast_walk (n # todo) = n # ast_walk (todo @ children n)"
  by pat_completeness auto
termination
  apply (relation "measure (size_list size)")
   apply simp
  subgoal for n todo by (cases n) simp_all
  done

text \<open>\<open>ast.walk(tree)\<close> starts from a queue holding the tree alone.\<close>

definition ast_walk_tree :: "pynode \<Rightarrow> pynode list" where
  "ast_walk_tree t = ast_walk [t]"

text \<open>The reference traversal: every node of a tree, depth-first, in pre-order.\<close>

fun all_nodes :: "pynode \<Rightarrow> pynode list" where
  "all_nodes (Node l cs) = Node l cs # concat (map all_nodes cs)"
| "all_nodes n = [n]"

text \<open>The modules a single node imports: the alias names, or the \<open>from\<close> module.\<close>

fun imports_of :: "pynode \<Rightarrow> string list" where
  "imports_of (Import names) = names"
| "imports_of (ImportFrom (Some m) _) = [m]"
| "imports_of _ = []"

definition tree_imports :: "pynode \<Rightarrow> string list" where
  "tree_imports t = concat (map imports_of (all_nodes t))"

section \<open>The import scan\<close>

text \<open>
  One node of the loop \<open>for node in ast.walk(tree)\<close> of \<open>validate_safety\<close> and
  \<open>_check_dangerous_imports\<close>: an \<open>Import\<close> hits at its first denied alias, an
  \<open>ImportFrom\<close> when its module is denied (\<open>None in dangerous_modules\<close> is false).
\<close>

fun import_hit :: "string list \<Rightarrow> pynode \<Rightarrow> string option" where
  "import_hit ds (Import names) = find (\<lambda>nm. nm \<in> set ds) names"
| "import_hit ds (ImportFrom m _) =
     (case m of Some mo \<Rightarrow> if mo \<in> set ds then Some mo else None | None \<Rightarrow> None)"
| "import_hit ds (Node _ _) = None"

text \<open>The loop itself: the first node that hits returns.\<close>

fun scan_imports :: "string list \<Rightarrow> pynode list \<Rightarrow> string option" where
  "scan_imports ds [] = None"
| "scan_imports ds (n # ns) = (case import_hit ds n of Some m \<Rightarrow> Some m | None \<Rightarrow> scan_imports ds ns)"

section \<open>The checks\<close>

datatype verdict = Safe | Unsafe string

definition improvement_dangerous_modules :: "string list" where
  "improvement_dangerous_modules =
     [''os'', ''subprocess'', ''sys'', ''shutil'', ''requests'', ''urllib'', ''socket'']"

definition modifier_dangerous_modules :: "string list" where
  "modifier_dangerous_modules = [''os'', ''subprocess'', ''sys'']"

definition file_operation_patterns :: "string list" where
  "file_operation_patterns = [''open('', ''write('', ''delete('', ''remove('', ''unlink('']"

definition network_operation_patterns :: "string list" where
  "network_operation_patterns =
     [''socket.'', ''connect('', ''listen('', ''bind('', ''request.'', ''urlopen('']"

text \<open>\<open>CodeImprovement._check_syntax\<close>: only \<open>SyntaxError\<close> is caught.\<close>

definition check_syntax :: "parser \<Rightarrow> string \<Rightarrow> verdict py" where
  "check_syntax parse code =
     (case parse code of
        Inr _ \<Rightarrow> Inr Safe
      | Inl e \<Rightarrow> if is_syntax_error e then Inr (Unsafe (''Syntax error: '' @ exc_str e)) else Inl e)"

text \<open>\<open>CodeImprovement._check_dangerous_imports\<close>: every exception is caught.\<close>

definition check_dangerous_imports :: "parser \<Rightarrow> string \<Rightarrow> verdict" where
  "check_dangerous_imports parse code =
     (case parse code of
        Inl e \<Rightarrow> Unsafe (''Import check failed: '' @ exc_str e)
      | Inr t \<Rightarrow>
          (case scan_imports improvement_dangerous_modules (ast_walk_tree t) of
             Some m \<Rightarrow> Unsafe (''Dangerous import detected: '' @ m)
           | None \<Rightarrow> Safe))"

text \<open>The loop \<open>for pattern in dangerous_patterns: if pattern in code\<close>.\<close>

fun first_pattern :: "string list \<Rightarrow> string \<Rightarrow> string option" where
  "first_pattern [] code = None"
| "first_pattern (p # ps) code = (if py_in p code then Some p else first_pattern ps code)"

definition check_file_operations :: "string \<Rightarrow> verdict" where
  "check_file_operations code =
     (case first_pattern file_operation_patterns code of
        Some p \<Rightarrow> Unsafe (''Potentially dangerous file operation detected: '' @ p)
      | None \<Rightarrow> Safe)"

definition check_network_operations :: "string \<Rightarrow> verdict" where
  "check_network_operations code =
     (case first_pattern network_operation_patterns code of
        Some p \<Rightarrow> Unsafe (''Potentially dangerous network operation detected: '' @ p)
      | None \<Rightarrow> Safe)"

text \<open>\<open>self.safety_checks\<close>, in the order \<open>__init__\<close> lists them.\<close>

definition safety_checks :: "parser \<Rightarrow> (string \<Rightarrow> verdict py) list" where
  "safety_checks parse =
     [check_syntax parse,
      \<lambda>c. Inr (check_dangerous_imports parse c),
      \<lambda>c. Inr (check_file_operations c),
      \<lambda>c. Inr (check_network_operations c)]"

text \<open>
  The loop of \<open>implement_improvements\<close> over the checks: the first unsafe verdict wins,
  an exception escapes.
\<close>

fun run_checks :: "(string \<Rightarrow> verdict py) list \<Rightarrow> string \<Rightarrow> verdict py" where
  "run_checks [] code = Inr Safe"
| "run_checks (chk # chks) code =
     (case chk code of
        Inl e \<Rightarrow> Inl e
      | Inr Safe \<Rightarrow> run_checks chks code
      | Inr (Unsafe r) \<Rightarrow> Inr (Unsafe r))"

definition safety_verdict :: "parser \<Rightarrow> string \<Rightarrow> verdict py" where
  "safety_verdict parse code = run_checks (safety_checks parse) code"

subsection \<open>The validators of \<open>CodeModifier\<close>\<close>

definition validate_syntax :: "parser \<Rightarrow> string \<Rightarrow> bool py" where
  "validate_syntax parse code =
     (case parse code of
        Inr _ \<Rightarrow> Inr True
      | Inl e \<Rightarrow> if is_syntax_error e then Inr False else Inl e)"

definition validate_safety :: "parser \<Rightarrow> string \<Rightarrow> bool \<times> string option" where
  "validate_safety parse code =
     (case parse code of
        Inl e \<Rightarrow> (False, Some (exc_str e))
      | Inr t \<Rightarrow>
          (case scan_imports modifier_dangerous_modules (ast_walk_tree t) of
             Some m \<Rightarrow> (False, Some (''Dangerous import: '' @ m))
           | None \<Rightarrow> (True, None)))"

section \<open>Properties\<close>

subsection \<open>\<open>ast.walk\<close> visits every node exactly once\<close>

lemma all_nodes_children: "all_nodes n = n # concat (map all_nodes (children n))"
  by (cases n) simp_all

text \<open>
  The breadth-first walk of \<open>ast.walk\<close> is a permutation of the depth-first list of
  all nodes: every node of the queued trees, nested ones included, is visited, and each once.
\<close>

theorem ast_walk_mset: "mset (ast_walk todo) = mset (concat (map all_nodes todo))"
proof (induction todo rule: ast_walk.induct)
  case 1
  then show ?case by simp
next
  case (2 n todo)
  then show ?case by (simp add: all_nodes_children[of n])
qed

lemma set_ast_walk: "set (ast_walk_tree t) = set (all_nodes t)"
proof -
  have "mset (ast_walk_tree t) = mset (all_nodes t)"
    using ast_walk_mset[of "[t]"] unfolding ast_walk_tree_def by (simp del: ast_walk.simps)
  then show ?thesis by (rule mset_eq_setD)
qed

text \<open>
  \<open>ast.walk\<close> is equivalent to the reference traversal: walking a tree breadth-first
  with the queue yields the tree itself first and then the same nodes as the depth-first
  pre-order list of all its nodes, each as often, in another order.
\<close>

theorem ast_walk_tree_equiv:
  "mset (ast_walk_tree t) = mset (all_nodes t) \<and> hd (ast_walk_tree t) = t \<and>
   length (ast_walk_tree t) = length (all_nodes t)"
proof -
  have m: "mset (ast_walk_tree t) = mset (all_nodes t)"
    using ast_walk_mset[of "[t]"] unfolding ast_walk_tree_def by (simp del: ast_walk.simps)
  moreover have "hd (ast_walk_tree t) = t" by (simp add: ast_walk_tree_def)
  moreover have "length (ast_walk_tree t) = length (all_nodes t)" using m by (metis size_mset)
  ultimately show ?thesis by blast
qed

subsection \<open>The import scan finds exactly the denied imports\<close>

lemma import_hit_None: "import_hit ds n = None \<longleftrightarrow> set (imports_of n) \<inter> set ds = {}"
  by (induction ds n rule: import_hit.induct) (auto simp: find_None_iff split: option.splits)

lemma import_hit_Some: "import_hit ds n = Some m \<Longrightarrow> m \<in> set (imports_of n) \<inter> set ds"
  by (induction ds n rule: import_hit.induct) (auto simp: find_Some_iff in_set_conv_nth split: option.splits if_splits)

lemma scan_imports_None: "scan_imports ds ns = None \<longleftrightarrow> (\<forall>n \<in> set ns. import_hit ds n = None)"
  by (induction ns) (auto split: option.splits)

lemma scan_imports_Some: "scan_imports ds ns = Some m \<Longrightarrow> \<exists>n \<in> set ns. import_hit ds n = Some m"
  by (induction ns) (auto split: option.splits)

lemma set_tree_imports: "set (tree_imports t) = (\<Union>n \<in> set (all_nodes t). set (imports_of n))"
  by (simp add: tree_imports_def)

lemma scan_walk_None:
  "scan_imports ds (ast_walk_tree t) = None \<longleftrightarrow> set (tree_imports t) \<inter> set ds = {}"
  unfolding scan_imports_None set_ast_walk import_hit_None set_tree_imports by blast

lemma scan_walk_Some:
  "scan_imports ds (ast_walk_tree t) = Some m \<Longrightarrow> m \<in> set (tree_imports t) \<inter> set ds"
proof -
  assume "scan_imports ds (ast_walk_tree t) = Some m"
  then obtain n where "n \<in> set (all_nodes t)" and "import_hit ds n = Some m"
    using scan_imports_Some set_ast_walk by metis
  then show ?thesis using import_hit_Some set_tree_imports by blast
qed


text \<open>
  C3: the loop over \<open>ast.walk(tree)\<close> returns no module exactly when the tree, at any
  depth, imports none of the denied modules; a module it returns is denied and imported.
\<close>

theorem import_scan_exact:
  "(scan_imports ds (ast_walk_tree t) = None \<longleftrightarrow> set (tree_imports t) \<inter> set ds = {}) \<and>
   (scan_imports ds (ast_walk_tree t) = Some m \<longrightarrow> m \<in> set (tree_imports t) \<inter> set ds)"
  using scan_walk_None scan_walk_Some by blast

theorem import_scan_exact_witness:
  "(scan_imports [''os''] (ast_walk_tree (Node ''Module'' [Node ''FunctionDef'' [Import [''os'']]])) = None
      \<longleftrightarrow> set (tree_imports (Node ''Module'' [Node ''FunctionDef'' [Import [''os'']]])) \<inter> set [''os''] = {}) \<and>
   scan_imports [''os''] (ast_walk_tree (Node ''Module'' [Node ''FunctionDef'' [Import [''os'']]])) = Some ''os'' \<and>
   ''os'' \<in> set (tree_imports (Node ''Module'' [Node ''FunctionDef'' [Import [''os'']]])) \<inter> set [''os'']"
proof -
  have run: "scan_imports [''os''] (ast_walk_tree (Node ''Module'' [Node ''FunctionDef'' [Import [''os'']]])) = Some ''os''"
    by (simp add: ast_walk_tree_def)
  from import_scan_exact[of "[''os'']" "Node ''Module'' [Node ''FunctionDef'' [Import [''os'']]]" "''os''"] run
  show ?thesis by blast
qed

subsection \<open>Each check on its own\<close>

lemma first_pattern_None: "first_pattern ps code = None \<longleftrightarrow> (\<forall>p \<in> set ps. \<not> py_in p code)"
  by (induction ps) auto

lemma first_pattern_Some: "first_pattern ps code = Some p \<Longrightarrow> p \<in> set ps \<and> py_in p code"
  by (induction ps) (auto split: if_splits)

lemma check_dangerous_imports_Safe:
  "check_dangerous_imports parse code = Safe \<longleftrightarrow>
     (\<exists>t. parse code = Inr t \<and> set (tree_imports t) \<inter> set improvement_dangerous_modules = {})"
  by (auto simp: check_dangerous_imports_def scan_walk_None[symmetric] split: sum.splits option.splits)

lemma check_file_operations_Safe:
  "check_file_operations code = Safe \<longleftrightarrow> (\<forall>p \<in> set file_operation_patterns. \<not> py_in p code)"
  by (auto simp: check_file_operations_def first_pattern_None[symmetric] split: option.splits)

lemma check_network_operations_Safe:
  "check_network_operations code = Safe \<longleftrightarrow> (\<forall>p \<in> set network_operation_patterns. \<not> py_in p code)"
  by (auto simp: check_network_operations_def first_pattern_None[symmetric] split: option.splits)

lemma check_syntax_parsed: "parse code = Inr t \<Longrightarrow> check_syntax parse code = Inr Safe"
  by (simp add: check_syntax_def)

lemma safety_verdict_unfold:
  "safety_verdict parse code =
     (case check_syntax parse code of
        Inl e \<Rightarrow> Inl e
      | Inr Safe \<Rightarrow>
          (case check_dangerous_imports parse code of
             Unsafe r \<Rightarrow> Inr (Unsafe r)
           | Safe \<Rightarrow>
               (case check_file_operations code of
                  Unsafe r \<Rightarrow> Inr (Unsafe r)
                | Safe \<Rightarrow> Inr (check_network_operations code)))
      | Inr (Unsafe r) \<Rightarrow> Inr (Unsafe r))"
  by (simp add: safety_verdict_def safety_checks_def split: sum.splits verdict.splits)

subsection \<open>The battery\<close>

text \<open>
  C4: the battery passes a text exactly when it parses, imports no denied module anywhere in
  its tree, and contains none of the file and none of the network patterns.
\<close>

theorem safety_verdict_Safe_iff:
  "safety_verdict parse code = Inr Safe \<longleftrightarrow>
     (\<exists>t. parse code = Inr t \<and> set (tree_imports t) \<inter> set improvement_dangerous_modules = {}) \<and>
     (\<forall>p \<in> set file_operation_patterns. \<not> py_in p code) \<and>
     (\<forall>p \<in> set network_operation_patterns. \<not> py_in p code)"
proof -
  have syn: "check_syntax parse code = Inr Safe"
    if "check_dangerous_imports parse code = Safe"
    using that by (auto simp: check_dangerous_imports_Safe check_syntax_parsed)
  show ?thesis
    by (auto simp: safety_verdict_unfold check_dangerous_imports_Safe[symmetric]
        check_file_operations_Safe[symmetric] check_network_operations_Safe[symmetric] syn
        split: sum.splits verdict.splits)
qed


theorem safety_verdict_Safe_iff_witness:
  "safety_verdict (\<lambda>_. Inr (Node ''Module'' [Import [''json'']])) ''import json'' = Inr Safe"
  using safety_verdict_Safe_iff[of "\<lambda>_. Inr (Node ''Module'' [Import [''json'']])" "''import json''"]
  by (simp add: tree_imports_def improvement_dangerous_modules_def file_operation_patterns_def
      network_operation_patterns_def)

text \<open>
  Syntax is checked first. A text that does not parse is rejected with the parser's
  diagnostic whatever else it contains; an exception of the parser other than
  \<open>SyntaxError\<close> (a null byte in the source raises \<open>ValueError\<close>) escapes the battery.
\<close>

theorem safety_verdict_parse_error:
  assumes "parse code = Inl e"
  shows "safety_verdict parse code =
           (if is_syntax_error e then Inr (Unsafe (''Syntax error: '' @ exc_str e)) else Inl e)"
  using assms by (simp add: safety_verdict_unfold check_syntax_def)

theorem safety_verdict_parse_error_witness:
  "safety_verdict (\<lambda>_. Inl (SyntaxError ''invalid syntax'')) ''def f(:'' =
     Inr (Unsafe (''Syntax error: invalid syntax''))"
  using safety_verdict_parse_error[of "\<lambda>_. Inl (SyntaxError ''invalid syntax'')" "''def f(:''"]
  by simp

text \<open>
  C5: the denylist. When the parsed text imports a denied module (by \<open>import\<close> or by
  \<open>from ... import\<close>, at any depth) and it is the only denied module it imports, the
  battery rejects the text and the reason names that module.
\<close>

theorem safety_verdict_denied_import:
  assumes "parse code = Inr t"
    and "set (tree_imports t) \<inter> set improvement_dangerous_modules = {m}"
  shows "safety_verdict parse code = Inr (Unsafe (''Dangerous import detected: '' @ m))"
proof -
  have "scan_imports improvement_dangerous_modules (ast_walk_tree t) \<noteq> None"
    using assms(2) by (simp add: scan_walk_None)
  then obtain m' where m': "scan_imports improvement_dangerous_modules (ast_walk_tree t) = Some m'"
    by blast
  with assms(2) have "m' = m" using scan_walk_Some by blast
  with m' assms(1) show ?thesis
    by (simp add: safety_verdict_unfold check_syntax_def check_dangerous_imports_def)
qed

definition os_system_tree :: pynode where
  "os_system_tree = Node ''Module'' [Import [''os''], Node ''Expr'' [Node ''Call'' []]]"

theorem safety_verdict_denied_import_witness:
  "safety_verdict (\<lambda>_. Inr os_system_tree) (''import os'' @ [NL] @ ''os.system(rm -rf /)'') =
     Inr (Unsafe (''Dangerous import detected: os''))"
  using safety_verdict_denied_import[of "\<lambda>_. Inr os_system_tree"
      "''import os'' @ [NL] @ ''os.system(rm -rf /)''" os_system_tree "''os''"]
  by (simp add: os_system_tree_def tree_imports_def improvement_dangerous_modules_def
      ast_walk_tree_def)

text \<open>
  The pattern checks over-approximate. A text the file-operation or the network check
  flags stays flagged inside any larger text, comments and string literals included.
\<close>

theorem pattern_checks_overflag:
  assumes "check_file_operations code \<noteq> Safe \<or> check_network_operations code \<noteq> Safe"
  shows "check_file_operations (pre @ code @ post) \<noteq> Safe \<or>
         check_network_operations (pre @ code @ post) \<noteq> Safe"
  using assms by (auto simp: check_file_operations_Safe check_network_operations_Safe)

theorem pattern_checks_overflag_witness:
  "check_file_operations ''open('' \<noteq> Safe \<and>
   check_file_operations (''# '' @ ''open('' @ '' is only a comment'') \<noteq> Safe"
proof -
  have flag: "check_file_operations ''open('' \<noteq> Safe"
    by (simp add: check_file_operations_def file_operation_patterns_def)
  have net: "check_network_operations (''# '' @ ''open('' @ '' is only a comment'') = Safe"
    by (simp add: check_network_operations_def network_operation_patterns_def)
  have "check_file_operations (''# '' @ ''open('' @ '' is only a comment'') \<noteq> Safe \<or>
        check_network_operations (''# '' @ ''open('' @ '' is only a comment'') \<noteq> Safe"
    using flag by (rule pattern_checks_overflag[OF disjI1])
  with net flag show ?thesis by blast
qed

text \<open>
  \<open>CodeModifier.validate_safety\<close> accepts a text exactly when it parses and its tree
  imports none of \<open>os\<close>, \<open>subprocess\<close>, \<open>sys\<close>; otherwise the reason is the
  parser's message or names a denied module the tree imports.
\<close>

theorem validate_safety_correct:
  "(validate_safety parse code = (True, None) \<longleftrightarrow>
      (\<exists>t. parse code = Inr t \<and> set (tree_imports t) \<inter> set modifier_dangerous_modules = {})) \<and>
   (fst (validate_safety parse code) = False \<longleftrightarrow>
      (\<exists>r. validate_safety parse code = (False, Some r) \<and>
        ((\<exists>e. parse code = Inl e \<and> r = exc_str e) \<or>
         (\<exists>t m. parse code = Inr t \<and> m \<in> set (tree_imports t) \<inter> set modifier_dangerous_modules \<and>
                r = ''Dangerous import: '' @ m))))"
  by (auto simp: validate_safety_def scan_walk_None[symmetric] dest: scan_walk_Some
      split: sum.splits option.splits)

text \<open>
  C6 (finding): a dotted import of a denied package is not caught. Both scans compare the
  whole alias name with the denied names, none of which has a dot, so a text whose imports
  are all dotted (\<open>import os.path\<close>, \<open>from subprocess.x import y\<close>) passes
  \<open>validate_safety\<close> and \<open>_check_dangerous_imports\<close>, whatever packages they bind.
\<close>

lemma denied_names_undotted:
  "m \<in> set modifier_dangerous_modules \<union> set improvement_dangerous_modules \<Longrightarrow> CHR ''.'' \<notin> set m"
  by (auto simp: modifier_dangerous_modules_def improvement_dangerous_modules_def)

theorem dotted_import_evades:
  assumes "parse code = Inr t"
    and "\<forall>m \<in> set (tree_imports t). CHR ''.'' \<in> set m"
  shows "validate_safety parse code = (True, None) \<and> check_dangerous_imports parse code = Safe"
proof -
  have "set (tree_imports t) \<inter> set modifier_dangerous_modules = {}"
    and "set (tree_imports t) \<inter> set improvement_dangerous_modules = {}"
    using assms(2) denied_names_undotted by blast+
  then show ?thesis
    using assms(1) by (auto simp: validate_safety_def check_dangerous_imports_Safe scan_walk_None[symmetric])
qed

definition os_path_tree :: pynode where
  "os_path_tree = Node ''Module'' [Import [''os.path''], ImportFrom (Some ''subprocess.run'') [''x'']]"

theorem dotted_import_evades_witness:
  "(\<lambda>_. Inr os_path_tree) ''import os.path'' = (Inr os_path_tree :: pynode py) \<and>
   tree_imports os_path_tree = [''os.path'', ''subprocess.run''] \<and>
   validate_safety (\<lambda>_. Inr os_path_tree) ''import os.path'' = (True, None) \<and>
   check_dangerous_imports (\<lambda>_. Inr os_path_tree) ''import os.path'' = Safe"
proof -
  have d: "\<forall>m \<in> set (tree_imports os_path_tree). CHR ''.'' \<in> set m"
    by (simp add: os_path_tree_def tree_imports_def)
  have p: "(\<lambda>_. Inr os_path_tree) ''import os.path'' = (Inr os_path_tree :: pynode py)" by simp
  have i: "tree_imports os_path_tree = [''os.path'', ''subprocess.run'']"
    by (simp add: os_path_tree_def tree_imports_def)
  from p i dotted_import_evades[OF p d] show ?thesis by blast
qed

end
