(* ===== verification/Mutator.thy ===== *)
theory Mutator
  imports Safety
begin

text \<open>
  The guarded file mutator, \<open>CodeModifier.apply_changes\<close>
  (src/backend/core/agent/modifier.py): validate the new text, rename the file to
  \<open><path>.bak\<close>, write the new text, and rename the backup back if the write raises.
  The file system is a map from paths to contents. What the operating system may refuse is
  a record of faults fixed for the call: \<open>open(path, 'w')\<close> raising, \<open>f.write\<close> raising
  after it has written a prefix, \<open>os.rename\<close> raising. A call returns its Python result
  (or the exception it raises) together with the file map it leaves.
\<close>

section \<open>The file system\<close>

type_synonym path = string
type_synonym files = "path \<rightharpoonup> string"

record faults =
  open_err :: "path \<rightharpoonup> string"         \<comment> \<open>\<open>open(p, 'w')\<close> raises \<open>OSError\<close>\<close>
  write_err :: "path \<rightharpoonup> nat \<times> string"  \<comment> \<open>\<open>f.write\<close> raises after writing a prefix\<close>
  rename_err :: "path \<times> path \<rightharpoonup> string"  \<comment> \<open>\<open>os.rename\<close> refuses\<close>

definition no_faults :: faults where
  "no_faults = \<lparr>open_err = Map.empty, write_err = Map.empty, rename_err = Map.empty\<rparr>"

definition enoent_msg :: "path \<Rightarrow> path \<Rightarrow> string" where
  "enoent_msg src dst =
     ''[Errno 2] No such file or directory: '' @ py_quote src @ '' -> '' @ py_quote dst"

text \<open>\<open>Path(src).rename(dst)\<close>: a missing source raises \<open>FileNotFoundError\<close>; an existing
  target is replaced, as POSIX \<open>rename\<close> does.\<close>

definition path_rename :: "faults \<Rightarrow> path \<Rightarrow> path \<Rightarrow> files \<Rightarrow> files py" where
  "path_rename ft src dst fs =
     (case fs src of
        None \<Rightarrow> Inl (FileNotFoundError (enoent_msg src dst))
      | Some c \<Rightarrow>
          (case rename_err ft (src, dst) of
             Some m \<Rightarrow> Inl (OSError m)
           | None \<Rightarrow> Inr ((fs(src := None))(dst \<mapsto> c))))"

text \<open>\<open>with open(p, 'w') as f: f.write(t)\<close>: opening creates or truncates the file, so a
  write that raises leaves the prefix it wrote.\<close>

definition write_text :: "faults \<Rightarrow> path \<Rightarrow> string \<Rightarrow> files \<Rightarrow> unit py \<times> files" where
  "write_text ft p t fs =
     (case open_err ft p of
        Some m \<Rightarrow> (Inl (OSError m), fs)
      | None \<Rightarrow>
          (case write_err ft p of
             None \<Rightarrow> (Inr (), fs(p \<mapsto> t))
           | Some (n, m) \<Rightarrow> (Inl (OSError m), fs(p \<mapsto> take n t))))"

definition backup_path :: "path \<Rightarrow> path" where
  "backup_path p = p @ ''.bak''"

section \<open>\<open>apply_changes\<close>\<close>

text \<open>
  The Python result is \<open>(success, error_message)\<close>. The rename that makes the backup
  is outside the \<open>try\<close>, so its exception escapes; so does an exception of the rename
  that restores the backup, raised inside the \<open>except\<close> block.
\<close>

definition apply_changes ::
  "parser \<Rightarrow> faults \<Rightarrow> path \<Rightarrow> string \<Rightarrow> bool \<Rightarrow> files \<Rightarrow> (bool \<times> string option) py \<times> files" where
  "apply_changes parse ft p changes backup fs =
     (case validate_syntax parse changes of
        Inl e \<Rightarrow> (Inl e, fs)
      | Inr False \<Rightarrow> (Inr (False, Some ''Invalid Python syntax''), fs)
      | Inr True \<Rightarrow>
          (case validate_safety parse changes of
             (is_safe, reason) \<Rightarrow>
               if \<not> is_safe then (Inr (False, Some (''Safety check failed: '' @ py_fmt_opt reason)), fs)
               else
                 (case (if backup then path_rename ft p (backup_path p) fs else Inr fs) of
                    Inl e \<Rightarrow> (Inl e, fs)
                  | Inr fs1 \<Rightarrow>
                      (case write_text ft p changes fs1 of
                         (Inr _, fs2) \<Rightarrow> (Inr (True, None), fs2)
                       | (Inl e, fs2) \<Rightarrow>
                           if backup then
                             (case path_rename ft (backup_path p) p fs2 of
                                Inl e' \<Rightarrow> (Inl e', fs2)
                              | Inr fs3 \<Rightarrow> (Inr (False, Some (exc_str e)), fs3))
                           else (Inr (False, Some (exc_str e)), fs2)))))"

text \<open>The two checks \<open>apply_changes\<close> runs before it touches the file system.\<close>

definition changes_pass :: "parser \<Rightarrow> string \<Rightarrow> bool" where
  "changes_pass parse changes \<longleftrightarrow>
     validate_syntax parse changes = Inr True \<and> fst (validate_safety parse changes)"

section \<open>Properties\<close>

subsection \<open>The primitive operations\<close>

lemma backup_path_neq [simp]: "backup_path p \<noteq> p" "p \<noteq> backup_path p"
  by (simp_all add: backup_path_def)

lemma path_rename_Inr:
  "path_rename ft src dst fs = Inr fs' \<longleftrightarrow>
     (\<exists>c. fs src = Some c \<and> rename_err ft (src, dst) = None \<and> fs' = (fs(src := None))(dst \<mapsto> c))"
  by (auto simp: path_rename_def split: option.splits)

lemma path_rename_missing: "fs src = None \<Longrightarrow> path_rename ft src dst fs = Inl (FileNotFoundError (enoent_msg src dst))"
  by (simp add: path_rename_def)

lemma write_text_cases:
  "write_text ft p t fs = (r, fs') \<Longrightarrow>
     (r = Inr () \<and> fs' = fs(p \<mapsto> t)) \<or>
     (\<exists>m. r = Inl (OSError m) \<and> (fs' = fs \<or> (\<exists>n. fs' = fs(p \<mapsto> take n t))))"
  by (auto simp: write_text_def split: option.splits)

lemma apply_changes_unchecked:
  "\<not> changes_pass parse changes \<Longrightarrow> snd (apply_changes parse ft p changes backup fs) = fs"
  by (auto simp: changes_pass_def apply_changes_def split: sum.splits bool.splits prod.splits)


lemma apply_changes_backup:
  assumes "changes_pass parse ch"
  shows "apply_changes parse ft p ch True fs =
    (case path_rename ft p (backup_path p) fs of
       Inl e \<Rightarrow> (Inl e, fs)
     | Inr fs1 \<Rightarrow>
         (case write_text ft p ch fs1 of
            (Inr _, fs2) \<Rightarrow> (Inr (True, None), fs2)
          | (Inl e, fs2) \<Rightarrow>
              (case path_rename ft (backup_path p) p fs2 of
                 Inl e' \<Rightarrow> (Inl e', fs2)
               | Inr fs3 \<Rightarrow> (Inr (False, Some (exc_str e)), fs3))))"
  using assms by (auto simp: apply_changes_def changes_pass_def split: prod.splits cong: sum.case_cong prod.case_cong)

lemma apply_changes_no_backup:
  assumes "changes_pass parse ch"
  shows "apply_changes parse ft p ch False fs =
    (case write_text ft p ch fs of
       (Inr _, fs2) \<Rightarrow> (Inr (True, None), fs2)
     | (Inl e, fs2) \<Rightarrow> (Inr (False, Some (exc_str e)), fs2))"
  using assms by (auto simp: apply_changes_def changes_pass_def split: prod.splits cong: sum.case_cong prod.case_cong)

lemma apply_changes_success_passed:
  "apply_changes parse ft p ch backup fs = (Inr (True, None), fs') \<Longrightarrow> changes_pass parse ch"
  by (rule ccontr) (auto simp: apply_changes_def changes_pass_def split: sum.splits bool.splits prod.splits)

subsection \<open>The outcomes of one call\<close>

lemma apply_changes_success_effect:
  assumes "apply_changes parse ft p ch True fs = (Inr (True, None), fs')"
  shows "fs p \<noteq> None \<and> fs' p = Some ch \<and> fs' (backup_path p) = fs p \<and>
         (\<forall>q. q \<noteq> p \<longrightarrow> q \<noteq> backup_path p \<longrightarrow> fs' q = fs q)"
proof -
  have pass: "changes_pass parse ch" using assms by (rule apply_changes_success_passed)
  from assms obtain fs1 where r1: "path_rename ft p (backup_path p) fs = Inr fs1"
    and w: "write_text ft p ch fs1 = (Inr (), fs')"
    by (auto simp: apply_changes_backup[OF pass] split: sum.splits prod.splits unit.splits)
  from r1 obtain c where "fs p = Some c" and fs1: "fs1 = (fs(p := None))(backup_path p \<mapsto> c)"
    by (auto simp: path_rename_Inr)
  moreover from w have "fs' = fs1(p \<mapsto> ch)"
    by (auto simp: write_text_def split: option.splits)
  ultimately show ?thesis by auto
qed

text \<open>
  C1: a successful call with a backup leaves exactly the new text at the path and the
  previous content at \<open><path>.bak\<close>, and touches no other path; success needs the file
  to have existed.
\<close>

theorem apply_changes_success:
  assumes "apply_changes parse ft p ch True fs = (Inr (True, None), fs')"
  shows "fs p \<noteq> None \<and> fs' p = Some ch \<and> fs' (backup_path p) = fs p \<and>
         (\<forall>q. q \<noteq> p \<longrightarrow> q \<noteq> backup_path p \<longrightarrow> fs' q = fs q)"
  using assms by (rule apply_changes_success_effect)

definition scenario_parser :: parser where
  "scenario_parser = (\<lambda>_. Inr (Node ''Module'' [Node ''Assign'' []]))"

definition scenario_before :: files where
  "scenario_before = [''f.py'' \<mapsto> ''x = 1'']"

definition scenario_after :: files where
  "scenario_after = scenario_before(''f.py'' := None, ''f.py.bak'' \<mapsto> ''x = 1'', ''f.py'' \<mapsto> ''x = 2'')"

definition read_only_dir :: faults where
  "read_only_dir =
     no_faults\<lparr>open_err := [''f.py'' \<mapsto> ''[Errno 13] Permission denied: f.py''],
               rename_err := [(''f.py.bak'', ''f.py'') \<mapsto> ''[Errno 13] Permission denied: f.py.bak'']\<rparr>"

lemma scenario_run:
  "apply_changes scenario_parser no_faults ''f.py'' ''x = 2'' True scenario_before =
     (Inr (True, None), scenario_after)"
  by (simp add: apply_changes_def validate_syntax_def validate_safety_def scenario_parser_def
      ast_walk_tree_def modifier_dangerous_modules_def path_rename_def write_text_def
      no_faults_def backup_path_def scenario_before_def scenario_after_def)

theorem apply_changes_success_witness:
  "apply_changes scenario_parser no_faults ''f.py'' ''x = 2'' True scenario_before =
     (Inr (True, None), scenario_after) \<and>
   scenario_after ''f.py'' = Some ''x = 2'' \<and>
   scenario_after ''f.py.bak'' = Some ''x = 1''"
  using apply_changes_success[OF scenario_run] scenario_run
  by (simp add: backup_path_def scenario_before_def)

lemma apply_changes_keeps_original_effect:
  assumes "fs p = Some orig"
    and "apply_changes parse ft p ch True fs = (r, fs')"
  shows "fs' p = Some orig \<or> fs' (backup_path p) = Some orig"
proof (cases "changes_pass parse ch")
  case False
  then have "fs' = fs" using assms(2) apply_changes_unchecked by (metis snd_conv)
  then show ?thesis using assms(1) by simp
next
  case True
  note run = assms(2)[unfolded apply_changes_backup[OF True]]
  show ?thesis
  proof (cases "path_rename ft p (backup_path p) fs")
    case (Inl e)
    with run assms(1) show ?thesis by simp
  next
    case (Inr fs1)
    then have fs1: "fs1 = (fs(p := None))(backup_path p \<mapsto> orig)"
      using assms(1) by (auto simp: path_rename_Inr)
    obtain w fs2 where w: "write_text ft p ch fs1 = (w, fs2)" by fastforce
    have bak2: "fs2 (backup_path p) = Some orig"
      using write_text_cases[OF w] fs1 by auto
    show ?thesis
    proof (cases w)
      case (Inl e)
      with run Inr w bak2 show ?thesis
        by (auto simp: path_rename_Inr split: sum.splits)
    next
      case (Inr u)
      with run \<open>path_rename ft p (backup_path p) fs = Inr fs1\<close> w bak2 show ?thesis by auto
    qed
  qed
qed

text \<open>
  C2: no call with a backup loses the file's content. Whatever the checks decide and
  whichever of the open, the write, the backup rename or the restoring rename fails, the
  previous content is afterwards at the path or at \<open><path>.bak\<close>.
\<close>

theorem apply_changes_keeps_original:
  assumes "fs p = Some orig"
    and "apply_changes parse ft p ch True fs = (r, fs')"
  shows "fs' p = Some orig \<or> fs' (backup_path p) = Some orig"
  using assms by (rule apply_changes_keeps_original_effect)

theorem apply_changes_keeps_original_witness:
  "scenario_before ''f.py'' = Some ''x = 1'' \<and>
   apply_changes scenario_parser no_faults ''f.py'' ''x = 2'' True scenario_before =
     (Inr (True, None), scenario_after) \<and>
   (scenario_after ''f.py'' = Some ''x = 1'' \<or>
    scenario_after (backup_path ''f.py'') = Some ''x = 1'')"
proof -
  have "scenario_before ''f.py'' = Some ''x = 1''" by (simp add: scenario_before_def)
  from apply_changes_keeps_original[OF this scenario_run] scenario_run this show ?thesis by simp
qed


text \<open>
  C7: failure restoration. When the checks pass but the write raises and the backup is
  renamed back, the call reports the write's error and the file system is as before the
  call except that no \<open><path>.bak\<close> remains.
\<close>

theorem apply_changes_restores:
  assumes "changes_pass parse ch"
    and "apply_changes parse ft p ch True fs = (Inr (False, Some m), fs')"
  shows "fs' = fs(backup_path p := None)"
proof -
  note run = assms(2)[unfolded apply_changes_backup[OF assms(1)]]
  from run obtain fs1 where r1: "path_rename ft p (backup_path p) fs = Inr fs1"
    by (auto split: sum.splits)
  then obtain c where c: "fs p = Some c" and fs1: "fs1 = (fs(p := None))(backup_path p \<mapsto> c)"
    by (auto simp: path_rename_Inr)
  obtain w fs2 where w: "write_text ft p ch fs1 = (w, fs2)" by fastforce
  from run r1 w obtain e where "w = Inl e" and r2: "path_rename ft (backup_path p) p fs2 = Inr fs'"
    by (auto split: sum.splits)
  then have bak2: "fs2 (backup_path p) = Some c" and others: "\<forall>q. q \<noteq> p \<longrightarrow> fs2 q = fs1 q"
    using write_text_cases[OF w] fs1 by auto
  from r2 bak2 have "fs' = (fs2(backup_path p := None))(p \<mapsto> c)"
    by (auto simp: path_rename_Inr)
  with others fs1 c show ?thesis by (auto simp: fun_eq_iff)
qed

definition disk_full :: faults where
  "disk_full = no_faults\<lparr>write_err := [''f.py'' \<mapsto> (3, ''[Errno 28] No space left on device'')]\<rparr>"

theorem apply_changes_restores_witness:
  "changes_pass scenario_parser ''x = 2'' \<and>
   apply_changes scenario_parser disk_full ''f.py'' ''x = 2'' True scenario_before =
     (Inr (False, Some ''[Errno 28] No space left on device''), scenario_before(backup_path ''f.py'' := None)) \<and>
   scenario_before(backup_path ''f.py'' := None) = scenario_before"
proof -
  have pass: "changes_pass scenario_parser ''x = 2''"
    by (simp add: changes_pass_def validate_syntax_def validate_safety_def scenario_parser_def
        ast_walk_tree_def modifier_dangerous_modules_def)
  have run: "apply_changes scenario_parser disk_full ''f.py'' ''x = 2'' True scenario_before =
     (Inr (False, Some ''[Errno 28] No space left on device''),
      scenario_before(''f.py'' := None, ''f.py.bak'' \<mapsto> ''x = 1'', ''f.py'' \<mapsto> ''x =''
        , ''f.py.bak'' := None, ''f.py'' \<mapsto> ''x = 1''))"
    by (simp add: apply_changes_backup[OF pass] path_rename_def write_text_def disk_full_def
        no_faults_def backup_path_def scenario_before_def)
  have eq: "scenario_before(backup_path ''f.py'' := None) = scenario_before"
    by (simp add: scenario_before_def backup_path_def fun_eq_iff)
  from apply_changes_restores[OF pass run] run pass eq show ?thesis by simp
qed

text \<open>
  C8 (divergence from the spec): a missing target is not written. The spec says the
  backup step is skipped when there is nothing to back up; the code renames unconditionally,
  outside the \<open>try\<close>, so the call raises \<open>FileNotFoundError\<close> and writes nothing.
\<close>

theorem apply_changes_missing_file:
  assumes "changes_pass parse ch" and "fs p = None"
  shows "apply_changes parse ft p ch True fs =
           (Inl (FileNotFoundError (enoent_msg p (backup_path p))), fs)"
  using assms by (simp add: apply_changes_backup path_rename_missing)

theorem apply_changes_missing_file_witness:
  "changes_pass scenario_parser ''x = 2'' \<and> (Map.empty :: files) ''new.py'' = None \<and>
   apply_changes scenario_parser no_faults ''new.py'' ''x = 2'' True Map.empty =
     (Inl (FileNotFoundError (enoent_msg ''new.py'' (backup_path ''new.py''))), Map.empty)"
proof -
  have pass: "changes_pass scenario_parser ''x = 2''"
    by (simp add: changes_pass_def validate_syntax_def validate_safety_def scenario_parser_def
        ast_walk_tree_def modifier_dangerous_modules_def)
  have "(Map.empty :: files) ''new.py'' = None" by simp
  from apply_changes_missing_file[OF pass this, of no_faults] pass show ?thesis by simp
qed

text \<open>
  C9 (finding): without a backup a failed write loses the file. \<open>open(p, 'w')\<close> has
  already truncated it, the \<open>except\<close> branch restores nothing, and the path is left
  holding the prefix that was written.
\<close>

theorem apply_changes_no_backup_truncates:
  assumes "changes_pass parse ch" and "open_err ft p = None" and "write_err ft p = Some (n, m)"
  shows "apply_changes parse ft p ch False fs = (Inr (False, Some m), fs(p \<mapsto> take n ch))"
  using assms by (simp add: apply_changes_no_backup write_text_def)

theorem apply_changes_no_backup_truncates_witness:
  "apply_changes scenario_parser disk_full ''f.py'' ''x = 2'' False scenario_before =
     (Inr (False, Some ''[Errno 28] No space left on device''), scenario_before(''f.py'' \<mapsto> ''x ='')) \<and>
   (scenario_before(''f.py'' \<mapsto> ''x ='')) ''f.py'' \<noteq> scenario_before ''f.py''"
proof -
  have pass: "changes_pass scenario_parser ''x = 2''"
    by (simp add: changes_pass_def validate_syntax_def validate_safety_def scenario_parser_def
        ast_walk_tree_def modifier_dangerous_modules_def)
  have "open_err disk_full ''f.py'' = None" "write_err disk_full ''f.py'' = Some (3, ''[Errno 28] No space left on device'')"
    by (simp_all add: disk_full_def no_faults_def)
  from apply_changes_no_backup_truncates[OF pass this, of scenario_before] show ?thesis
    by (simp add: scenario_before_def)
qed

text \<open>
  C10: a failed restoration loses the path. When the backup rename succeeds, \<open>open\<close>
  fails and the restoring rename fails too, \<open>apply_changes\<close> raises the rename's error
  (the write's error is not reported) and leaves the target missing, its content only at
  \<open><path>.bak\<close>; the spec requires that no attempt leaves the target missing and that a
  failed restoration be reported distinctly.
\<close>

theorem apply_changes_restore_failure:
  assumes "changes_pass parse ch" and "fs p = Some orig"
    and "rename_err ft (p, backup_path p) = None" and "open_err ft p = Some m1"
    and "rename_err ft (backup_path p, p) = Some m2"
  shows "apply_changes parse ft p ch True fs = (Inl (OSError m2), (fs(p := None))(backup_path p \<mapsto> orig)) \<and>
         ((fs(p := None))(backup_path p \<mapsto> orig)) p = None"
  using assms by (simp add: apply_changes_backup path_rename_def write_text_def)

theorem apply_changes_restore_failure_witness:
  "changes_pass scenario_parser ''x = 2'' \<and> scenario_before ''f.py'' = Some ''x = 1'' \<and>
   rename_err read_only_dir (''f.py'', backup_path ''f.py'') = None \<and>
   open_err read_only_dir ''f.py'' = Some ''[Errno 13] Permission denied: f.py'' \<and>
   rename_err read_only_dir (backup_path ''f.py'', ''f.py'') = Some ''[Errno 13] Permission denied: f.py.bak'' \<and>
   apply_changes scenario_parser read_only_dir ''f.py'' ''x = 2'' True scenario_before =
     (Inl (OSError ''[Errno 13] Permission denied: f.py.bak''),
      (scenario_before(''f.py'' := None))(backup_path ''f.py'' \<mapsto> ''x = 1''))"
proof -
  have c: "changes_pass scenario_parser ''x = 2''"
    by (simp add: changes_pass_def validate_syntax_def validate_safety_def scenario_parser_def
        ast_walk_tree_def modifier_dangerous_modules_def)
  have f: "scenario_before ''f.py'' = Some ''x = 1''" by (simp add: scenario_before_def)
  have r1: "rename_err read_only_dir (''f.py'', backup_path ''f.py'') = None"
    by (simp add: read_only_dir_def no_faults_def backup_path_def)
  have o: "open_err read_only_dir ''f.py'' = Some ''[Errno 13] Permission denied: f.py''"
    by (simp add: read_only_dir_def)
  have r2: "rename_err read_only_dir (backup_path ''f.py'', ''f.py'') = Some ''[Errno 13] Permission denied: f.py.bak''"
    by (simp add: read_only_dir_def backup_path_def)
  from apply_changes_restore_failure[of scenario_parser "''x = 2''" scenario_before "''f.py''", OF c f r1 o r2] c f r1 o r2 show ?thesis by blast
qed


text \<open>
  C11: a text that fails \<open>validate_syntax\<close> or \<open>validate_safety\<close> is rejected before
  the file system is touched: the call does not succeed and leaves every file as it was.
  (Scenario B of the spec: \<open>import os\<close> is rejected naming \<open>os\<close>.)
\<close>

theorem apply_changes_rejects:
  assumes "\<not> changes_pass parse ch"
  shows "\<exists>r. apply_changes parse ft p ch backup fs = (r, fs) \<and> r \<noteq> Inr (True, None)"
proof -
  obtain r fs' where run: "apply_changes parse ft p ch backup fs = (r, fs')" by fastforce
  have "fs' = fs" using apply_changes_unchecked[OF assms, of ft p backup fs] run by simp
  moreover have "r \<noteq> Inr (True, None)"
    using apply_changes_success_passed assms run by blast
  ultimately show ?thesis using run by blast
qed

theorem apply_changes_rejects_witness:
  "\<not> changes_pass (\<lambda>_. Inr os_system_tree) (''import os'' @ [NL] @ ''os.system(rm -rf /)'') \<and>
   apply_changes (\<lambda>_. Inr os_system_tree) no_faults ''f.py'' (''import os'' @ [NL] @ ''os.system(rm -rf /)'')
     True scenario_before =
     (Inr (False, Some ''Safety check failed: Dangerous import: os''), scenario_before) \<and>
   Inr (False, Some ''Safety check failed: Dangerous import: os'') \<noteq> (Inr (True, None) :: (bool \<times> string option) py)"
proof -
  have rej: "\<not> changes_pass (\<lambda>_. Inr os_system_tree) (''import os'' @ [NL] @ ''os.system(rm -rf /)'')"
    by (simp add: changes_pass_def validate_syntax_def validate_safety_def os_system_tree_def
        ast_walk_tree_def modifier_dangerous_modules_def)
  have run: "apply_changes (\<lambda>_. Inr os_system_tree) no_faults ''f.py'' (''import os'' @ [NL] @ ''os.system(rm -rf /)'')
     True scenario_before = (Inr (False, Some ''Safety check failed: Dangerous import: os''), scenario_before)"
    by (simp add: apply_changes_def validate_syntax_def validate_safety_def os_system_tree_def
        ast_walk_tree_def modifier_dangerous_modules_def)
  from apply_changes_rejects[OF rej, of no_faults "''f.py''" True scenario_before] rej run
  show ?thesis by simp
qed

end
