(* ===== verification/Adapters.thy ===== *)
theory Adapters
  imports Prelude
begin

text \<open>
  The model adapters: the abstract \<open>AIModel\<close> (src/backend/core/models/base.py) with its
  two methods, and the providers \<open>OpenAIModel\<close> (openai_model.py) and
  \<open>AnthropicModel\<close> (anthropic_model.py). The class hierarchy becomes a datatype
  \<open>adapter\<close> and the two abstract methods functions that dispatch on it. What lies
  outside the repository is the environment \<open>provider_env\<close>: the providers' APIs
  (one reply, or an error text, per request), Python's \<open>eval\<close>, and the module-global
  \<open>openai.api_key\<close> that \<open>OpenAIModel.__init__\<close> assigns. Each call returns the list
  of provider requests it made with its result, so that "no provider was called" and
  "what was sent" are statements about the model. \<open>await\<close> is sequential composition.
\<close>

section \<open>Messages, options and requests\<close>

record message =
  role :: string
  content :: string

text \<open>The keyword arguments the callers pass through \<open>route_request(**kwargs)\<close>.\<close>

record kwargs =
  kw_messages :: "message list option"
  kw_code :: "string option"
  kw_changes :: "string option"
  kw_model :: "string option"
  kw_temperature :: "rat option"
  kw_max_tokens :: "nat option"

definition no_kwargs :: kwargs where
  "no_kwargs = \<lparr>kw_messages = None, kw_code = None, kw_changes = None, kw_model = None,
                kw_temperature = None, kw_max_tokens = None\<rparr>"

text \<open>\<open>kwargs.get(key, default)\<close>.\<close>

definition kw_get :: "'a option \<Rightarrow> 'a \<Rightarrow> 'a" where
  "kw_get v d = (case v of None \<Rightarrow> d | Some x \<Rightarrow> x)"

datatype api_request =
    OpenAIChat "string option" string "message list" rat nat
      \<comment> \<open>\<open>openai.ChatCompletion.acreate\<close>: global key, model, messages, temperature, max_tokens\<close>
  | AnthropicCompletion string string string nat rat
      \<comment> \<open>\<open>client.completion\<close>: client key, model, prompt, max_tokens_to_sample, temperature\<close>
  | OpenAICreate "string option" string "message list"
      \<comment> \<open>\<open>openai.ChatCompletion.create\<close> of main.py: global key, model, messages\<close>

record provider_env =
  api :: "api_request \<Rightarrow> string + string"  \<comment> \<open>the provider's reply, or the text of its error\<close>
  py_eval :: "string \<Rightarrow> pyval py"          \<comment> \<open>Python's \<open>eval\<close> of a reply\<close>
  openai_api_key :: "string option"        \<comment> \<open>the module global \<open>openai.api_key\<close>\<close>

type_synonym 'a call = "api_request list \<times> 'a py"

datatype adapter =
    OpenAIModel
  | AnthropicModel string string  \<comment> \<open>\<open>self.client\<close>'s key, \<open>self.default_model\<close>\<close>

text \<open>The constructors: \<open>OpenAIModel(api_key)\<close> only assigns the module global.\<close>

definition openai_init :: "string \<Rightarrow> provider_env \<Rightarrow> adapter \<times> provider_env" where
  "openai_init key env = (OpenAIModel, env\<lparr>openai_api_key := Some key\<rparr>)"

definition anthropic_init :: "string \<Rightarrow> adapter" where
  "anthropic_init key = AnthropicModel key ''claude-2''"

section \<open>OpenAIModel\<close>

definition openai_generate_response :: "provider_env \<Rightarrow> message list \<Rightarrow> kwargs \<Rightarrow> string call" where
  "openai_generate_response env msgs kw =
     (let req = OpenAIChat (openai_api_key env) (kw_get (kw_model kw) ''gpt-4'') msgs
                  (kw_get (kw_temperature kw) (7 / 10)) (kw_get (kw_max_tokens kw) 2000)
      in ([req],
          case api env req of
            Inl err \<Rightarrow> Inl (Exception (''OpenAI API error: '' @ err))
          | Inr reply \<Rightarrow> Inr reply))"

text \<open>A line of a triple-quoted prompt, indented by eight spaces in the source.\<close>

definition indented :: "string \<Rightarrow> string" where
  "indented s = NL # ''        '' @ s"

definition openai_analysis_prompt :: "string \<Rightarrow> string" where
  "openai_analysis_prompt code =
     ''Analyze the following code and provide insights:'' @ indented [] @ indented code @
     indented [] @ indented ''Please provide:'' @ indented ''1. Potential issues or bugs'' @
     indented ''2. Security concerns'' @ indented ''3. Performance considerations'' @
     indented ''4. Suggested improvements'' @ indented [] @
     indented ''Format the response as a JSON object with these categories as keys.''"

text \<open>
  \<open>analyze_code\<close> sends two messages through \<open>generate_response\<close> (without the caller's
  keyword arguments), \<open>eval\<close>s the reply, and wraps any exception of either step.
\<close>

definition wrap_analysis :: "provider_env \<Rightarrow> string call \<Rightarrow> pyval call" where
  "wrap_analysis env r =
     (case r of
        (calls, Inl e) \<Rightarrow> (calls, Inl (Exception (''Code analysis failed: '' @ exc_str e)))
      | (calls, Inr reply) \<Rightarrow>
          (calls,
           case py_eval env reply of
             Inl e \<Rightarrow> Inl (Exception (''Code analysis failed: '' @ exc_str e))
           | Inr v \<Rightarrow> Inr v))"

definition openai_analyze_code :: "provider_env \<Rightarrow> string \<Rightarrow> kwargs \<Rightarrow> pyval call" where
  "openai_analyze_code env code kw =
     wrap_analysis env
       (openai_generate_response env
          [\<lparr>role = ''system'', content = ''You are a code analysis expert. Provide detailed, actionable insights.''\<rparr>,
           \<lparr>role = ''user'', content = openai_analysis_prompt code\<rparr>]
          no_kwargs)"

section \<open>AnthropicModel\<close>

text \<open>One turn of \<open>_convert_messages_to_prompt\<close>: a role the loop does not name adds nothing.\<close>

definition convert_message :: "message \<Rightarrow> string" where
  "convert_message m =
     (if role m = ''system'' then [NL, NL] @ ''System: '' @ content m
      else if role m = ''user'' then [NL, NL] @ ''Human: '' @ content m
      else if role m = ''assistant'' then [NL, NL] @ ''Assistant: '' @ content m
      else [])"

definition convert_messages_to_prompt :: "message list \<Rightarrow> string" where
  "convert_messages_to_prompt msgs =
     lstrip (foldl (\<lambda>prompt m. prompt @ convert_message m) [] msgs @ [NL, NL] @ ''Assistant:'')"

definition anthropic_generate_response ::
  "provider_env \<Rightarrow> string \<Rightarrow> string \<Rightarrow> message list \<Rightarrow> kwargs \<Rightarrow> string call" where
  "anthropic_generate_response env key default_model msgs kw =
     (let req = AnthropicCompletion key (kw_get (kw_model kw) default_model)
                  (convert_messages_to_prompt msgs)
                  (kw_get (kw_max_tokens kw) 2000) (kw_get (kw_temperature kw) (7 / 10))
      in ([req],
          case api env req of
            Inl err \<Rightarrow> Inl (Exception (''Anthropic API error: '' @ err))
          | Inr reply \<Rightarrow> Inr reply))"

definition anthropic_analysis_prompt :: "string \<Rightarrow> string" where
  "anthropic_analysis_prompt code =
     ''Please analyze this code and provide a detailed report:'' @ [NL] @ indented code @ [NL] @
     indented ''Format your response as a JSON object with these keys:'' @
     indented ''- potential_issues: List of potential bugs or issues'' @
     indented ''- security_concerns: List of security considerations'' @
     indented ''- performance_notes: List of performance-related observations'' @
     indented ''- improvement_suggestions: List of specific improvements'' @
     indented [] @ indented ''Be thorough but concise.''"

definition anthropic_analyze_code ::
  "provider_env \<Rightarrow> string \<Rightarrow> string \<Rightarrow> string \<Rightarrow> kwargs \<Rightarrow> pyval call" where
  "anthropic_analyze_code env key default_model code kw =
     wrap_analysis env
       (anthropic_generate_response env key default_model
          [\<lparr>role = ''system'', content = ''You are an expert code analyzer.''\<rparr>,
           \<lparr>role = ''user'', content = anthropic_analysis_prompt code\<rparr>]
          no_kwargs)"

section \<open>The interface \<open>AIModel\<close>\<close>

fun generate_response :: "provider_env \<Rightarrow> adapter \<Rightarrow> message list \<Rightarrow> kwargs \<Rightarrow> string call" where
  "generate_response env OpenAIModel msgs kw = openai_generate_response env msgs kw"
| "generate_response env (AnthropicModel key dm) msgs kw = anthropic_generate_response env key dm msgs kw"

fun analyze_code :: "provider_env \<Rightarrow> adapter \<Rightarrow> string \<Rightarrow> kwargs \<Rightarrow> pyval call" where
  "analyze_code env OpenAIModel code kw = openai_analyze_code env code kw"
| "analyze_code env (AnthropicModel key dm) code kw = anthropic_analyze_code env key dm code kw"

text \<open>The provider name each adapter puts in front of a provider error.\<close>

fun provider_prefix :: "adapter \<Rightarrow> string" where
  "provider_prefix OpenAIModel = ''OpenAI API error: ''"
| "provider_prefix (AnthropicModel _ _) = ''Anthropic API error: ''"


text \<open>The roles \<open>_convert_messages_to_prompt\<close> renders.\<close>

definition known_role :: "message \<Rightarrow> bool" where
  "known_role m \<longleftrightarrow> role m \<in> {''system'', ''user'', ''assistant''}"

section \<open>Properties\<close>

subsection \<open>Prompt conversion\<close>

lemma foldl_append_concat: "foldl (\<lambda>p m. p @ f m) acc ms = acc @ concat (map f ms)"
  by (induction ms arbitrary: acc) simp_all

lemma convert_message_unknown: "\<not> known_role m \<Longrightarrow> convert_message m = []"
  by (simp add: convert_message_def known_role_def)

lemma concat_map_convert_filter:
  "concat (map convert_message (filter known_role msgs)) = concat (map convert_message msgs)"
  by (induction msgs) (simp_all add: convert_message_unknown)

lemma lstrip_keeps_suffix: "\<exists>pre. lstrip (s @ [NL, NL] @ ''Assistant:'') = pre @ ''Assistant:''"
proof (induction s)
  case Nil
  show ?case by (simp add: lstrip_def py_isspace_def)
next
  case (Cons c s)
  then obtain pre where IH: "lstrip (s @ [NL, NL] @ ''Assistant:'') = pre @ ''Assistant:''" by blast
  show ?case
  proof (cases "py_isspace c")
    case True
    with IH show ?thesis by (simp add: lstrip_def)
  next
    case False
    then show ?thesis by (simp add: lstrip_def)
  qed
qed

text \<open>
  The Anthropic prompt is the rendering of the messages with the roles
  \<open>system\<close>, \<open>user\<close> and \<open>assistant\<close>, left-stripped, ending in \<open>Assistant:\<close>;
  messages of any other role are dropped without a trace.
\<close>

theorem convert_messages_to_prompt_spec:
  "convert_messages_to_prompt msgs =
     lstrip (concat (map convert_message (filter known_role msgs)) @ [NL, NL] @ ''Assistant:'') \<and>
   (\<exists>pre. convert_messages_to_prompt msgs = pre @ ''Assistant:'')"
proof -
  have eq: "convert_messages_to_prompt msgs =
     lstrip (concat (map convert_message (filter known_role msgs)) @ [NL, NL] @ ''Assistant:'')"
    by (simp only: convert_messages_to_prompt_def foldl_append_concat concat_map_convert_filter append_Nil)
  then show ?thesis using lstrip_keeps_suffix by metis
qed

subsection \<open>Provider calls\<close>

lemma generate_response_call:
  "\<exists>req. generate_response env a msgs kw =
     ([req], case api env req of
               Inl err \<Rightarrow> Inl (Exception (provider_prefix a @ err))
             | Inr reply \<Rightarrow> Inr reply)"
  by (cases a) (simp_all add: openai_generate_response_def anthropic_generate_response_def Let_def
      cong: sum.case_cong)

text \<open>
  \<open>generate_response\<close> makes exactly one provider request; a provider error becomes
  an \<open>Exception\<close> whose text names the provider and carries the provider's message, and
  a reply is returned as it is, never replaced by an empty text.
\<close>

theorem generate_response_one_call:
  "\<exists>req. generate_response env a msgs kw =
     ([req], case api env req of
               Inl err \<Rightarrow> Inl (Exception (provider_prefix a @ err))
             | Inr reply \<Rightarrow> Inr reply)"
  by (rule generate_response_call)

lemma analyze_code_via_generate:
  "analyze_code env a code kw = wrap_analysis env (generate_response env a
     [\<lparr>role = ''system'', content = (case a of OpenAIModel \<Rightarrow> ''You are a code analysis expert. Provide detailed, actionable insights.''
                                        | AnthropicModel _ _ \<Rightarrow> ''You are an expert code analyzer.'')\<rparr>,
      \<lparr>role = ''user'', content = (case a of OpenAIModel \<Rightarrow> openai_analysis_prompt code
                                      | AnthropicModel _ _ \<Rightarrow> anthropic_analysis_prompt code)\<rparr>] no_kwargs)"
  by (cases a) (simp_all add: openai_analyze_code_def anthropic_analyze_code_def)

lemma analyze_code_call:
  "\<exists>req. analyze_code env a code kw =
     ([req], case api env req of
               Inl err \<Rightarrow> Inl (Exception (''Code analysis failed: '' @ provider_prefix a @ err))
             | Inr reply \<Rightarrow>
                 (case py_eval env reply of
                    Inl e \<Rightarrow> Inl (Exception (''Code analysis failed: '' @ exc_str e))
                  | Inr v \<Rightarrow> Inr v))"
proof -
  obtain req where g: "generate_response env a
     [\<lparr>role = ''system'', content = (case a of OpenAIModel \<Rightarrow> ''You are a code analysis expert. Provide detailed, actionable insights.''
                                        | AnthropicModel _ _ \<Rightarrow> ''You are an expert code analyzer.'')\<rparr>,
      \<lparr>role = ''user'', content = (case a of OpenAIModel \<Rightarrow> openai_analysis_prompt code
                                      | AnthropicModel _ _ \<Rightarrow> anthropic_analysis_prompt code)\<rparr>] no_kwargs =
     ([req], case api env req of Inl err \<Rightarrow> Inl (Exception (provider_prefix a @ err)) | Inr reply \<Rightarrow> Inr reply)"
    using generate_response_call by blast
  show ?thesis
    by (rule exI[of _ req]) (simp add: analyze_code_via_generate g wrap_analysis_def split: sum.splits)
qed

text \<open>
  \<open>analyze_code\<close> makes exactly one provider request. A provider error surfaces
  as \<open>Code analysis failed: <Provider> API error: <message>\<close>; a reply is passed to
  \<open>eval\<close>, whose failure surfaces as \<open>Code analysis failed: <message>\<close>.
\<close>

theorem analyze_code_errors:
  "\<exists>req. analyze_code env a code kw =
     ([req], case api env req of
               Inl err \<Rightarrow> Inl (Exception (''Code analysis failed: '' @ provider_prefix a @ err))
             | Inr reply \<Rightarrow>
                 (case py_eval env reply of
                    Inl e \<Rightarrow> Inl (Exception (''Code analysis failed: '' @ exc_str e))
                  | Inr v \<Rightarrow> Inr v))"
  by (rule analyze_code_call)

text \<open>
  C12 (finding): \<open>analyze_code\<close> ignores every keyword argument. The proposed
  \<open>changes\<close> that \<open>CodeModifier.analyze_code_changes\<close> passes are never sent to the
  provider, and a \<open>model\<close>, \<open>temperature\<close> or \<open>max_tokens\<close> option has no effect.
\<close>

theorem analyze_code_ignores_kwargs: "analyze_code env a code kw = analyze_code env a code kw'"
  by (cases a) (simp_all add: openai_analyze_code_def anthropic_analyze_code_def)

text \<open>
  The defaults of \<open>kwargs.get\<close>. Without options, OpenAI is asked for \<open>gpt-4\<close>
  with the process-global key, an Anthropic adapter built by its constructor for
  \<open>claude-2\<close> with its own key; both at temperature 0.7 and at most 2000 tokens.
\<close>

theorem generate_response_defaults:
  "fst (generate_response env OpenAIModel msgs no_kwargs) =
     [OpenAIChat (openai_api_key env) ''gpt-4'' msgs (7 / 10) 2000] \<and>
   fst (generate_response env (anthropic_init key) msgs no_kwargs) =
     [AnthropicCompletion key ''claude-2'' (convert_messages_to_prompt msgs) 2000 (7 / 10)]"
  by (simp add: openai_generate_response_def anthropic_generate_response_def anthropic_init_def
      no_kwargs_def kw_get_def Let_def)

text \<open>
  The OpenAI key is process-global. An \<open>OpenAIModel\<close> holds no key; every
  OpenAI request carries the key of the most recently constructed \<open>OpenAIModel\<close>,
  whichever instance makes it.
\<close>

theorem openai_key_is_global:
  assumes "openai_init k1 env = (a1, env1)" and "openai_init k2 env1 = (a2, env2)"
  shows "\<exists>m t n. fst (generate_response env2 a1 msgs kw) = [OpenAIChat (Some k2) m msgs t n]"
  using assms by (auto simp: openai_init_def openai_generate_response_def Let_def)

definition silent_env :: provider_env where
  "silent_env = \<lparr>api = (\<lambda>_. Inr []), py_eval = (\<lambda>_. Inr PNone), openai_api_key = None\<rparr>"

theorem openai_key_is_global_witness:
  "openai_init ''sk-first'' silent_env = (OpenAIModel, silent_env\<lparr>openai_api_key := Some ''sk-first''\<rparr>) \<and>
   openai_init ''sk-second'' (silent_env\<lparr>openai_api_key := Some ''sk-first''\<rparr>) =
     (OpenAIModel, silent_env\<lparr>openai_api_key := Some ''sk-second''\<rparr>) \<and>
   (\<exists>m t n. fst (generate_response (silent_env\<lparr>openai_api_key := Some ''sk-second''\<rparr>) OpenAIModel [] no_kwargs) =
      [OpenAIChat (Some ''sk-second'') m [] t n])"
proof -
  have i1: "openai_init ''sk-first'' silent_env = (OpenAIModel, silent_env\<lparr>openai_api_key := Some ''sk-first''\<rparr>)"
    by (simp add: openai_init_def)
  have i2: "openai_init ''sk-second'' (silent_env\<lparr>openai_api_key := Some ''sk-first''\<rparr>) =
     (OpenAIModel, silent_env\<lparr>openai_api_key := Some ''sk-second''\<rparr>)"
    by (simp add: openai_init_def)
  from openai_key_is_global[OF i1 i2, of "[]" no_kwargs] i1 i2 show ?thesis by blast
qed

end
