(* ===== verification/Router.thy ===== *)
theory Router
  imports Adapters
begin

text \<open>
  The model router, \<open>ModelRouter\<close> (src/backend/core/models/model_router.py): a Python
  dict from logical model names to adapters, \<open>register_model\<close>, \<open>get_model\<close>, and
  \<open>route_request\<close>, which looks the name up first and then dispatches on the request
  type. The abstract specification of the registry is a HOL map; \<open>models_map\<close> is the
  abstraction and registration refines map update.
\<close>

section \<open>The registry\<close>

record router =
  models :: "(string, adapter) pydict"

definition router_init :: router where
  "router_init = \<lparr>models = []\<rparr>"

definition register_model :: "string \<Rightarrow> adapter \<Rightarrow> router \<Rightarrow> router" where
  "register_model name m r = r\<lparr>models := dict_set (models r) name m\<rparr>"

definition get_model :: "router \<Rightarrow> string \<Rightarrow> adapter option" where
  "get_model r name = dict_get (models r) name"

definition models_map :: "router \<Rightarrow> string \<rightharpoonup> adapter" where
  "models_map r = map_of (models r)"

section \<open>Dispatch\<close>

datatype route_result = ChatReply string | Analysis pyval

definition map_call :: "('a \<Rightarrow> 'b) \<Rightarrow> 'a call \<Rightarrow> 'b call" where
  "map_call f c = (fst c, map_sum id f (snd c))"

text \<open>
  \<open>model.generate_response(**kwargs)\<close> needs the keyword \<open>messages\<close> and
  \<open>model.analyze_code(**kwargs)\<close> the keyword \<open>code\<close>: without it Python raises
  \<open>TypeError\<close> before the method body runs.
\<close>

definition missing_arg :: "string \<Rightarrow> string \<Rightarrow> py_exc" where
  "missing_arg meth arg =
     TypeError (meth @ ''() missing 1 required positional argument: '' @ py_quote arg)"

definition route_request ::
  "provider_env \<Rightarrow> router \<Rightarrow> string \<Rightarrow> string \<Rightarrow> kwargs \<Rightarrow> route_result call" where
  "route_request env r model_name request_type kw =
     (case get_model r model_name of
        None \<Rightarrow> ([], Inl (ModelNotFoundError (''Model '' @ model_name @ '' not found'')))
      | Some m \<Rightarrow>
          if request_type = ''chat'' then
            (case kw_messages kw of
               None \<Rightarrow> ([], Inl (missing_arg ''generate_response'' ''messages''))
             | Some msgs \<Rightarrow> map_call ChatReply (generate_response env m msgs kw))
          else if request_type = ''code_analysis'' then
            (case kw_code kw of
               None \<Rightarrow> ([], Inl (missing_arg ''analyze_code'' ''code''))
             | Some code \<Rightarrow> map_call Analysis (analyze_code env m code kw))
          else ([], Inl (ValueError (''Unknown request type: '' @ request_type))))"

section \<open>Properties\<close>

lemma get_model_models_map: "get_model r = models_map r"
  by (simp add: get_model_def models_map_def fun_eq_iff)

text \<open>
  Registration refines map update: after \<open>register_model name m\<close> the name is bound
  to \<open>m\<close>, whatever it was bound to before (last write wins), and every other binding is
  unchanged.
\<close>

theorem register_model_refines:
  "models_map (register_model name m r) = (models_map r)(name \<mapsto> m)"
  by (simp add: register_model_def models_map_def)

text \<open>
  The registry stays a dict: whatever sequence of registrations built it, each name is
  bound at most once and the bound names are exactly the registered ones.
\<close>

theorem register_models_wf:
  "dict_wf (models (fold (\<lambda>(n, a). register_model n a) regs router_init)) \<and>
   set (dict_keys (models (fold (\<lambda>(n, a). register_model n a) regs router_init))) = set (map fst regs)"
proof -
  have "dict_wf (models r) \<Longrightarrow>
        dict_wf (models (fold (\<lambda>(n, a). register_model n a) regs r)) \<and>
        set (dict_keys (models (fold (\<lambda>(n, a). register_model n a) regs r))) =
          set (dict_keys (models r)) \<union> set (map fst regs)" for r
  proof (induction regs arbitrary: r)
    case Nil
    then show ?case by simp
  next
    case (Cons reg regs)
    obtain n a where reg: "reg = (n, a)" by fastforce
    have wf: "dict_wf (models (register_model n a r))"
      using Cons.prems by (simp add: register_model_def)
    have keys: "set (dict_keys (models (register_model n a r))) = insert n (set (dict_keys (models r)))"
      by (simp add: register_model_def del: set_map)
    show ?case
      using Cons.IH[OF wf] keys by (auto simp: reg)
  qed
  from this[of router_init] show ?thesis by (simp add: router_init_def)
qed


text \<open>
  C13: routing to a name that is not registered raises \<open>ModelNotFoundError\<close> naming it,
  whatever the request type, and calls no provider.
\<close>

theorem route_unregistered:
  assumes "get_model r name = None"
  shows "route_request env r name kind kw = ([], Inl (ModelNotFoundError (''Model '' @ name @ '' not found'')))"
  using assms by (simp add: route_request_def)

theorem route_unregistered_witness:
  "route_request silent_env router_init ''gpt-4'' ''chat'' no_kwargs =
     ([], Inl (ModelNotFoundError ''Model gpt-4 not found''))"
proof -
  have "get_model router_init ''gpt-4'' = None" by (simp add: get_model_def router_init_def)
  from route_unregistered[OF this] show ?thesis by simp
qed

text \<open>
  A request type other than \<open>chat\<close> and \<open>code_analysis\<close> for a registered name
  raises \<open>ValueError\<close> naming the type, before any provider call.
\<close>

theorem route_unknown_kind:
  assumes "get_model r name = Some m" and "kind \<noteq> ''chat''" and "kind \<noteq> ''code_analysis''"
  shows "route_request env r name kind kw = ([], Inl (ValueError (''Unknown request type: '' @ kind)))"
  using assms by (simp add: route_request_def)

theorem route_unknown_kind_witness:
  "route_request silent_env (register_model ''claude'' (anthropic_init ''k'') router_init) ''claude'' ''stream'' no_kwargs =
     ([], Inl (ValueError ''Unknown request type: stream''))"
proof -
  have "get_model (register_model ''claude'' (anthropic_init ''k'') router_init) ''claude'' = Some (anthropic_init ''k'')"
    by (simp add: get_model_def register_model_def router_init_def)
  from route_unknown_kind[OF this] show ?thesis by simp
qed

text \<open>
  A registered name dispatches \<open>chat\<close> to the adapter's \<open>generate_response\<close> and
  \<open>code_analysis\<close> to its \<open>analyze_code\<close>, with the caller's keyword arguments, and
  returns what the adapter returns.
\<close>

theorem route_dispatch:
  assumes "get_model r name = Some m"
  shows "route_request env r name ''chat'' (kw\<lparr>kw_messages := Some msgs\<rparr>) =
           map_call ChatReply (generate_response env m msgs (kw\<lparr>kw_messages := Some msgs\<rparr>)) \<and>
         route_request env r name ''code_analysis'' (kw\<lparr>kw_code := Some code\<rparr>) =
           map_call Analysis (analyze_code env m code (kw\<lparr>kw_code := Some code\<rparr>))"
  using assms by (simp add: route_request_def)

theorem route_dispatch_witness:
  "route_request silent_env (register_model ''gpt-4'' OpenAIModel router_init) ''gpt-4'' ''chat''
     (no_kwargs\<lparr>kw_messages := Some []\<rparr>) =
     map_call ChatReply (generate_response silent_env OpenAIModel [] (no_kwargs\<lparr>kw_messages := Some []\<rparr>)) \<and>
   route_request silent_env (register_model ''gpt-4'' OpenAIModel router_init) ''gpt-4'' ''code_analysis''
     (no_kwargs\<lparr>kw_code := Some ''x = 1''\<rparr>) =
     map_call Analysis (analyze_code silent_env OpenAIModel ''x = 1'' (no_kwargs\<lparr>kw_code := Some ''x = 1''\<rparr>))"
proof -
  have "get_model (register_model ''gpt-4'' OpenAIModel router_init) ''gpt-4'' = Some OpenAIModel"
    by (simp add: get_model_def register_model_def router_init_def)
  from route_dispatch[OF this] show ?thesis by blast
qed

text \<open>
  Spec scenario D: a code analysis routed to \<open>claude\<close>, whose provider call fails,
  reaches the caller as an \<open>Exception\<close> after exactly one provider request. Its text
  carries the provider's message and names the provider as \<open>Anthropic\<close>, not as the
  logical name \<open>claude\<close> the spec asks for.
\<close>

theorem route_claude_provider_failure:
  assumes "get_model r ''claude'' = Some (AnthropicModel key dm)"
    and "kw_code kw = Some code"
    and "\<forall>req. api env req = Inl msg"
  shows "\<exists>req. route_request env r ''claude'' ''code_analysis'' kw =
           ([req], Inl (Exception (''Code analysis failed: Anthropic API error: '' @ msg)))"
proof -
  obtain req where "analyze_code env (AnthropicModel key dm) code kw =
     ([req], case api env req of
               Inl err \<Rightarrow> Inl (Exception (''Code analysis failed: '' @ provider_prefix (AnthropicModel key dm) @ err))
             | Inr reply \<Rightarrow>
                 (case py_eval env reply of
                    Inl e \<Rightarrow> Inl (Exception (''Code analysis failed: '' @ exc_str e))
                  | Inr v \<Rightarrow> Inr v))"
    using analyze_code_call by blast
  with assms show ?thesis by (auto simp: route_request_def map_call_def)
qed

definition failing_env :: provider_env where
  "failing_env = silent_env\<lparr>api := (\<lambda>_. Inl ''401 invalid x-api-key'')\<rparr>"

theorem route_claude_provider_failure_witness:
  "\<exists>req. route_request failing_env (register_model ''claude'' (anthropic_init ''k'') router_init) ''claude''
     ''code_analysis'' (no_kwargs\<lparr>kw_code := Some ''x = 1''\<rparr>) =
     ([req], Inl (Exception (''Code analysis failed: Anthropic API error: '' @ ''401 invalid x-api-key'')))"
proof -
  have g: "get_model (register_model ''claude'' (anthropic_init ''k'') router_init) ''claude'' =
      Some (AnthropicModel ''k'' ''claude-2'')"
    by (simp add: get_model_def register_model_def router_init_def anthropic_init_def)
  have c: "kw_code (no_kwargs\<lparr>kw_code := Some ''x = 1''\<rparr>) = Some ''x = 1''" by simp
  have a: "\<forall>req. api failing_env req = Inl ''401 invalid x-api-key''" by (simp add: failing_env_def)
  show ?thesis by (rule route_claude_provider_failure[OF g c a])
qed

end
