(* ===== verification/Agent.thy ===== *)
theory Agent
  imports Router Mutator
begin

text \<open>
  The agent, \<open>Agent\<close> (src/backend/core/agent/agent.py), and the analysis step of
  \<open>CodeModifier\<close> (modifier.py). The agent's state is its conversation memory.
  \<open>process_request\<close> appends the user's message, routes a chat with the system prompt and
  the last five memory entries, and appends the reply or, if anything raised, an entry of
  role \<open>error\<close>. \<open>execute_code_modification\<close> reads the file, has \<open>gpt-4\<close> analyse
  it, and calls \<open>apply_changes\<close> unless the analysis reports critical issues; every
  exception becomes a result of status \<open>error\<close>. The event loop's clock is an input
  (the two readings of \<open>loop.time()\<close> a request makes).
\<close>

section \<open>Memory and chat\<close>

record mem_entry =
  m_role :: string
  m_content :: string
  m_time :: rat

record agent =
  memory :: "mem_entry list"

definition agent_init :: agent where
  "agent_init = \<lparr>memory = []\<rparr>"

definition agent_system_prompt :: string where
  "agent_system_prompt =
     ''You are Aiden, a self-improving AI agent. '' @
     ''You can analyze and modify code, including your own implementation.''"

text \<open>\<open>self.memory[-5:]\<close> is the last five entries, all of them when there are fewer.\<close>

definition context_messages :: "mem_entry list \<Rightarrow> message list" where
  "context_messages mem =
     \<lparr>role = ''system'', content = agent_system_prompt\<rparr> #
     map (\<lambda>m. \<lparr>role = m_role m, content = m_content m\<rparr>) (drop (length mem - 5) mem)"

text \<open>A chat route returns the adapter's text (\<open>ChatReply\<close>); the other case is not reached.\<close>

fun reply_text :: "route_result \<Rightarrow> string" where
  "reply_text (ChatReply s) = s"
| "reply_text (Analysis _) = []"

definition process_request ::
  "provider_env \<Rightarrow> router \<Rightarrow> rat \<times> rat \<Rightarrow> string \<Rightarrow> string \<Rightarrow> agent \<Rightarrow>
     (api_request list \<times> string) \<times> agent" where
  "process_request env r clock message model ag =
     (let mem1 = memory ag @ [\<lparr>m_role = ''user'', m_content = message, m_time = fst clock\<rparr>];
          (calls, res) = route_request env r model ''chat''
                           (no_kwargs\<lparr>kw_messages := Some (context_messages mem1)\<rparr>)
      in case res of
           Inr resp \<Rightarrow>
             ((calls, reply_text resp),
              ag\<lparr>memory := mem1 @ [\<lparr>m_role = ''assistant'', m_content = reply_text resp, m_time = snd clock\<rparr>]\<rparr>)
         | Inl e \<Rightarrow>
             ((calls, ''Error processing request: '' @ exc_str e),
              ag\<lparr>memory := mem1 @ [\<lparr>m_role = ''error'', m_content = ''Error processing request: '' @ exc_str e,
                                     m_time = snd clock\<rparr>]\<rparr>))"

text \<open>The entry a request appends for the user's message.\<close>

definition user_entry :: "rat \<times> rat \<Rightarrow> string \<Rightarrow> mem_entry" where
  "user_entry clock message = \<lparr>m_role = ''user'', m_content = message, m_time = fst clock\<rparr>"

section \<open>Code modification\<close>

text \<open>\<open>CodeModifier.read_file\<close>: \<open>open(file_path, 'r')\<close> of a missing file raises.\<close>

definition read_file :: "files \<Rightarrow> path \<Rightarrow> string py" where
  "read_file fs p =
     (case fs p of
        None \<Rightarrow> Inl (FileNotFoundError (''[Errno 2] No such file or directory: '' @ py_quote p))
      | Some c \<Rightarrow> Inr c)"

fun analysis_value :: "route_result \<Rightarrow> pyval" where
  "analysis_value (Analysis v) = v"
| "analysis_value (ChatReply s) = PStr s"

text \<open>\<open>CodeModifier.analyze_code_changes\<close>: always the model named \<open>gpt-4\<close>.\<close>

definition analyze_code_changes :: "provider_env \<Rightarrow> router \<Rightarrow> files \<Rightarrow> path \<Rightarrow> string \<Rightarrow> pyval call" where
  "analyze_code_changes env r fs p proposed =
     (case read_file fs p of
        Inl e \<Rightarrow> ([], Inl e)
      | Inr current \<Rightarrow>
          map_call analysis_value
            (route_request env r ''gpt-4'' ''code_analysis''
               (no_kwargs\<lparr>kw_code := Some current, kw_changes := Some proposed\<rparr>)))"

primrec py_type_name :: "pyval \<Rightarrow> string" where
  "py_type_name PNone = ''NoneType''"
| "py_type_name (PBool _) = ''bool''"
| "py_type_name (PInt _) = ''int''"
| "py_type_name (PStr _) = ''str''"
| "py_type_name (PList _) = ''list''"
| "py_type_name (PDict _) = ''dict''"

text \<open>\<open>x.get(key)\<close>: only a dict has the method.\<close>

definition py_get :: "pyval \<Rightarrow> string \<Rightarrow> pyval py" where
  "py_get v key =
     (case v of
        PDict d \<Rightarrow> Inr (case dict_get d key of None \<Rightarrow> PNone | Some x \<Rightarrow> x)
      | _ \<Rightarrow> Inl (AttributeError (py_quote (py_type_name v) @ '' object has no attribute '' @ py_quote ''get'')))"

text \<open>The three result dicts of \<open>execute_code_modification\<close>, by their \<open>status\<close>.\<close>

datatype mod_result =
    ModSuccess pyval                      \<comment> \<open>\<open>{"status": "success", "analysis": a}\<close>\<close>
  | ModError "string option" "pyval option" \<comment> \<open>\<open>{"status": "error", "message": m[, "analysis": a]}\<close>\<close>
  | ModRejected pyval                     \<comment> \<open>\<open>{"status": "rejected", "issues": i}\<close>\<close>

definition execute_code_modification ::
  "provider_env \<Rightarrow> router \<Rightarrow> parser \<Rightarrow> faults \<Rightarrow> path \<Rightarrow> string \<Rightarrow> files \<Rightarrow>
     (api_request list \<times> mod_result) \<times> files" where
  "execute_code_modification env r parse ft p changes fs =
     (case analyze_code_changes env r fs p changes of
        (calls, Inl e) \<Rightarrow> ((calls, ModError (Some (exc_str e)) None), fs)
      | (calls, Inr analysis) \<Rightarrow>
          (case py_get analysis ''critical_issues'' of
             Inl e \<Rightarrow> ((calls, ModError (Some (exc_str e)) None), fs)
           | Inr issues \<Rightarrow>
               if \<not> py_truthy issues then
                 (case apply_changes parse ft p changes True fs of
                    (Inl e, fs') \<Rightarrow> ((calls, ModError (Some (exc_str e)) None), fs')
                  | (Inr (success, err), fs') \<Rightarrow>
                      if success then ((calls, ModSuccess analysis), fs')
                      else ((calls, ModError err (Some analysis)), fs'))
               else ((calls, ModRejected issues), fs)))"


definition openai_router :: router where
  "openai_router = register_model ''gpt-4'' OpenAIModel router_init"

section \<open>Properties\<close>

subsection \<open>The chat memory\<close>

lemma process_request_cases:
  "process_request env r clock message model ag =
     (let mem1 = memory ag @ [user_entry clock message];
          (calls, res) = route_request env r model ''chat''
                           (no_kwargs\<lparr>kw_messages := Some (context_messages mem1)\<rparr>);
          reply = (case res of Inr resp \<Rightarrow> reply_text resp
                             | Inl e \<Rightarrow> ''Error processing request: '' @ exc_str e);
          role' = (case res of Inr _ \<Rightarrow> ''assistant'' | Inl _ \<Rightarrow> ''error'')
      in ((calls, reply), ag\<lparr>memory := mem1 @ [\<lparr>m_role = role', m_content = reply, m_time = snd clock\<rparr>]\<rparr>))"
  by (simp add: process_request_def user_entry_def Let_def split: prod.splits sum.splits)

lemma process_request_memory_effect:
  assumes "process_request env r clock message model ag = ((calls, reply), ag')"
  shows "\<exists>e. memory ag' = memory ag @ [user_entry clock message, e] \<and>
             m_content e = reply \<and> m_role e \<in> {''assistant'', ''error''}"
  using assms by (auto simp: process_request_cases Let_def split: prod.splits sum.splits)

text \<open>
  Every request adds exactly two entries to the memory: the user's message, then an
  entry of role \<open>assistant\<close> or \<open>error\<close> whose content is what the request returns.
\<close>

theorem process_request_memory:
  assumes "process_request env r clock message model ag = ((calls, reply), ag')"
  shows "\<exists>e. memory ag' = memory ag @ [user_entry clock message, e] \<and>
             m_content e = reply \<and> m_role e \<in> {''assistant'', ''error''}"
  using assms by (rule process_request_memory_effect)

theorem process_request_memory_witness:
  "process_request silent_env router_init (0, 1) ''hi'' ''gpt-4'' agent_init =
     (([], ''Error processing request: Model gpt-4 not found''),
      \<lparr>memory = [user_entry (0, 1) ''hi'',
                  \<lparr>m_role = ''error'', m_content = ''Error processing request: Model gpt-4 not found'', m_time = 1\<rparr>]\<rparr>) \<and>
   (\<exists>e. memory \<lparr>memory = [user_entry (0, 1) ''hi'',
                  \<lparr>m_role = ''error'', m_content = ''Error processing request: Model gpt-4 not found'', m_time = 1\<rparr>]\<rparr> =
          memory agent_init @ [user_entry (0, 1) ''hi'', e] \<and>
        m_content e = ''Error processing request: Model gpt-4 not found'' \<and> m_role e \<in> {''assistant'', ''error''})"
proof -
  have run: "process_request silent_env router_init (0, 1) ''hi'' ''gpt-4'' agent_init =
     (([], ''Error processing request: Model gpt-4 not found''),
      \<lparr>memory = [user_entry (0, 1) ''hi'',
                  \<lparr>m_role = ''error'', m_content = ''Error processing request: Model gpt-4 not found'', m_time = 1\<rparr>]\<rparr>)"
    by (simp add: process_request_def route_request_def get_model_def router_init_def agent_init_def
        user_entry_def)
  from process_request_memory[OF run] run show ?thesis by blast
qed

lemma context_messages_last:
  "last (context_messages (mem @ [e])) = \<lparr>role = m_role e, content = m_content e\<rparr> \<and>
   length (context_messages (mem @ [e])) \<le> 6"
  by (simp add: context_messages_def last_map)

lemma process_request_openai_request_effect:
  assumes "get_model r model = Some OpenAIModel"
  shows "fst (fst (process_request env r clock message model ag)) =
           [OpenAIChat (openai_api_key env) ''gpt-4''
              (context_messages (memory ag @ [user_entry clock message])) (7 / 10) 2000] \<and>
         last (context_messages (memory ag @ [user_entry clock message])) =
           \<lparr>role = ''user'', content = message\<rparr> \<and>
         length (context_messages (memory ag @ [user_entry clock message])) \<le> 6"
  using assms context_messages_last[of "memory ag" "user_entry clock message"]
  by (simp add: process_request_cases Let_def route_request_def map_call_def
      openai_generate_response_def no_kwargs_def kw_get_def user_entry_def split: prod.splits)

text \<open>
  C14: the chat request an \<open>OpenAIModel\<close> makes for the agent carries the system prompt
  and at most the last five memory entries, the user's new message last; and it asks OpenAI
  for \<open>gpt-4\<close> whatever logical name the model was routed by, since no \<open>model\<close> option
  reaches the adapter (so a request for \<open>gpt-3.5-turbo\<close> is served by \<open>gpt-4\<close>).
\<close>

theorem process_request_openai_request:
  assumes "get_model r model = Some OpenAIModel"
  shows "fst (fst (process_request env r clock message model ag)) =
           [OpenAIChat (openai_api_key env) ''gpt-4''
              (context_messages (memory ag @ [user_entry clock message])) (7 / 10) 2000] \<and>
         last (context_messages (memory ag @ [user_entry clock message])) =
           \<lparr>role = ''user'', content = message\<rparr> \<and>
         length (context_messages (memory ag @ [user_entry clock message])) \<le> 6"
  using assms by (rule process_request_openai_request_effect)

theorem process_request_openai_request_witness:
  "fst (fst (process_request silent_env (register_model ''gpt-3.5-turbo'' OpenAIModel router_init) (0, 1)
      ''hi'' ''gpt-3.5-turbo'' agent_init)) =
     [OpenAIChat None ''gpt-4'' (context_messages [user_entry (0, 1) ''hi'']) (7 / 10) 2000] \<and>
   last (context_messages [user_entry (0, 1) ''hi'']) = \<lparr>role = ''user'', content = ''hi''\<rparr> \<and>
   length (context_messages [user_entry (0, 1) ''hi'']) \<le> 6"
proof -
  have "get_model (register_model ''gpt-3.5-turbo'' OpenAIModel router_init) ''gpt-3.5-turbo'' = Some OpenAIModel"
    by (simp add: get_model_def register_model_def router_init_def)
  from process_request_openai_request[OF this, of silent_env "(0, 1)" "''hi''" agent_init]
  show ?thesis by (simp add: agent_init_def silent_env_def)
qed


text \<open>
  C15 (finding): an error is sent to the model. After a request fails, its \<open>error\<close> entry
  is among the last five memory entries, so the next request of the same agent sends the
  provider a message of role \<open>error\<close>, a role the OpenAI chat API does not accept.
\<close>

theorem error_entry_is_forwarded:
  assumes "get_model r model = Some OpenAIModel"
    and "process_request env r c1 msg1 model ag = ((calls1, reply1), ag1)"
    and "m_role (last (memory ag1)) = ''error''"
    and "process_request env' r c2 msg2 model ag1 = ((calls2, reply2), ag2)"
  shows "\<exists>k msgs. calls2 = [OpenAIChat k ''gpt-4'' msgs (7 / 10) 2000] \<and>
           \<lparr>role = ''error'', content = reply1\<rparr> \<in> set msgs"
proof -
  obtain e where mem1: "memory ag1 = memory ag @ [user_entry c1 msg1, e]" and ce: "m_content e = reply1"
    using process_request_memory_effect[OF assms(2)] by blast
  with assms(3) have re: "m_role e = ''error''" by simp
  let ?mem = "memory ag1 @ [user_entry c2 msg2]"
  have "calls2 = [OpenAIChat (openai_api_key env') ''gpt-4'' (context_messages ?mem) (7 / 10) 2000]"
    using process_request_openai_request_effect[OF assms(1), of env' c2 msg2 ag1] assms(4) by simp
  moreover have "\<lparr>role = ''error'', content = reply1\<rparr> \<in> set (context_messages ?mem)"
  proof -
    have "e \<in> set (drop (length ?mem - 5) ?mem)"
      using mem1 by (simp add: drop_append)
    then show ?thesis using re ce by (force simp: context_messages_def)
  qed
  ultimately show ?thesis by blast
qed


theorem error_entry_is_forwarded_witness:
  "\<exists>calls1 reply1 ag1 calls2 reply2 ag2.
     get_model openai_router ''gpt-4'' = Some OpenAIModel \<and>
     process_request failing_env openai_router (0, 1) ''hi'' ''gpt-4'' agent_init = ((calls1, reply1), ag1) \<and>
     m_role (last (memory ag1)) = ''error'' \<and>
     process_request silent_env openai_router (2, 3) ''again'' ''gpt-4'' ag1 = ((calls2, reply2), ag2) \<and>
     (\<exists>k msgs. calls2 = [OpenAIChat k ''gpt-4'' msgs (7 / 10) 2000] \<and>
        \<lparr>role = ''error'', content = reply1\<rparr> \<in> set msgs)"
proof -
  have g: "get_model openai_router ''gpt-4'' = Some OpenAIModel"
    by (simp add: openai_router_def get_model_def register_model_def router_init_def)
  obtain calls1 reply1 ag1 where
    r1: "process_request failing_env openai_router (0, 1) ''hi'' ''gpt-4'' agent_init = ((calls1, reply1), ag1)"
    by (metis prod.collapse)
  have l: "m_role (last (memory ag1)) = ''error''"
    using r1 g by (auto simp: process_request_def route_request_def map_call_def openai_generate_response_def
        failing_env_def silent_env_def Let_def)
  obtain calls2 reply2 ag2 where
    r2: "process_request silent_env openai_router (2, 3) ''again'' ''gpt-4'' ag1 = ((calls2, reply2), ag2)"
    by (metis prod.collapse)
  from error_entry_is_forwarded[OF g r1 l r2] g r1 l r2 show ?thesis by blast
qed

subsection \<open>Code modification\<close>

lemma apply_changes_true_none:
  "apply_changes parse ft p ch backup fs = (Inr (True, err), fs') \<Longrightarrow> err = None"
  by (auto simp: apply_changes_def path_rename_def write_text_def
      split: sum.splits bool.splits prod.splits option.splits if_splits)

lemma execute_code_modification_applied:
  assumes "execute_code_modification env r parse ft p ch fs = ((calls, res), fs')"
    and "fs' \<noteq> fs"
  shows "\<exists>out. apply_changes parse ft p ch True fs = (out, fs')"
  using assms by (auto simp: execute_code_modification_def split: prod.splits sum.splits if_splits)

text \<open>
  C16: when the analysis is a dict whose \<open>critical_issues\<close> entry is truthy, the change is
  rejected with those issues and no file is touched.
\<close>

theorem execute_rejects_critical:
  assumes "analyze_code_changes env r fs p ch = (calls, Inr (PDict d))"
    and "dict_get d ''critical_issues'' = Some issues" and "py_truthy issues"
  shows "execute_code_modification env r parse ft p ch fs = ((calls, ModRejected issues), fs)"
  using assms by (simp add: execute_code_modification_def py_get_def)

definition critical_env :: provider_env where
  "critical_env = silent_env\<lparr>api := (\<lambda>_. Inr ''{'critical_issues': ['eval']}''),
     py_eval := (\<lambda>_. Inr (PDict [(''critical_issues'', PList [PStr ''eval''])]))\<rparr>"

theorem execute_rejects_critical_witness:
  "analyze_code_changes critical_env openai_router scenario_before ''f.py'' ''x = 2'' =
     ([OpenAIChat None ''gpt-4''
        [\<lparr>role = ''system'', content = ''You are a code analysis expert. Provide detailed, actionable insights.''\<rparr>,
         \<lparr>role = ''user'', content = openai_analysis_prompt ''x = 1''\<rparr>] (7 / 10) 2000],
      Inr (PDict [(''critical_issues'', PList [PStr ''eval''])])) \<and>
   execute_code_modification critical_env openai_router scenario_parser no_faults ''f.py'' ''x = 2'' scenario_before =
     (([OpenAIChat None ''gpt-4''
        [\<lparr>role = ''system'', content = ''You are a code analysis expert. Provide detailed, actionable insights.''\<rparr>,
         \<lparr>role = ''user'', content = openai_analysis_prompt ''x = 1''\<rparr>] (7 / 10) 2000],
       ModRejected (PList [PStr ''eval''])), scenario_before)"
proof -
  have a: "analyze_code_changes critical_env openai_router scenario_before ''f.py'' ''x = 2'' =
     ([OpenAIChat None ''gpt-4''
        [\<lparr>role = ''system'', content = ''You are a code analysis expert. Provide detailed, actionable insights.''\<rparr>,
         \<lparr>role = ''user'', content = openai_analysis_prompt ''x = 1''\<rparr>] (7 / 10) 2000],
      Inr (PDict [(''critical_issues'', PList [PStr ''eval''])]))"
    by (simp add: analyze_code_changes_def read_file_def scenario_before_def route_request_def
        openai_router_def get_model_def register_model_def router_init_def map_call_def
        openai_analyze_code_def wrap_analysis_def openai_generate_response_def critical_env_def
        silent_env_def no_kwargs_def kw_get_def)
  have "dict_get [(''critical_issues'', PList [PStr ''eval''])] ''critical_issues'' = Some (PList [PStr ''eval''])"
    by simp
  moreover have "py_truthy (PList [PStr ''eval''])" by simp
  ultimately show ?thesis using execute_rejects_critical[OF a] a by blast
qed


text \<open>
  C17: a modification reported as a success has written exactly the proposed text at the
  path, moved the previous content to \<open><path>.bak\<close>, and touched no other path.
\<close>

theorem execute_code_modification_success:
  assumes "execute_code_modification env r parse ft p ch fs = ((calls, ModSuccess a), fs')"
  shows "fs p \<noteq> None \<and> fs' p = Some ch \<and> fs' (backup_path p) = fs p \<and>
         (\<forall>q. q \<noteq> p \<longrightarrow> q \<noteq> backup_path p \<longrightarrow> fs' q = fs q)"
proof -
  from assms obtain err where run: "apply_changes parse ft p ch True fs = (Inr (True, err), fs')"
    by (auto simp: execute_code_modification_def split: prod.splits sum.splits if_splits)
  then have "err = None" by (rule apply_changes_true_none)
  with run show ?thesis using apply_changes_success_effect by blast
qed

definition approving_env :: provider_env where
  "approving_env = silent_env\<lparr>api := (\<lambda>_. Inr ''{}''), py_eval := (\<lambda>_. Inr (PDict []))\<rparr>"

theorem execute_code_modification_success_witness:
  "execute_code_modification approving_env openai_router scenario_parser no_faults ''f.py'' ''x = 2'' scenario_before =
     (([OpenAIChat None ''gpt-4''
        [\<lparr>role = ''system'', content = ''You are a code analysis expert. Provide detailed, actionable insights.''\<rparr>,
         \<lparr>role = ''user'', content = openai_analysis_prompt ''x = 1''\<rparr>] (7 / 10) 2000],
       ModSuccess (PDict [])), scenario_after) \<and>
   scenario_after ''f.py'' = Some ''x = 2'' \<and> scenario_after (backup_path ''f.py'') = scenario_before ''f.py''"
proof -
  have run: "execute_code_modification approving_env openai_router scenario_parser no_faults ''f.py'' ''x = 2'' scenario_before =
     (([OpenAIChat None ''gpt-4''
        [\<lparr>role = ''system'', content = ''You are a code analysis expert. Provide detailed, actionable insights.''\<rparr>,
         \<lparr>role = ''user'', content = openai_analysis_prompt ''x = 1''\<rparr>] (7 / 10) 2000],
       ModSuccess (PDict [])), scenario_after)"
  proof -
    have a: "analyze_code_changes approving_env openai_router scenario_before ''f.py'' ''x = 2'' =
       ([OpenAIChat None ''gpt-4''
          [\<lparr>role = ''system'', content = ''You are a code analysis expert. Provide detailed, actionable insights.''\<rparr>,
           \<lparr>role = ''user'', content = openai_analysis_prompt ''x = 1''\<rparr>] (7 / 10) 2000],
        Inr (PDict []))"
      by (simp add: analyze_code_changes_def read_file_def scenario_before_def route_request_def
          openai_router_def get_model_def register_model_def router_init_def map_call_def
          openai_analyze_code_def wrap_analysis_def openai_generate_response_def approving_env_def
          silent_env_def no_kwargs_def kw_get_def)
    show ?thesis by (simp add: execute_code_modification_def a py_get_def scenario_run)
  qed
  from execute_code_modification_success[OF run] run show ?thesis by simp
qed

text \<open>
  No code modification loses the file: whatever the analysis says and whatever the
  file system refuses, the previous content is afterwards at the path or at
  \<open><path>.bak\<close>.
\<close>

theorem execute_code_modification_keeps_original:
  assumes "fs p = Some orig"
    and "execute_code_modification env r parse ft p ch fs = (res, fs')"
  shows "fs' p = Some orig \<or> fs' (backup_path p) = Some orig"
proof (cases "fs' = fs")
  case True
  with assms(1) show ?thesis by simp
next
  case False
  obtain calls out where "res = (calls, out)" by fastforce
  with assms(2) False obtain out' where "apply_changes parse ft p ch True fs = (out', fs')"
    using execute_code_modification_applied by blast
  with assms(1) show ?thesis by (rule apply_changes_keeps_original_effect)
qed

theorem execute_code_modification_keeps_original_witness:
  "scenario_before ''f.py'' = Some ''x = 1'' \<and>
   execute_code_modification approving_env openai_router scenario_parser disk_full ''f.py'' ''x = 2'' scenario_before =
     (([OpenAIChat None ''gpt-4''
        [\<lparr>role = ''system'', content = ''You are a code analysis expert. Provide detailed, actionable insights.''\<rparr>,
         \<lparr>role = ''user'', content = openai_analysis_prompt ''x = 1''\<rparr>] (7 / 10) 2000],
       ModError (Some ''[Errno 28] No space left on device'') (Some (PDict []))),
      scenario_before(''f.py'' := None, ''f.py.bak'' \<mapsto> ''x = 1'', ''f.py'' \<mapsto> ''x ='',
                      ''f.py.bak'' := None, ''f.py'' \<mapsto> ''x = 1'')) \<and>
   ((scenario_before(''f.py'' := None, ''f.py.bak'' \<mapsto> ''x = 1'', ''f.py'' \<mapsto> ''x ='',
                      ''f.py.bak'' := None, ''f.py'' \<mapsto> ''x = 1'')) ''f.py'' = Some ''x = 1'' \<or>
    (scenario_before(''f.py'' := None, ''f.py.bak'' \<mapsto> ''x = 1'', ''f.py'' \<mapsto> ''x ='',
                      ''f.py.bak'' := None, ''f.py'' \<mapsto> ''x = 1'')) (backup_path ''f.py'') = Some ''x = 1'')"
proof -
  have before: "scenario_before ''f.py'' = Some ''x = 1''" by (simp add: scenario_before_def)
  have run: "execute_code_modification approving_env openai_router scenario_parser disk_full ''f.py'' ''x = 2'' scenario_before =
     (([OpenAIChat None ''gpt-4''
        [\<lparr>role = ''system'', content = ''You are a code analysis expert. Provide detailed, actionable insights.''\<rparr>,
         \<lparr>role = ''user'', content = openai_analysis_prompt ''x = 1''\<rparr>] (7 / 10) 2000],
       ModError (Some ''[Errno 28] No space left on device'') (Some (PDict []))),
      scenario_before(''f.py'' := None, ''f.py.bak'' \<mapsto> ''x = 1'', ''f.py'' \<mapsto> ''x ='',
                      ''f.py.bak'' := None, ''f.py'' \<mapsto> ''x = 1''))"
    by (simp add: execute_code_modification_def analyze_code_changes_def read_file_def route_request_def
        openai_router_def get_model_def register_model_def router_init_def map_call_def
        openai_analyze_code_def wrap_analysis_def openai_generate_response_def approving_env_def
        silent_env_def no_kwargs_def kw_get_def py_get_def apply_changes_def validate_syntax_def
        validate_safety_def scenario_parser_def ast_walk_tree_def modifier_dangerous_modules_def
        path_rename_def write_text_def disk_full_def no_faults_def backup_path_def scenario_before_def)
  from execute_code_modification_keeps_original[OF before run] before run show ?thesis by blast
qed

text \<open>
  Code modification is hard-wired to the model name \<open>gpt-4\<close>. When no
  adapter is registered under that name, every modification of an existing file fails with
  \<open>Model gpt-4 not found\<close> before any provider call, whatever else is registered.
\<close>

theorem execute_code_modification_needs_gpt4:
  assumes "get_model r ''gpt-4'' = None" and "fs p = Some current"
  shows "execute_code_modification env r parse ft p ch fs =
           (([], ModError (Some ''Model gpt-4 not found'') None), fs)"
  using assms by (simp add: execute_code_modification_def analyze_code_changes_def read_file_def
      route_request_def map_call_def)

theorem execute_code_modification_needs_gpt4_witness:
  "execute_code_modification approving_env (register_model ''claude'' (anthropic_init ''k'') router_init)
     scenario_parser no_faults ''f.py'' ''x = 2'' scenario_before =
     (([], ModError (Some ''Model gpt-4 not found'') None), scenario_before)"
proof -
  have g: "get_model (register_model ''claude'' (anthropic_init ''k'') router_init) ''gpt-4'' = None"
    by (simp add: get_model_def register_model_def router_init_def)
  have f: "scenario_before ''f.py'' = Some ''x = 1''" by (simp add: scenario_before_def)
  show ?thesis by (rule execute_code_modification_needs_gpt4[where p = "''f.py''" and fs = scenario_before, OF g f])
qed

end
