(* ===== verification/Learning.thy ===== *)
theory Learning
  imports Agent "HOL-Library.List_Lexorder" "HOL-Library.Char_ord"
begin

text \<open>
  The learning history, \<open>AgentLearning\<close> (src/backend/core/agent/learning.py). Its state is
  the in-process list \<open>current_learnings\<close> and the directory \<open>learning_history\<close>, an
  association list from file names to what \<open>json.load\<close> gives back for the file (a value,
  or the exception a corrupt or unreadable file raises). \<open>json.dump\<close> followed by
  \<open>json.load\<close> returns the stored value, since a learning is built from strings, numbers,
  lists and string-keyed dicts only. The two clock readings of a store
  (\<open>isoformat()\<close> and \<open>strftime("%Y%m%d_%H%M%S")\<close>) are inputs; \<open>json.loads\<close> and
  \<open>json.dumps\<close> of model text are the parameter \<open>json_lib\<close>. Python's
  \<open>sorted(..., reverse=True)\<close> is the stable descending sort \<open>py_sorted_desc\<close>.
\<close>

section \<open>Python builtins the module uses\<close>

function dec_str :: "nat \<Rightarrow> string" where
  "dec_str n = (if n < 10 then [''0123456789'' ! n] else dec_str (n div 10) @ [''0123456789'' ! (n mod 10)])"
  by pat_completeness auto
termination by (relation "measure id") auto

definition int_str :: "int \<Rightarrow> string" where
  "int_str i = (if i < 0 then CHR ''-'' # dec_str (nat (- i)) else dec_str (nat i))"

fun py_join :: "string \<Rightarrow> string list \<Rightarrow> string" where
  "py_join sep [] = []"
| "py_join sep [s] = s"
| "py_join sep (s # ss) = s @ sep @ py_join sep ss"

text \<open>
  \<open>repr\<close> of a value; strings are shown in single quotes, without the escaping Python
  applies to quotes and control characters inside them.
\<close>

fun py_repr :: "pyval \<Rightarrow> string" where
  "py_repr PNone = ''None''"
| "py_repr (PBool b) = (if b then ''True'' else ''False'')"
| "py_repr (PInt i) = int_str i"
| "py_repr (PStr s) = py_quote s"
| "py_repr (PList xs) = ''['' @ py_join '', '' (map py_repr xs) @ '']''"
| "py_repr (PDict d) = ''{'' @ py_join '', '' (map (\<lambda>kv. py_quote (fst kv) @ '': '' @ py_repr (snd kv)) d) @ ''}''"

text \<open>\<open>str(x)\<close>, as an f-string formats a value.\<close>

fun py_str :: "pyval \<Rightarrow> string" where
  "py_str (PStr s) = s"
| "py_str v = py_repr v"

text \<open>The lines of a triple-quoted f-string, the continuation lines indented by twelve spaces.\<close>

definition ind :: "string \<Rightarrow> string" where
  "ind s = replicate 12 (CHR '' '') @ s"

definition py_lines :: "string list \<Rightarrow> string" where
  "py_lines ls = py_join [NL] ls"

text \<open>\<open>sorted(xs, key=k, reverse=True)\<close>: descending, equal keys in their original order.\<close>

definition py_sorted_desc :: "('a \<Rightarrow> 'k::linorder) \<Rightarrow> 'a list \<Rightarrow> 'a list" where
  "py_sorted_desc k xs = rev (sort_key k (rev xs))"

record json_lib =
  loads :: "string \<Rightarrow> pyval py"
  dumps_indent2 :: "pyval \<Rightarrow> string"

text \<open>\<open>json.JSONDecodeError\<close> is the \<open>ValueError\<close> that \<open>json.loads\<close> raises.\<close>

primrec is_decode_error :: "py_exc \<Rightarrow> bool" where
  "is_decode_error (Exception m) = False"
| "is_decode_error (ModelNotFoundError m) = False"
| "is_decode_error (ValueError m) = True"
| "is_decode_error (TypeError m) = False"
| "is_decode_error (SyntaxError m) = False"
| "is_decode_error (FileNotFoundError m) = False"
| "is_decode_error (OSError m) = False"
| "is_decode_error (AttributeError m) = False"

section \<open>State\<close>

record learner =
  current_learnings :: "pyval list"
  learning_dir :: "(string, pyval py) pydict"

text \<open>\<open>__init__\<close>: \<open>mkdir(exist_ok=True)\<close> keeps the files a previous process wrote.\<close>

definition learning_init :: "(string, pyval py) pydict \<Rightarrow> learner" where
  "learning_init dir = \<lparr>current_learnings = [], learning_dir = dir\<rparr>"

definition error_dict :: "string \<Rightarrow> pyval" where
  "error_dict m = PDict [(''error'', PStr m)]"

section \<open>Analyses\<close>

definition specialist_messages :: "string \<Rightarrow> string \<Rightarrow> message list" where
  "specialist_messages system prompt =
     [\<lparr>role = ''system'', content = system\<rparr>, \<lparr>role = ''user'', content = prompt\<rparr>]"

text \<open>
  The common tail of \<open>_analyze_interaction\<close> and \<open>_analyze_code_changes\<close>: a chat to
  \<open>gpt-4\<close> whose reply is decoded with \<open>json.loads\<close>; every exception becomes
  \<open>{"error": "Analysis failed: ..."}\<close>.
\<close>

definition analysis_chat ::
  "provider_env \<Rightarrow> router \<Rightarrow> json_lib \<Rightarrow> string \<Rightarrow> string \<Rightarrow> api_request list \<times> pyval" where
  "analysis_chat env r js system prompt =
     (case route_request env r ''gpt-4'' ''chat'' (no_kwargs\<lparr>kw_messages := Some (specialist_messages system prompt)\<rparr>) of
        (calls, Inl e) \<Rightarrow> (calls, error_dict (''Analysis failed: '' @ exc_str e))
      | (calls, Inr resp) \<Rightarrow>
          (case loads js (reply_text resp) of
             Inl e \<Rightarrow> (calls, error_dict (''Analysis failed: '' @ exc_str e))
           | Inr v \<Rightarrow> (calls, v)))"

definition interaction_prompt :: "pyval \<Rightarrow> pyval \<Rightarrow> pyval \<Rightarrow> pyval \<Rightarrow> string" where
  "interaction_prompt ui ar sc du =
     py_lines [''Analyze this interaction for learning opportunities:'', '''',
       ind (''User Input: '' @ py_str ui), ind (''Agent Response: '' @ py_str ar),
       ind (''Success: '' @ py_str sc), ind (''Duration: '' @ py_str du), '''',
       ind ''Please identify:'', ind ''1. What worked well'', ind ''2. What could be improved'',
       ind ''3. Any patterns or insights'', ind ''4. Specific learning points'']"

text \<open>\<open>interaction.get(...)\<close> raises \<open>AttributeError\<close> before any call when the
  interaction is not a dict.\<close>

definition analysis_failed :: "py_exc \<Rightarrow> api_request list \<times> pyval" where
  "analysis_failed e = ([], error_dict (''Analysis failed: '' @ exc_str e))"

definition analyze_interaction ::
  "provider_env \<Rightarrow> router \<Rightarrow> json_lib \<Rightarrow> pyval \<Rightarrow> api_request list \<times> pyval" where
  "analyze_interaction env r js interaction =
     (case py_get interaction ''user_input'' of Inl e \<Rightarrow> analysis_failed e | Inr ui \<Rightarrow>
      case py_get interaction ''agent_response'' of Inl e \<Rightarrow> analysis_failed e | Inr ar \<Rightarrow>
      case py_get interaction ''success'' of Inl e \<Rightarrow> analysis_failed e | Inr sc \<Rightarrow>
      case py_get interaction ''duration'' of Inl e \<Rightarrow> analysis_failed e | Inr du \<Rightarrow>
        analysis_chat env r js ''You are an interaction analysis specialist.'' (interaction_prompt ui ar sc du))"

definition code_changes_prompt :: "string \<Rightarrow> string \<Rightarrow> string" where
  "code_changes_prompt old new =
     py_lines [''Compare these code versions and analyze the changes:'', '''',
       ind ''Original Code:'', ind old, '''', ind ''New Code:'', ind new, '''',
       ind ''Please identify:'', ind ''1. Nature of changes'', ind ''2. Improvement patterns'',
       ind ''3. Potential risks'', ind ''4. Learning points'']"

definition analyze_code_changes_l ::
  "provider_env \<Rightarrow> router \<Rightarrow> json_lib \<Rightarrow> string \<Rightarrow> string \<Rightarrow> api_request list \<times> pyval" where
  "analyze_code_changes_l env r js old new =
     analysis_chat env r js ''You are a code analysis specialist.'' (code_changes_prompt old new)"

section \<open>Storage\<close>

text \<open>
  What can go wrong in \<open>with open(file_path, 'w') as f: json.dump(learning, f)\<close>: the
  open fails and no file is made, or the dump fails after the file was truncated and
  leaves a file that \<open>json.load\<close> rejects.
\<close>

datatype store_fault = OpenFails py_exc | DumpFails py_exc

primrec fault_exc :: "store_fault \<Rightarrow> py_exc" where
  "fault_exc (OpenFails e) = e"
| "fault_exc (DumpFails e) = e"

definition learning_file :: "string \<Rightarrow> string" where
  "learning_file stamp = ''learning_'' @ stamp @ ''.json''"

definition corrupt_json :: py_exc where
  "corrupt_json = ValueError ''Expecting value: line 1 column 1 (char 0)''"

text \<open>\<open>_store_learning\<close>: the learning is appended before the file is written.\<close>

definition store_learning ::
  "string \<Rightarrow> store_fault option \<Rightarrow> pyval \<Rightarrow> learner \<Rightarrow> unit py \<times> learner" where
  "store_learning stamp fault l st =
     (let st1 = st\<lparr>current_learnings := current_learnings st @ [l]\<rparr>;
          f = learning_file stamp
      in case fault of
           None \<Rightarrow> (Inr (), st1\<lparr>learning_dir := dict_set (learning_dir st1) f (Inr l)\<rparr>)
         | Some (OpenFails e) \<Rightarrow> (Inl e, st1)
         | Some (DumpFails e) \<Rightarrow> (Inl e, st1\<lparr>learning_dir := dict_set (learning_dir st1) f (Inl corrupt_json)\<rparr>))"

text \<open>\<open>glob("learning_*.json")\<close>.\<close>

definition is_learning_file :: "string \<Rightarrow> bool" where
  "is_learning_file n \<longleftrightarrow>
     14 \<le> length n \<and> take 9 n = ''learning_'' \<and> drop (length n - 5) n = ''.json''"

text \<open>
  The sort key \<open>x.get('timestamp', '')\<close>. A learning that is not a dict has no \<open>get\<close>;
  timestamps are compared as strings, or as numbers when all are numbers. Any other
  mixture makes some comparison of the sort raise \<open>TypeError\<close> as soon as there are two
  learnings (two neighbours of the sorted order are always compared directly).
\<close>

datatype ts_key = KStr string | KNum int | KOther

definition timestamp_key :: "pyval \<Rightarrow> ts_key py" where
  "timestamp_key x =
     (case x of
        PDict d \<Rightarrow>
          Inr (case dict_get d ''timestamp'' of
                 None \<Rightarrow> KStr []
               | Some (PStr s) \<Rightarrow> KStr s
               | Some (PInt i) \<Rightarrow> KNum i
               | Some (PBool b) \<Rightarrow> KNum (if b then 1 else 0)
               | Some _ \<Rightarrow> KOther)
      | _ \<Rightarrow> Inl (AttributeError (py_quote (py_type_name x) @ '' object has no attribute '' @ py_quote ''get'')))"

fun py_map :: "('a \<Rightarrow> 'b py) \<Rightarrow> 'a list \<Rightarrow> 'b list py" where
  "py_map f [] = Inr []"
| "py_map f (x # xs) = (case f x of Inl e \<Rightarrow> Inl e | Inr y \<Rightarrow> (case py_map f xs of Inl e \<Rightarrow> Inl e | Inr ys \<Rightarrow> Inr (y # ys)))"

primrec key_str :: "ts_key \<Rightarrow> string option" where
  "key_str (KStr s) = Some s"
| "key_str (KNum i) = None"
| "key_str KOther = None"

primrec key_num :: "ts_key \<Rightarrow> int option" where
  "key_num (KStr s) = None"
| "key_num (KNum i) = Some i"
| "key_num KOther = None"

definition sort_learnings :: "pyval list \<Rightarrow> pyval list py" where
  "sort_learnings xs =
     (case py_map timestamp_key xs of
        Inl e \<Rightarrow> Inl e
      | Inr ks \<Rightarrow>
          if list_all (\<lambda>k. key_str k \<noteq> None) ks then
            Inr (map fst (py_sorted_desc (\<lambda>xk. the (key_str (snd xk))) (zip xs ks)))
          else if list_all (\<lambda>k. key_num k \<noteq> None) ks then
            Inr (map fst (py_sorted_desc (\<lambda>xk. the (key_num (snd xk))) (zip xs ks)))
          else if length xs < 2 then Inr xs
          else Inl (TypeError ''comparison of timestamps of different types''))"

text \<open>
  \<open>_get_recent_learnings\<close>: the newest \<open>limit\<close> files by name, those that load, then
  the learnings of this process, sorted by timestamp, newest first, cut at \<open>limit\<close>.
\<close>

definition recent_files :: "nat \<Rightarrow> learner \<Rightarrow> string list" where
  "recent_files limit st =
     take limit (py_sorted_desc id (filter is_learning_file (dict_keys (learning_dir st))))"

definition loaded_learnings :: "nat \<Rightarrow> learner \<Rightarrow> pyval list" where
  "loaded_learnings limit st =
     concat (map (\<lambda>f. case dict_get (learning_dir st) f of Some (Inr v) \<Rightarrow> [v] | _ \<Rightarrow> [])
                 (recent_files limit st))"

definition get_recent_learnings :: "nat \<Rightarrow> learner \<Rightarrow> pyval list py" where
  "get_recent_learnings limit st =
     (case sort_learnings (loaded_learnings limit st @ current_learnings st) of
        Inl e \<Rightarrow> Inl e
      | Inr ys \<Rightarrow> Inr (take limit ys))"

text \<open>The timestamp a learning is sorted by, when it is a string.\<close>

definition learning_ts :: "pyval \<Rightarrow> string" where
  "learning_ts x = (case timestamp_key x of Inr (KStr s) \<Rightarrow> s | _ \<Rightarrow> [])"

section \<open>Learning\<close>

definition interaction_learning :: "string \<Rightarrow> pyval \<Rightarrow> pyval \<Rightarrow> pyval" where
  "interaction_learning now_iso interaction analysis =
     PDict [(''timestamp'', PStr now_iso), (''interaction'', interaction), (''analysis'', analysis),
            (''type'', PStr ''interaction_learning'')]"

definition learn_from_interaction ::
  "provider_env \<Rightarrow> router \<Rightarrow> json_lib \<Rightarrow> string \<times> string \<Rightarrow> store_fault option \<Rightarrow> pyval \<Rightarrow> learner \<Rightarrow>
     (api_request list \<times> pyval) \<times> learner" where
  "learn_from_interaction env r js clock fault interaction st =
     (case analyze_interaction env r js interaction of
        (calls, analysis) \<Rightarrow>
          (case store_learning (snd clock) fault (interaction_learning (fst clock) interaction analysis) st of
             (Inl e, st') \<Rightarrow> ((calls, error_dict (''Failed to learn from interaction: '' @ exc_str e)), st')
           | (Inr _, st') \<Rightarrow> ((calls, analysis), st')))"

definition code_learning :: "string \<Rightarrow> string \<Rightarrow> pyval \<Rightarrow> pyval" where
  "code_learning now_iso file_path analysis =
     PDict [(''timestamp'', PStr now_iso), (''file_path'', PStr file_path), (''analysis'', analysis),
            (''type'', PStr ''code_learning'')]"

definition learn_from_code_changes ::
  "provider_env \<Rightarrow> router \<Rightarrow> json_lib \<Rightarrow> string \<times> string \<Rightarrow> store_fault option \<Rightarrow>
     string \<Rightarrow> string \<Rightarrow> string \<Rightarrow> learner \<Rightarrow> (api_request list \<times> pyval) \<times> learner" where
  "learn_from_code_changes env r js clock fault file_path old new st =
     (case analyze_code_changes_l env r js old new of
        (calls, analysis) \<Rightarrow>
          (case store_learning (snd clock) fault (code_learning (fst clock) file_path analysis) st of
             (Inl e, st') \<Rightarrow> ((calls, error_dict (''Failed to learn from code changes: '' @ exc_str e)), st')
           | (Inr _, st') \<Rightarrow> ((calls, analysis), st')))"

section \<open>The improvement plan\<close>

definition structure_improvement_plan :: "json_lib \<Rightarrow> string \<Rightarrow> string \<Rightarrow> pyval py" where
  "structure_improvement_plan js now_iso raw =
     (case loads js raw of
        Inr v \<Rightarrow> Inr v
      | Inl e \<Rightarrow>
          if is_decode_error e then
            Inr (PDict [(''raw_plan'', PStr raw), (''timestamp'', PStr now_iso), (''status'', PStr ''unstructured'')])
          else Inl e)"

definition improvement_plan_prompt :: "string \<Rightarrow> string" where
  "improvement_plan_prompt recent_json =
     py_lines [''Based on these recent learning experiences, suggest improvements:'', '''',
       ind ''Recent Learnings:'', ind recent_json, '''',
       ind ''Please analyze these learnings and suggest:'', ind ''1. Patterns in user interactions'',
       ind ''2. Common challenges or limitations'', ind ''3. Potential improvements to:'',
       ind ''   - Code structure'', ind ''   - Response quality'', ind ''   - Learning capabilities'',
       ind ''   - Error handling'', ind ''4. Specific implementation suggestions'', '''',
       ind ''Format your response as a structured improvement plan.'']"

definition plan_failed :: "py_exc \<Rightarrow> pyval" where
  "plan_failed e = error_dict (''Failed to generate improvement plan: '' @ exc_str e)"

definition generate_improvement_plan ::
  "provider_env \<Rightarrow> router \<Rightarrow> json_lib \<Rightarrow> string \<Rightarrow> learner \<Rightarrow> api_request list \<times> pyval" where
  "generate_improvement_plan env r js now_iso st =
     (case get_recent_learnings 50 st of
        Inl e \<Rightarrow> ([], plan_failed e)
      | Inr recent \<Rightarrow>
          (case route_request env r ''gpt-4'' ''chat''
                  (no_kwargs\<lparr>kw_messages := Some (specialist_messages ''You are an AI learning specialist.''
                     (improvement_plan_prompt (dumps_indent2 js (PList recent))))\<rparr>) of
             (calls, Inl e) \<Rightarrow> (calls, plan_failed e)
           | (calls, Inr resp) \<Rightarrow>
               (case structure_improvement_plan js now_iso (reply_text resp) of
                  Inl e \<Rightarrow> (calls, plan_failed e)
                | Inr plan \<Rightarrow> (calls, plan))))"

section \<open>Fixtures\<close>

definition reject_json :: json_lib where
  "reject_json = \<lparr>loads = (\<lambda>_. Inl corrupt_json), dumps_indent2 = (\<lambda>_. ''[]'')\<rparr>"

definition la :: pyval where "la = PDict [(''timestamp'', PStr ''2024-01-01T09:00:00'')]"
definition lb :: pyval where "lb = PDict [(''timestamp'', PStr ''2024-02-01T09:00:00'')]"
definition two_day_learner :: learner where
  "two_day_learner = \<lparr>current_learnings = [lb],
     learning_dir = [(''learning_20240101_090000.json'', Inr la), (''learning_20240115_090000.json'', Inl corrupt_json)]\<rparr>"

section \<open>Properties\<close>

subsection \<open>Sorting and storage\<close>

lemma py_map_Inr: "py_map f xs = Inr ys \<Longrightarrow> list_all2 (\<lambda>x y. f x = Inr y) xs ys"
  by (induction xs arbitrary: ys) (auto split: sum.splits)

lemma py_map_Inl: "(\<exists>e. py_map f xs = Inl e) \<longleftrightarrow> (\<exists>x \<in> set xs. \<exists>e. f x = Inl e)"
  by (induction xs) (auto split: sum.splits)

lemma mset_py_sorted_desc [simp]: "mset (py_sorted_desc k xs) = mset xs"
  by (simp add: py_sorted_desc_def)

lemma set_py_sorted_desc [simp]: "set (py_sorted_desc k xs) = set xs"
  by (metis mset_py_sorted_desc set_mset_mset)

lemma sorted_py_sorted_desc: "sorted_wrt (\<lambda>x y. k y \<le> k x) (py_sorted_desc k xs)"
proof -
  have "sorted_wrt (\<lambda>x y. k x \<le> k y) (sort_key k (rev xs))"
    using sorted_sort_key[of k "rev xs"] by (simp add: sorted_map)
  then show ?thesis by (simp add: py_sorted_desc_def sorted_wrt_rev)
qed

lemma py_sorted_desc_stable:
  "filter (\<lambda>x. k x = c) (py_sorted_desc k xs) = filter (\<lambda>x. k x = c) xs"
  by (simp add: py_sorted_desc_def rev_filter[symmetric] sort_key_stable)

lemma store_learning_current [simp]:
  "current_learnings (snd (store_learning stamp fault l st)) = current_learnings st @ [l]"
  by (simp add: store_learning_def Let_def split: option.splits store_fault.splits)

lemma store_learning_ok:
  "store_learning stamp None l st =
     (Inr (), st\<lparr>current_learnings := current_learnings st @ [l],
                 learning_dir := dict_set (learning_dir st) (learning_file stamp) (Inr l)\<rparr>)"
  by (simp add: store_learning_def)

lemma store_learning_fails:
  "fst (store_learning stamp (Some f) l st) = Inl (fault_exc f)"
  by (cases f) (simp_all add: store_learning_def)

lemma is_learning_file_stamp [simp]: "is_learning_file (learning_file stamp)"
  by (simp add: is_learning_file_def learning_file_def)

lemma loaded_learnings_on_disk:
  "x \<in> set (loaded_learnings n st) \<Longrightarrow> Inr x \<in> set (map snd (learning_dir st))"
proof -
  assume "x \<in> set (loaded_learnings n st)"
  then obtain f where "dict_get (learning_dir st) f = Some (Inr x)"
    by (auto simp: loaded_learnings_def split: option.splits sum.splits)
  then have "(f, Inr x) \<in> set (learning_dir st)" by (rule map_of_SomeD)
  then show ?thesis by force
qed

lemma sort_learnings_strings:
  assumes "\<forall>x \<in> set xs. \<exists>s. timestamp_key x = Inr (KStr s)"
  shows "\<exists>zs. sort_learnings xs = Inr zs \<and> mset zs = mset xs \<and>
           sorted_wrt (\<lambda>x y. learning_ts y \<le> learning_ts x) zs"
proof -
  have "\<not> (\<exists>e. py_map timestamp_key xs = Inl e)"
    using assms unfolding py_map_Inl by force
  then obtain ks where ks: "py_map timestamp_key xs = Inr ks"
    by (cases "py_map timestamp_key xs") auto
  have rel: "list_all2 (\<lambda>x y. timestamp_key x = Inr y) xs ks" by (rule py_map_Inr[OF ks])
  then have len: "length ks = length xs" by (simp add: list_all2_lengthD)
  have strs: "list_all (\<lambda>k. key_str k \<noteq> None) ks"
    unfolding list_all_iff
  proof
    fix k assume "k \<in> set ks"
    then obtain i where i: "i < length ks" "ks ! i = k" by (auto simp: in_set_conv_nth)
    with rel len have "xs ! i \<in> set xs" "timestamp_key (xs ! i) = Inr k"
      by (auto simp: list_all2_conv_all_nth)
    with assms show "key_str k \<noteq> None" by force
  qed
  define K where "K = (\<lambda>xk :: pyval \<times> ts_key. the (key_str (snd xk)))"
  have ts: "learning_ts (fst p) = K p" if hp: "p \<in> set (zip xs ks)" for p
  proof -
    have "timestamp_key (fst p) = Inr (snd p)"
      using rel hp by (auto simp: list_all2_iff)
    moreover have "fst p \<in> set xs" using hp by (metis prod.collapse set_zip_leftD)
    then obtain s where "timestamp_key (fst p) = Inr (KStr s)"
      using assms by blast
    ultimately have "snd p = KStr s" and "timestamp_key (fst p) = Inr (KStr s)" by simp_all
    then show ?thesis by (simp add: learning_ts_def K_def)
  qed
  have "sorted_wrt (\<lambda>p q. K q \<le> K p) (py_sorted_desc K (zip xs ks))"
    by (rule sorted_py_sorted_desc)
  then have "sorted_wrt (\<lambda>p q. learning_ts (fst q) \<le> learning_ts (fst p)) (py_sorted_desc K (zip xs ks))"
    by (rule sorted_wrt_mono_rel[rotated]) (simp add: ts)
  then have "sorted_wrt (\<lambda>x y. learning_ts y \<le> learning_ts x) (map fst (py_sorted_desc K (zip xs ks)))"
    by (simp add: sorted_wrt_map)
  moreover have "mset (map fst (py_sorted_desc K (zip xs ks))) = mset xs"
    by (metis len map_fst_zip mset_map mset_py_sorted_desc)
  ultimately show ?thesis
    using ks strs by (simp add: sort_learnings_def K_def)
qed

subsection \<open>Effects of one learning step\<close>

lemma analyze_interaction_unrouted:
  "analyze_interaction silent_env router_init js (PDict []) =
     ([], error_dict ''Analysis failed: Model gpt-4 not found'')"
  by (simp add: analyze_interaction_def py_get_def analysis_chat_def route_request_def get_model_def
      router_init_def analysis_failed_def)

lemma learn_from_interaction_ok:
  "learn_from_interaction env r js clock None interaction st =
     (analyze_interaction env r js interaction,
      st\<lparr>current_learnings := current_learnings st @
            [interaction_learning (fst clock) interaction (snd (analyze_interaction env r js interaction))],
          learning_dir := dict_set (learning_dir st) (learning_file (snd clock))
            (Inr (interaction_learning (fst clock) interaction (snd (analyze_interaction env r js interaction))))\<rparr>)"
  by (simp add: learn_from_interaction_def store_learning_ok split: prod.splits)

lemma timestamp_key_interaction [simp]:
  "timestamp_key (interaction_learning t i a) = Inr (KStr t)"
  by (simp add: timestamp_key_def interaction_learning_def)

subsection \<open>Claims\<close>

text \<open>
  C22: every call of \<open>learn_from_interaction\<close> appends exactly one learning to
  \<open>current_learnings\<close>, with the analysis it obtained, whether or not the file is written;
  it never raises, and it returns the analysis, or a failure dict when the file could not
  be written although the learning was kept in memory.
\<close>

theorem learn_from_interaction_records:
  assumes "learn_from_interaction env r js clock fault interaction st = ((calls, res), st')"
  shows "current_learnings st' =
           current_learnings st @ [interaction_learning (fst clock) interaction (snd (analyze_interaction env r js interaction))] \<and>
         calls = fst (analyze_interaction env r js interaction) \<and>
         res = (case fault of
                  None \<Rightarrow> snd (analyze_interaction env r js interaction)
                | Some f \<Rightarrow> error_dict (''Failed to learn from interaction: '' @ exc_str (fault_exc f)))"
proof -
  obtain c a where an: "analyze_interaction env r js interaction = (c, a)" by fastforce
  obtain w s where sto: "store_learning (snd clock) fault (interaction_learning (fst clock) interaction a) st = (w, s)"
    by fastforce
  have cur: "current_learnings s = current_learnings st @ [interaction_learning (fst clock) interaction a]"
    using store_learning_current[of "snd clock" fault "interaction_learning (fst clock) interaction a" st] sto by simp
  have w: "w = (case fault of None \<Rightarrow> Inr () | Some f \<Rightarrow> Inl (fault_exc f))"
  proof (cases fault)
    case None
    then show ?thesis using sto by (simp add: store_learning_ok)
  next
    case (Some f)
    then show ?thesis
      using sto store_learning_fails[of "snd clock" f "interaction_learning (fst clock) interaction a" st] by simp
  qed
  have "learn_from_interaction env r js clock fault interaction st =
          ((c, case w of Inl e \<Rightarrow> error_dict (''Failed to learn from interaction: '' @ exc_str e) | Inr _ \<Rightarrow> a), s)"
    using an sto by (simp add: learn_from_interaction_def split: sum.splits)
  then show ?thesis
    using assms an cur w by (cases fault) simp_all
qed

theorem learn_from_interaction_records_witness:
  "learn_from_interaction silent_env router_init reject_json (''2024-05-01T10:00:00'', ''20240501_100000'')
     (Some (OpenFails (OSError ''[Errno 28] No space left on device''))) (PDict []) (learning_init []) =
     (([], error_dict ''Failed to learn from interaction: [Errno 28] No space left on device''),
      \<lparr>current_learnings = [interaction_learning ''2024-05-01T10:00:00'' (PDict [])
                              (error_dict ''Analysis failed: Model gpt-4 not found'')],
       learning_dir = []\<rparr>) \<and>
   current_learnings \<lparr>current_learnings = [interaction_learning ''2024-05-01T10:00:00'' (PDict [])
                              (error_dict ''Analysis failed: Model gpt-4 not found'')],
       learning_dir = []\<rparr> =
     current_learnings (learning_init []) @
       [interaction_learning ''2024-05-01T10:00:00'' (PDict [])
          (snd (analyze_interaction silent_env router_init reject_json (PDict [])))]"
proof -
  have run: "learn_from_interaction silent_env router_init reject_json (''2024-05-01T10:00:00'', ''20240501_100000'')
     (Some (OpenFails (OSError ''[Errno 28] No space left on device''))) (PDict []) (learning_init []) =
     (([], error_dict ''Failed to learn from interaction: [Errno 28] No space left on device''),
      \<lparr>current_learnings = [interaction_learning ''2024-05-01T10:00:00'' (PDict [])
                              (error_dict ''Analysis failed: Model gpt-4 not found'')],
       learning_dir = []\<rparr>)"
    by (simp add: learn_from_interaction_def analyze_interaction_unrouted store_learning_def learning_init_def)
  from conjunct1[OF learn_from_interaction_records[OF run]] run show ?thesis by (simp only: fst_conv)
qed

text \<open>
  C23: a learning stored by this process is returned twice by \<open>_get_recent_learnings\<close>:
  once loaded from its file and once from \<open>current_learnings\<close>.
\<close>

theorem learned_twice:
  assumes "learning_dir st = []" and "current_learnings st = []"
    and "learn_from_interaction env r js clock None interaction st = (out, st')"
  shows "get_recent_learnings 50 st' =
           Inr [interaction_learning (fst clock) interaction (snd (analyze_interaction env r js interaction)),
                interaction_learning (fst clock) interaction (snd (analyze_interaction env r js interaction))]"
proof -
  define L where "L = interaction_learning (fst clock) interaction (snd (analyze_interaction env r js interaction))"
  have "st' = st\<lparr>current_learnings := current_learnings st @ [L],
                  learning_dir := dict_set (learning_dir st) (learning_file (snd clock)) (Inr L)\<rparr>"
    using assms(3)[unfolded learn_from_interaction_ok] unfolding L_def by (simp only: prod.inject) blast
  then have st': "learning_dir st' = [(learning_file (snd clock), Inr L)]" "current_learnings st' = [L]"
    using assms(1,2) by simp_all
  have "loaded_learnings 50 st' = [L]"
    by (simp add: loaded_learnings_def recent_files_def py_sorted_desc_def st')
  moreover have "sort_learnings [L, L] = Inr [L, L]"
    by (simp add: sort_learnings_def L_def py_sorted_desc_def)
  ultimately show ?thesis by (simp add: get_recent_learnings_def st' L_def)
qed

theorem learned_twice_witness:
  "learning_dir (learning_init []) = [] \<and> current_learnings (learning_init []) = [] \<and>
   learn_from_interaction silent_env router_init reject_json (''2024-05-01T10:00:00'', ''20240501_100000'')
     None (PDict []) (learning_init []) =
     (([], error_dict ''Analysis failed: Model gpt-4 not found''),
      \<lparr>current_learnings = [interaction_learning ''2024-05-01T10:00:00'' (PDict [])
                              (error_dict ''Analysis failed: Model gpt-4 not found'')],
       learning_dir = [(learning_file ''20240501_100000'', Inr (interaction_learning ''2024-05-01T10:00:00'' (PDict [])
                              (error_dict ''Analysis failed: Model gpt-4 not found'')))]\<rparr>) \<and>
   get_recent_learnings 50
      \<lparr>current_learnings = [interaction_learning ''2024-05-01T10:00:00'' (PDict [])
                              (error_dict ''Analysis failed: Model gpt-4 not found'')],
       learning_dir = [(learning_file ''20240501_100000'', Inr (interaction_learning ''2024-05-01T10:00:00'' (PDict [])
                              (error_dict ''Analysis failed: Model gpt-4 not found'')))]\<rparr> =
     Inr [interaction_learning ''2024-05-01T10:00:00'' (PDict []) (error_dict ''Analysis failed: Model gpt-4 not found''),
          interaction_learning ''2024-05-01T10:00:00'' (PDict []) (error_dict ''Analysis failed: Model gpt-4 not found'')]"
proof -
  have d: "learning_dir (learning_init []) = []" and c: "current_learnings (learning_init []) = []"
    by (simp_all add: learning_init_def)
  have run: "learn_from_interaction silent_env router_init reject_json (''2024-05-01T10:00:00'', ''20240501_100000'')
     None (PDict []) (learning_init []) =
     (([], error_dict ''Analysis failed: Model gpt-4 not found''),
      \<lparr>current_learnings = [interaction_learning ''2024-05-01T10:00:00'' (PDict [])
                              (error_dict ''Analysis failed: Model gpt-4 not found'')],
       learning_dir = [(learning_file ''20240501_100000'', Inr (interaction_learning ''2024-05-01T10:00:00'' (PDict [])
                              (error_dict ''Analysis failed: Model gpt-4 not found'')))]\<rparr>)"
    by (simp add: learn_from_interaction_ok analyze_interaction_unrouted learning_init_def)
  from d c run learned_twice[OF d c run] show ?thesis by (simp add: analyze_interaction_unrouted)
qed

text \<open>
  C24: two learnings stored within the same second get the same file name; both calls
  succeed, but the second overwrites the first, which is lost to the next process.
\<close>

theorem same_second_overwrites:
  assumes "store_learning stamp None l1 st = (r1, st1)"
    and "store_learning stamp None l2 st1 = (r2, st2)"
    and "Inr l1 \<notin> set (map snd (learning_dir st))" and "l1 \<noteq> l2"
  shows "r1 = Inr () \<and> r2 = Inr () \<and> l1 \<in> set (current_learnings st2) \<and>
         l1 \<notin> set (loaded_learnings n (learning_init (learning_dir st2)))"
proof -
  have st2: "learning_dir st2 = dict_set (learning_dir st) (learning_file stamp) (Inr l2)"
    and cur: "current_learnings st2 = current_learnings st @ [l1, l2]"
    and r: "r1 = Inr ()" "r2 = Inr ()"
    using assms(1,2) by (auto simp: store_learning_ok)
  have "Inr l1 \<notin> set (map snd (learning_dir st2))"
    using values_dict_set[of "learning_dir st" "learning_file stamp" "Inr l2"] assms(3,4) st2 by auto
  then have "l1 \<notin> set (loaded_learnings n (learning_init (learning_dir st2)))"
    using loaded_learnings_on_disk[of l1 n "learning_init (learning_dir st2)"] by (auto simp: learning_init_def)
  with r cur show ?thesis by simp
qed

theorem same_second_overwrites_witness:
  "store_learning ''20240501_100000'' None la (learning_init []) =
     (Inr (), \<lparr>current_learnings = [la], learning_dir = [(learning_file ''20240501_100000'', Inr la)]\<rparr>) \<and>
   store_learning ''20240501_100000'' None lb
       \<lparr>current_learnings = [la], learning_dir = [(learning_file ''20240501_100000'', Inr la)]\<rparr> =
     (Inr (), \<lparr>current_learnings = [la, lb], learning_dir = [(learning_file ''20240501_100000'', Inr lb)]\<rparr>) \<and>
   Inr la \<notin> set (map snd (learning_dir (learning_init []))) \<and> la \<noteq> lb \<and>
   la \<in> set [la, lb] \<and>
   la \<notin> set (loaded_learnings 50 (learning_init [(learning_file ''20240501_100000'', Inr lb)]))"
proof -
  have s1: "store_learning ''20240501_100000'' None la (learning_init []) =
     (Inr (), \<lparr>current_learnings = [la], learning_dir = [(learning_file ''20240501_100000'', Inr la)]\<rparr>)"
    by (simp add: store_learning_ok learning_init_def)
  have s2: "store_learning ''20240501_100000'' None lb
       \<lparr>current_learnings = [la], learning_dir = [(learning_file ''20240501_100000'', Inr la)]\<rparr> =
     (Inr (), \<lparr>current_learnings = [la, lb], learning_dir = [(learning_file ''20240501_100000'', Inr lb)]\<rparr>)"
    by (simp add: store_learning_ok)
  have n: "Inr la \<notin> set (map snd (learning_dir (learning_init [])))" by (simp add: learning_init_def)
  have d: "la \<noteq> lb" by (simp add: la_def lb_def)
  from s1 s2 n d same_second_overwrites[OF s1 s2 n d, of 50] show ?thesis by simp
qed

text \<open>
  C25: when every learning has a string timestamp, \<open>_get_recent_learnings(limit)\<close> returns at
  most \<open>limit\<close> of the loaded and in-memory learnings, newest first.
\<close>

theorem recent_learnings_sorted:
  assumes "get_recent_learnings limit st = Inr ys"
    and "\<forall>x \<in> set (loaded_learnings limit st @ current_learnings st). \<exists>s. timestamp_key x = Inr (KStr s)"
  shows "length ys \<le> limit \<and> mset ys \<subseteq># mset (loaded_learnings limit st @ current_learnings st) \<and>
         sorted_wrt (\<lambda>x y. learning_ts y \<le> learning_ts x) ys"
proof -
  obtain zs where zs: "sort_learnings (loaded_learnings limit st @ current_learnings st) = Inr zs"
    and ms: "mset zs = mset (loaded_learnings limit st @ current_learnings st)"
    and so: "sorted_wrt (\<lambda>x y. learning_ts y \<le> learning_ts x) zs"
    using sort_learnings_strings[OF assms(2)] by blast
  with assms(1) have ys: "ys = take limit zs" by (simp add: get_recent_learnings_def)
  have "mset (take limit zs) \<subseteq># mset zs"
    by (metis append_take_drop_id mset_append mset_subset_eq_add_left)
  with ys ms so show ?thesis by (simp add: sorted_wrt_take)
qed

theorem recent_learnings_sorted_witness:
  "get_recent_learnings 50 two_day_learner = Inr [lb, la] \<and>
   length [lb, la] \<le> 50 \<and> mset [lb, la] \<subseteq># mset (loaded_learnings 50 two_day_learner @ current_learnings two_day_learner) \<and>
   sorted_wrt (\<lambda>x y. learning_ts y \<le> learning_ts x) [lb, la]"
proof -
  have loaded: "loaded_learnings 50 two_day_learner = [la]"
    by (simp add: loaded_learnings_def recent_files_def py_sorted_desc_def two_day_learner_def is_learning_file_def)
  have run: "get_recent_learnings 50 two_day_learner = Inr [lb, la]"
    unfolding get_recent_learnings_def loaded
    by (simp add: sort_learnings_def two_day_learner_def la_def lb_def timestamp_key_def py_sorted_desc_def)
  have hyp: "\<forall>x \<in> set (loaded_learnings 50 two_day_learner @ current_learnings two_day_learner).
               \<exists>s. timestamp_key x = Inr (KStr s)"
    unfolding loaded by (simp add: two_day_learner_def la_def lb_def timestamp_key_def)
  from run recent_learnings_sorted[OF run hyp] show ?thesis by blast
qed

text \<open>
  C26: one learning file among the newest fifty that holds valid JSON but not a dict makes
  every \<open>generate_improvement_plan\<close> fail before any provider call: the sort key
  \<open>x.get\<close> raises outside the per-file \<open>try\<close>.
\<close>

theorem non_dict_learning_blocks_plans:
  assumes "x \<in> set (loaded_learnings 50 st)" and "py_type_name x \<noteq> ''dict''"
  shows "\<exists>e. generate_improvement_plan env r js now_iso st = ([], plan_failed e)"
proof -
  have "\<exists>e. timestamp_key x = Inl e" using assms(2) by (cases x) (auto simp: timestamp_key_def)
  then obtain e where "py_map timestamp_key (loaded_learnings 50 st @ current_learnings st) = Inl e"
    using assms(1) py_map_Inl[of timestamp_key "loaded_learnings 50 st @ current_learnings st"] by auto
  then show ?thesis
    by (simp add: generate_improvement_plan_def get_recent_learnings_def sort_learnings_def) blast
qed

theorem non_dict_learning_blocks_plans_witness:
  "PList [] \<in> set (loaded_learnings 50 (learning_init [(''learning_notes.json'', Inr (PList []))])) \<and>
   py_type_name (PList []) \<noteq> ''dict'' \<and>
   (\<exists>e. generate_improvement_plan approving_env openai_router reject_json ''2024-05-01T10:00:00''
          (learning_init [(''learning_notes.json'', Inr (PList []))]) = ([], plan_failed e))"
proof -
  have l: "PList [] \<in> set (loaded_learnings 50 (learning_init [(''learning_notes.json'', Inr (PList []))]))"
    by (simp add: loaded_learnings_def recent_files_def py_sorted_desc_def learning_init_def is_learning_file_def)
  have t: "py_type_name (PList []) \<noteq> ''dict''" by simp
  from l t non_dict_learning_blocks_plans[OF l t] show ?thesis by blast
qed

end
