(* ===== verification/KeyManager.thy ===== *)
theory KeyManager
  imports Prelude
begin

text \<open>
  The API key store, \<open>APIKeyManager\<close> (src/backend/core/config/key_manager.py). Its state
  is the Fernet instance it was built with and the dict \<open>keys\<close> from service names to
  Fernet tokens; \<open>config/keys.json\<close> is the persistent copy, \<open>None\<close> while it does not
  exist. Fernet is the library's: a pair of functions, with the contract
  \<open>fernet_roundtrip\<close> (a token decrypts, under the same key, to what was encrypted) and
  \<open>rejects\<close> (tokens of one key fail under another, with \<open>InvalidToken\<close>, whose
  \<open>str()\<close> is empty). Fernet tokens are ASCII, so \<open>encode\<close>/\<open>decode\<close> are the identity.
  A JSON object of strings survives \<open>json.dump\<close> and \<open>json.load\<close> unchanged.
\<close>

record fernet =
  f_encrypt :: "string \<Rightarrow> string"
  f_decrypt :: "string \<Rightarrow> string py"

definition invalid_token :: py_exc where
  "invalid_token = Exception []"

record key_manager =
  km_fernet :: fernet
  km_keys :: "(string, string) pydict"

type_synonym keys_file = "(string, string) pydict option"

text \<open>\<open>__init__\<close> with \<open>_load_keys\<close>: the tokens of an existing \<open>keys.json\<close> are loaded
  as they are, whatever key they were made with.\<close>

definition km_init :: "fernet \<Rightarrow> keys_file \<Rightarrow> key_manager" where
  "km_init f file = \<lparr>km_fernet = f, km_keys = (case file of None \<Rightarrow> [] | Some d \<Rightarrow> d)\<rparr>"

text \<open>\<open>_save_keys\<close>: \<open>fault\<close> is the exception \<open>open(config_path, 'w')\<close> raises, if any.\<close>

definition save_keys :: "py_exc option \<Rightarrow> key_manager \<Rightarrow> keys_file \<Rightarrow> unit py \<times> keys_file" where
  "save_keys fault km file = (case fault of None \<Rightarrow> (Inr (), Some (km_keys km)) | Some e \<Rightarrow> (Inl e, file))"

text \<open>\<open>store_key\<close>: the dict is updated before the file is written.\<close>

definition store_key ::
  "py_exc option \<Rightarrow> string \<Rightarrow> string \<Rightarrow> key_manager \<Rightarrow> keys_file \<Rightarrow> unit py \<times> key_manager \<times> keys_file" where
  "store_key fault service api_key km file =
     (let km' = km\<lparr>km_keys := dict_set (km_keys km) service (f_encrypt (km_fernet km) api_key)\<rparr>
      in case save_keys fault km' file of (r, file') \<Rightarrow> (r, km', file'))"

definition get_key :: "string \<Rightarrow> key_manager \<Rightarrow> string option py" where
  "get_key service km =
     (case dict_get (km_keys km) service of
        None \<Rightarrow> Inr None
      | Some t \<Rightarrow> (case f_decrypt (km_fernet km) t of Inl e \<Rightarrow> Inl e | Inr p \<Rightarrow> Inr (Some p)))"

definition remove_key ::
  "py_exc option \<Rightarrow> string \<Rightarrow> key_manager \<Rightarrow> keys_file \<Rightarrow> bool py \<times> key_manager \<times> keys_file" where
  "remove_key fault service km file =
     (if service \<in> set (dict_keys (km_keys km)) then
        (let km' = km\<lparr>km_keys := dict_del (km_keys km) service\<rparr>
         in case save_keys fault km' file of (r, file') \<Rightarrow> (map_sum id (\<lambda>_. True) r, km', file'))
      else (Inr False, km, file))"

definition list_services :: "key_manager \<Rightarrow> string list" where
  "list_services km = dict_keys (km_keys km)"

subsection \<open>The cipher's contract\<close>

definition fernet_roundtrip :: "fernet \<Rightarrow> bool" where
  "fernet_roundtrip f \<longleftrightarrow> (\<forall>p. f_decrypt f (f_encrypt f p) = Inr p)"

definition rejects :: "fernet \<Rightarrow> fernet \<Rightarrow> bool" where
  "rejects f2 f1 \<longleftrightarrow> (\<forall>p. f_decrypt f2 (f_encrypt f1 p) = Inl invalid_token)"

text \<open>Two toy ciphers that meet the contract, for the examples: a token is a tag and the text.\<close>

definition tag_cipher :: "string \<Rightarrow> fernet" where
  "tag_cipher k = \<lparr>f_encrypt = (\<lambda>p. k @ ''.'' @ p),
                    f_decrypt = (\<lambda>t. if take (length k + 1) t = k @ ''.'' then Inr (drop (length k + 1) t)
                                     else Inl invalid_token)\<rparr>"

section \<open>Properties\<close>

lemma store_key_keys:
  "store_key fault s k km file = (r, km', file') \<Longrightarrow>
     km_keys km' = dict_set (km_keys km) s (f_encrypt (km_fernet km) k) \<and> km_fernet km' = km_fernet km"
  by (auto simp: store_key_def Let_def split: prod.splits)

lemma store_key_state:
  "store_key fault s k km file = (r, km', file') \<Longrightarrow>
     km' = km\<lparr>km_keys := dict_set (km_keys km) s (f_encrypt (km_fernet km) k)\<rparr>"
  by (auto simp: store_key_def Let_def split: prod.splits)

lemma store_key_file:
  "store_key None s k km file = (r, km', file') \<Longrightarrow> r = Inr () \<and> file' = Some (km_keys km')"
  by (auto simp: store_key_def save_keys_def Let_def)

lemma store_key_fails:
  "store_key (Some e) s k km file = (r, km', file') \<Longrightarrow> r = Inl e \<and> file' = file"
  by (auto simp: store_key_def save_keys_def Let_def)

lemma store_then_get:
  assumes "fernet_roundtrip (km_fernet km)" and "store_key fault s k km file = (r, km', file')"
  shows "get_key s km' = Inr (Some k) \<and> (\<forall>s'. s' \<noteq> s \<longrightarrow> get_key s' km' = get_key s' km)"
  using assms(1) by (simp add: store_key_state[OF assms(2)] get_key_def fernet_roundtrip_def cong: option.case_cong)

lemma restart_with_fresh_key:
  assumes "store_key None s k (km_init f1 file0) file0 = (r, km1, file1)"
    and "rejects f2 f1"
  shows "s \<in> set (list_services (km_init f2 file1)) \<and> get_key s (km_init f2 file1) = Inl invalid_token"
proof -
  from store_key_file[OF assms(1)] store_key_keys[OF assms(1)]
  have "file1 = Some (dict_set (km_keys (km_init f1 file0)) s (f_encrypt f1 k))"
    by (simp add: km_init_def)
  with assms(2) show ?thesis
    by (simp add: km_init_def list_services_def get_key_def rejects_def set_keys_dict_set del: set_map)
qed

lemma remove_key_spec:
  assumes "remove_key fault s km file = (r, km', file')"
  shows "s \<notin> set (list_services km') \<and> get_key s km' = Inr None \<and>
         (s \<notin> set (list_services km) \<longrightarrow> r = Inr False \<and> km' = km \<and> file' = file) \<and>
         (s \<in> set (list_services km) \<longrightarrow> fault = None \<longrightarrow> r = Inr True \<and> file' = Some (km_keys km'))"
proof (cases "s \<in> set (list_services km)")
  case True
  then have "km' = km\<lparr>km_keys := dict_del (km_keys km) s\<rparr>" "r = map_sum id (\<lambda>_. True) (fst (save_keys fault km' file))"
    "file' = snd (save_keys fault km' file)"
    using assms by (auto simp: remove_key_def list_services_def Let_def split: prod.splits)
  then show ?thesis
    using True by (cases fault) (auto simp: list_services_def get_key_def save_keys_def keys_dict_del)
next
  case False
  then have "dict_get (km_keys km) s = None" by (simp add: list_services_def map_of_eq_None_iff)
  then show ?thesis
    using assms False by (auto simp: remove_key_def list_services_def get_key_def)
qed

lemma store_key_wf: "store_key fault s k km file = (r, km', file') \<Longrightarrow> dict_wf (km_keys km) \<Longrightarrow> dict_wf (km_keys km')"
  by (simp add: store_key_keys)

end
