(* ===== verification/Improvement.thy ===== *)
theory Improvement
  imports Learning
begin

text \<open>
  The improvement workflow: \<open>CodeImprovement.suggest_improvements\<close> and
  \<open>implement_improvements\<close> (src/backend/core/agent/improvement.py), whose safety battery
  is \<open>safety_verdict\<close> of the Safety theory, and the agent's self-analysis
  \<open>Agent.analyze_self\<close> and \<open>improve_self\<close> (agent.py). \<open>astor.to_source\<close> is the
  parameter \<open>unparse\<close>; \<open>_apply_improvements_to_ast\<close> is, as in the code, the identity.
  The agent's own source files are the list of their names and contents, in the order
  \<open>glob\<close> yields them.
\<close>

section \<open>Suggestions\<close>

definition ind8 :: "string \<Rightarrow> string" where
  "ind8 s = replicate 8 (CHR '' '') @ s"

definition suggest_prompt :: "string \<Rightarrow> string" where
  "suggest_prompt code =
     py_lines [''Analyze this Python code and suggest improvements:'', '''', ind8 code, '''',
       ind8 ''Focus on:'', ind8 ''1. Code quality and readability'', ind8 ''2. Performance optimizations'',
       ind8 ''3. Security improvements'', ind8 ''4. Error handling'', ind8 ''5. Architecture improvements'', '''',
       ind8 ''Format your response as a JSON object with these keys:'',
       ind8 ''- suggestions: List of specific improvement suggestions'',
       ind8 ''- priority: Priority level for each suggestion (high/medium/low)'',
       ind8 ''- implementation: Concrete code examples for each suggestion'',
       ind8 ''- risks: Potential risks or side effects of each suggestion'', ind8 '''']"

definition suggest_improvements ::
  "provider_env \<Rightarrow> router \<Rightarrow> json_lib \<Rightarrow> string \<Rightarrow> api_request list \<times> pyval" where
  "suggest_improvements env r js code =
     (case route_request env r ''gpt-4'' ''chat''
             (no_kwargs\<lparr>kw_messages := Some (specialist_messages ''You are a Python code improvement expert.''
                                                (suggest_prompt code))\<rparr>) of
        (calls, Inl e) \<Rightarrow> (calls, error_dict (''Failed to generate improvements: '' @ exc_str e))
      | (calls, Inr resp) \<Rightarrow>
          (case loads js (reply_text resp) of
             Inl e \<Rightarrow> (calls, error_dict (''Failed to generate improvements: '' @ exc_str e))
           | Inr v \<Rightarrow> (calls, v)))"

section \<open>Implementation\<close>

text \<open>\<open>d.get(key, default)\<close>: only a dict has the method.\<close>

definition py_get_or :: "pyval \<Rightarrow> string \<Rightarrow> pyval \<Rightarrow> pyval py" where
  "py_get_or v key dflt =
     (case v of
        PDict d \<Rightarrow> Inr (case dict_get d key of None \<Rightarrow> dflt | Some x \<Rightarrow> x)
      | _ \<Rightarrow> Inl (AttributeError (py_quote (py_type_name v) @ '' object has no attribute '' @ py_quote ''get'')))"

text \<open>\<open>_apply_improvements_to_ast\<close>: "a placeholder for actual AST transformation logic".\<close>

definition apply_improvements_to_ast :: "pynode \<Rightarrow> pyval \<Rightarrow> pynode" where
  "apply_improvements_to_ast tree implementations = tree"

definition impl_failed :: "py_exc \<Rightarrow> pyval" where
  "impl_failed e = error_dict (''Failed to implement improvements: '' @ exc_str e)"

definition impl_success :: "path \<Rightarrow> pyval" where
  "impl_success p =
     PDict [(''status'', PStr ''success''), (''message'', PStr ''Improvements implemented successfully''),
            (''backup_created'', PStr (backup_path p))]"

text \<open>
  \<open>implement_improvements\<close>: every exception of the outer \<open>try\<close> becomes
  \<open>{"error": "Failed to implement improvements: ..."}\<close>; a failed write renames the backup
  back inside the inner \<open>except\<close>.
\<close>

definition implement_improvements ::
  "parser \<Rightarrow> (pynode \<Rightarrow> string) \<Rightarrow> faults \<Rightarrow> path \<Rightarrow> pyval \<Rightarrow> files \<Rightarrow> pyval \<times> files" where
  "implement_improvements parse unparse ft p improvements fs =
     (case read_file fs p of
        Inl e \<Rightarrow> (impl_failed e, fs)
      | Inr original \<Rightarrow>
          (case py_get_or improvements ''implementation'' (PDict []) of
             Inl e \<Rightarrow> (impl_failed e, fs)
           | Inr impls \<Rightarrow>
               if \<not> py_truthy impls then (error_dict ''No implementation details provided'', fs)
               else
                 (case parse original of
                    Inl e \<Rightarrow> (impl_failed e, fs)
                  | Inr tree \<Rightarrow>
                      (let modified = unparse (apply_improvements_to_ast tree impls)
                       in case safety_verdict parse modified of
                            Inl e \<Rightarrow> (impl_failed e, fs)
                          | Inr (Unsafe reason) \<Rightarrow> (error_dict (''Safety check failed: '' @ reason), fs)
                          | Inr Safe \<Rightarrow>
                              (case path_rename ft p (backup_path p) fs of
                                 Inl e \<Rightarrow> (impl_failed e, fs)
                               | Inr fs1 \<Rightarrow>
                                   (case write_text ft p modified fs1 of
                                      (Inr _, fs2) \<Rightarrow> (impl_success p, fs2)
                                    | (Inl we, fs2) \<Rightarrow>
                                        (case path_rename ft (backup_path p) p fs2 of
                                           Inl e \<Rightarrow> (impl_failed e, fs2)
                                         | Inr fs3 \<Rightarrow>
                                             (error_dict (''Failed to write improved code: '' @ exc_str we), fs3))))))))"

section \<open>Self-analysis of the agent\<close>

text \<open>\<open>analyze_self\<close>: one \<open>code_analysis\<close> request to the name \<open>claude\<close> per source file.\<close>

fun analyze_files ::
  "provider_env \<Rightarrow> router \<Rightarrow> (string \<times> string) list \<Rightarrow> (string, pyval) pydict \<Rightarrow>
     api_request list \<times> (string, pyval) pydict" where
  "analyze_files env r [] analyses = ([], analyses)"
| "analyze_files env r ((name, code) # files) analyses =
     (case route_request env r ''claude'' ''code_analysis'' (no_kwargs\<lparr>kw_code := Some code\<rparr>) of
        (calls, res) \<Rightarrow>
          (let analyses' = dict_set analyses name
                 (case res of Inl e \<Rightarrow> PDict [(''error'', PStr (exc_str e))] | Inr a \<Rightarrow> analysis_value a)
           in case analyze_files env r files analyses' of (calls', out) \<Rightarrow> (calls @ calls', out)))"

definition analyze_self ::
  "provider_env \<Rightarrow> router \<Rightarrow> (string \<times> string) list \<Rightarrow> api_request list \<times> (string, pyval) pydict" where
  "analyze_self env r files = analyze_files env r files []"

text \<open>\<open>"error" in analysis\<close>: membership of a key, a substring or an element; the other
  values are not iterable.\<close>

definition py_contains :: "string \<Rightarrow> pyval \<Rightarrow> bool py" where
  "py_contains k v =
     (case v of
        PDict d \<Rightarrow> Inr (k \<in> set (dict_keys d))
      | PStr s \<Rightarrow> Inr (py_in k s)
      | PList xs \<Rightarrow> Inr (PStr k \<in> set xs)
      | _ \<Rightarrow> Inl (TypeError (''argument of type '' @ py_quote (py_type_name v) @ '' is not iterable'')))"

definition improve_messages :: "(pyval \<Rightarrow> string) \<Rightarrow> string \<Rightarrow> pyval \<Rightarrow> message list" where
  "improve_messages dumps name analysis =
     [\<lparr>role = ''system'', content = ''You are an expert code improver. Suggest specific, safe improvements to the code.''\<rparr>,
      \<lparr>role = ''user'', content = ''Analysis: '' @ dumps analysis @ [NL, NL] @ ''Suggest improvements for '' @ name\<rparr>]"

text \<open>The loop of \<open>improve_self\<close>: the membership test is outside its \<open>try\<close>.\<close>

fun improve_files ::
  "provider_env \<Rightarrow> router \<Rightarrow> (pyval \<Rightarrow> string) \<Rightarrow> (string, pyval) pydict \<Rightarrow> (string, pyval) pydict \<Rightarrow>
     api_request list \<times> (string, pyval) pydict py" where
  "improve_files env r dumps [] imps = ([], Inr imps)"
| "improve_files env r dumps ((name, analysis) # rest) imps =
     (case py_contains ''error'' analysis of
        Inl e \<Rightarrow> ([], Inl e)
      | Inr True \<Rightarrow> improve_files env r dumps rest imps
      | Inr False \<Rightarrow>
          (case route_request env r ''gpt-4'' ''chat'' (no_kwargs\<lparr>kw_messages := Some (improve_messages dumps name analysis)\<rparr>) of
             (calls, res) \<Rightarrow>
               (let imps' = dict_set imps name
                      (case res of Inl e \<Rightarrow> PDict [(''error'', PStr (exc_str e))] | Inr resp \<Rightarrow> PStr (reply_text resp))
                in case improve_files env r dumps rest imps' of (calls', out) \<Rightarrow> (calls @ calls', out))))"

definition improve_self ::
  "provider_env \<Rightarrow> router \<Rightarrow> (pyval \<Rightarrow> string) \<Rightarrow> (string \<times> string) list \<Rightarrow>
     api_request list \<times> (string, pyval) pydict py" where
  "improve_self env r dumps files =
     (case analyze_self env r files of
        (calls, analyses) \<Rightarrow> (case improve_files env r dumps analyses [] of (calls', out) \<Rightarrow> (calls @ calls', out)))"

section \<open>Fixtures\<close>

definition one_suggestion :: pyval where
  "one_suggestion = PDict [(''implementation'', PStr ''x = 2'')]"

section \<open>Properties\<close>

lemma impl_success_neq [simp]:
  "impl_success p \<noteq> error_dict m" "impl_success p \<noteq> impl_failed e"
  "error_dict m \<noteq> impl_success p" "impl_failed e \<noteq> impl_success p"
  by (simp_all add: impl_success_def impl_failed_def error_dict_def)

lemma implement_improvements_success_path:
  assumes "implement_improvements parse unparse ft p imps fs = (impl_success p, fs')"
  shows "\<exists>orig impls tree fs1. fs p = Some orig \<and> py_get_or imps ''implementation'' (PDict []) = Inr impls \<and>
           py_truthy impls \<and> parse orig = Inr tree \<and> safety_verdict parse (unparse tree) = Inr Safe \<and>
           path_rename ft p (backup_path p) fs = Inr fs1 \<and> write_text ft p (unparse tree) fs1 = (Inr (), fs')"
  using assms
  by (auto simp: implement_improvements_def read_file_def apply_improvements_to_ast_def Let_def
      split: option.splits sum.splits if_splits prod.splits verdict.splits)

lemma improve_files_raises:
  assumes "py_contains ''error'' a = Inl e"
  shows "snd (improve_files env r dumps ((n, a) # rest) imps) = Inl e"
  using assms by simp

text \<open>
  C27: \<open>implement_improvements\<close> never applies a suggestion: when it reports success, the
  file holds the original code parsed and printed again, whatever was suggested, the
  original is at \<open><path>.bak\<close>, and no other file changed.
\<close>

theorem implement_improvements_reprints:
  assumes "implement_improvements parse unparse ft p imps fs = (impl_success p, fs')"
  shows "\<exists>orig tree. fs p = Some orig \<and> parse orig = Inr tree \<and>
           fs' p = Some (unparse tree) \<and> fs' (backup_path p) = Some orig \<and>
           (\<forall>q. q \<noteq> p \<longrightarrow> q \<noteq> backup_path p \<longrightarrow> fs' q = fs q)"
proof -
  obtain orig impls tree fs1 where o: "fs p = Some orig" and t: "parse orig = Inr tree"
    and r: "path_rename ft p (backup_path p) fs = Inr fs1" and w: "write_text ft p (unparse tree) fs1 = (Inr (), fs')"
    using implement_improvements_success_path[OF assms] by blast
  from r o have fs1: "fs1 = (fs(p := None))(backup_path p \<mapsto> orig)" by (auto simp: path_rename_Inr)
  from w have "fs' = fs1(p \<mapsto> unparse tree)" by (auto simp: write_text_def split: option.splits)
  with fs1 o t show ?thesis by auto
qed

theorem implement_improvements_reprints_witness:
  "implement_improvements scenario_parser (\<lambda>_. ''x = 1'') no_faults ''f.py'' one_suggestion scenario_before =
     (impl_success ''f.py'', scenario_before(''f.py'' := None, ''f.py.bak'' \<mapsto> ''x = 1'', ''f.py'' \<mapsto> ''x = 1'')) \<and>
   (\<exists>orig tree. scenario_before ''f.py'' = Some orig \<and> scenario_parser orig = Inr tree \<and>
      (scenario_before(''f.py'' := None, ''f.py.bak'' \<mapsto> ''x = 1'', ''f.py'' \<mapsto> ''x = 1'')) ''f.py'' = Some ((\<lambda>_. ''x = 1'') tree) \<and>
      (scenario_before(''f.py'' := None, ''f.py.bak'' \<mapsto> ''x = 1'', ''f.py'' \<mapsto> ''x = 1'')) (backup_path ''f.py'') = Some orig \<and>
      (\<forall>q. q \<noteq> ''f.py'' \<longrightarrow> q \<noteq> backup_path ''f.py'' \<longrightarrow>
           (scenario_before(''f.py'' := None, ''f.py.bak'' \<mapsto> ''x = 1'', ''f.py'' \<mapsto> ''x = 1'')) q = scenario_before q))"
proof -
  have run: "implement_improvements scenario_parser (\<lambda>_. ''x = 1'') no_faults ''f.py'' one_suggestion scenario_before =
     (impl_success ''f.py'', scenario_before(''f.py'' := None, ''f.py.bak'' \<mapsto> ''x = 1'', ''f.py'' \<mapsto> ''x = 1''))"
    by (simp add: implement_improvements_def read_file_def scenario_before_def one_suggestion_def py_get_or_def
        scenario_parser_def apply_improvements_to_ast_def safety_verdict_unfold check_syntax_def
        check_dangerous_imports_def check_file_operations_def check_network_operations_def ast_walk_tree_def
        improvement_dangerous_modules_def file_operation_patterns_def network_operation_patterns_def
        path_rename_def write_text_def no_faults_def backup_path_def Let_def)
  from run implement_improvements_reprints[OF run] show ?thesis by blast
qed

end
