(* ===== verification/Endpoints.thy ===== *)
theory Endpoints
  imports Improvement KeyManager
begin

text \<open>
  The HTTP layer, src/backend/api/endpoints.py. The module builds one instance of each
  component at import time; their joint state is the record \<open>backend\<close>, with the
  provider environment (where \<open>openai.api_key\<close> lives) and the file system. Each handler
  is a function from its request fields and the state to the provider requests it made,
  its response and the new state. \<open>HTTPException(status_code, detail)\<close> is
  \<open>HttpError\<close>; an exception no handler catches is FastAPI's \<open>500 Internal Server
  Error\<close>. The module as written does not import (\<open>Any\<close> is not imported, and
  improvement.py has a syntax error at line 193); the handlers are modelled as they
  would run once those two lines are fixed.
\<close>

datatype http_response = HttpOk pyval | HttpError nat string

record backend =
  b_km :: key_manager
  b_keys_file :: keys_file
  b_router :: router
  b_env :: provider_env
  b_agent :: agent
  b_learner :: learner
  b_files :: files

type_synonym handler_result = "(api_request list \<times> http_response) \<times> backend"

text \<open>Import time: \<open>APIKeyManager()\<close> without a key, so with a fresh Fernet key \<open>f\<close>.\<close>

definition backend_init ::
  "fernet \<Rightarrow> keys_file \<Rightarrow> provider_env \<Rightarrow> (string, pyval py) pydict \<Rightarrow> files \<Rightarrow> backend" where
  "backend_init f kf env dir fs =
     \<lparr>b_km = km_init f kf, b_keys_file = kf, b_router = router_init, b_env = env,
      b_agent = agent_init, b_learner = learning_init dir, b_files = fs\<rparr>"

definition internal_error :: http_response where
  "internal_error = HttpError 500 ''Internal Server Error''"

text \<open>\<open>str(HTTPException(code, detail))\<close> in Starlette.\<close>

definition http_exc_str :: "nat \<Rightarrow> string \<Rightarrow> string" where
  "http_exc_str code detail = dec_str code @ '': '' @ detail"

section \<open>Keys\<close>

definition status_msg :: "string \<Rightarrow> pyval" where
  "status_msg m = PDict [(''status'', PStr ''success''), (''message'', PStr m)]"

text \<open>\<open>store_api_key\<close>: store, then register the provider's models under fixed names.\<close>

definition register_provider :: "string \<Rightarrow> string \<Rightarrow> backend \<Rightarrow> backend" where
  "register_provider service key st =
     (if service = ''openai'' then
        (case openai_init key (b_env st) of
           (m1, env1) \<Rightarrow>
             (case openai_init key env1 of
                (m2, env2) \<Rightarrow>
                  st\<lparr>b_router := register_model ''gpt-3.5-turbo'' m2 (register_model ''gpt-4'' m1 (b_router st)),
                     b_env := env2\<rparr>))
      else if service = ''anthropic'' then
        st\<lparr>b_router := register_model ''claude'' (anthropic_init key) (b_router st)\<rparr>
      else st)"

definition store_api_key :: "py_exc option \<Rightarrow> string \<Rightarrow> string \<Rightarrow> backend \<Rightarrow> handler_result" where
  "store_api_key fault service key st =
     (case store_key fault service key (b_km st) (b_keys_file st) of
        (Inl e, km', kf') \<Rightarrow> (([], HttpError 500 (exc_str e)), st\<lparr>b_km := km', b_keys_file := kf'\<rparr>)
      | (Inr _, km', kf') \<Rightarrow>
          (([], HttpOk (status_msg (''API key for '' @ service @ '' stored''))),
           register_provider service key (st\<lparr>b_km := km', b_keys_file := kf'\<rparr>)))"

definition list_services_h :: "backend \<Rightarrow> handler_result" where
  "list_services_h st = (([], HttpOk (PDict [(''services'', PList (map PStr (list_services (b_km st))))])), st)"

definition remove_api_key :: "py_exc option \<Rightarrow> string \<Rightarrow> backend \<Rightarrow> handler_result" where
  "remove_api_key fault service st =
     (case remove_key fault service (b_km st) (b_keys_file st) of
        (Inl e, km', kf') \<Rightarrow> (([], internal_error), st\<lparr>b_km := km', b_keys_file := kf'\<rparr>)
      | (Inr True, km', kf') \<Rightarrow>
          (([], HttpOk (status_msg (''API key for '' @ service @ '' removed''))), st\<lparr>b_km := km', b_keys_file := kf'\<rparr>)
      | (Inr False, km', kf') \<Rightarrow>
          (([], HttpError 404 (''No API key found for '' @ service)), st\<lparr>b_km := km', b_keys_file := kf'\<rparr>))"

section \<open>Agent\<close>

definition chat :: "rat \<times> rat \<Rightarrow> string \<Rightarrow> string \<Rightarrow> backend \<Rightarrow> handler_result" where
  "chat clock message model st =
     (case process_request (b_env st) (b_router st) clock message model (b_agent st) of
        ((calls, reply), ag') \<Rightarrow> ((calls, HttpOk (PDict [(''reply'', PStr reply)])), st\<lparr>b_agent := ag'\<rparr>))"

text \<open>The dicts \<open>execute_code_modification\<close> returns.\<close>

fun mod_json :: "mod_result \<Rightarrow> pyval" where
  "mod_json (ModSuccess a) = PDict [(''status'', PStr ''success''), (''analysis'', a)]"
| "mod_json (ModError m None) =
     PDict [(''status'', PStr ''error''), (''message'', case m of None \<Rightarrow> PNone | Some s \<Rightarrow> PStr s)]"
| "mod_json (ModError m (Some a)) =
     PDict [(''status'', PStr ''error''), (''message'', case m of None \<Rightarrow> PNone | Some s \<Rightarrow> PStr s),
            (''analysis'', a)]"
| "mod_json (ModRejected i) = PDict [(''status'', PStr ''rejected''), (''issues'', i)]"

definition modify_code :: "parser \<Rightarrow> faults \<Rightarrow> path \<Rightarrow> string \<Rightarrow> backend \<Rightarrow> handler_result" where
  "modify_code parse ft p changes st =
     (case execute_code_modification (b_env st) (b_router st) parse ft p changes (b_files st) of
        ((calls, res), fs') \<Rightarrow> ((calls, HttpOk (mod_json res)), st\<lparr>b_files := fs'\<rparr>))"

definition analyze_agent :: "(string \<times> string) list \<Rightarrow> backend \<Rightarrow> handler_result" where
  "analyze_agent sources st =
     (case analyze_self (b_env st) (b_router st) sources of
        (calls, analyses) \<Rightarrow> ((calls, HttpOk (PDict analyses)), st))"

text \<open>
  \<open>improve_agent\<close>: the \<open>HTTPException(400)\<close> raised inside the \<open>try\<close> is caught by its
  own \<open>except Exception\<close> and re-raised as a 500 whose detail is \<open>str()\<close> of the first.
\<close>

definition improve_agent ::
  "parser \<Rightarrow> (pynode \<Rightarrow> string) \<Rightarrow> faults \<Rightarrow> json_lib \<Rightarrow> path \<Rightarrow> string \<Rightarrow> backend \<Rightarrow> handler_result" where
  "improve_agent parse unparse ft js target improvement_type st =
     (case read_file (b_files st) target of
        Inl e \<Rightarrow> (([], HttpError 500 (exc_str e)), st)
      | Inr current \<Rightarrow>
          (case suggest_improvements (b_env st) (b_router st) js current of
             (calls, suggestions) \<Rightarrow>
               if improvement_type = ''analyze_only'' then ((calls, HttpOk suggestions), st)
               else if improvement_type = ''implement'' then
                 (case implement_improvements parse unparse ft target suggestions (b_files st) of
                    (result, fs') \<Rightarrow>
                      (case py_get result ''error'' of
                         Inl e \<Rightarrow> ((calls, HttpError 500 (exc_str e)), st\<lparr>b_files := fs'\<rparr>)
                       | Inr err \<Rightarrow>
                           if py_truthy err then
                             ((calls, HttpError 500 (http_exc_str 400 (py_str err))), st\<lparr>b_files := fs'\<rparr>)
                           else ((calls, HttpOk result), st\<lparr>b_files := fs'\<rparr>)))
               else ((calls, HttpOk suggestions), st)))"

section \<open>Learning\<close>

definition interaction_dict :: "string \<Rightarrow> string \<Rightarrow> bool \<Rightarrow> pyval \<Rightarrow> pyval option \<Rightarrow> pyval" where
  "interaction_dict user_input agent_response success duration metadata =
     PDict [(''user_input'', PStr user_input), (''agent_response'', PStr agent_response),
            (''success'', PBool success), (''duration'', duration),
            (''metadata'', case metadata of Some m \<Rightarrow> if py_truthy m then m else PDict [] | None \<Rightarrow> PDict [])]"

definition record_learning ::
  "json_lib \<Rightarrow> string \<times> string \<Rightarrow> store_fault option \<Rightarrow> string \<Rightarrow> string \<Rightarrow> bool \<Rightarrow> pyval \<Rightarrow> pyval option \<Rightarrow>
     backend \<Rightarrow> handler_result" where
  "record_learning js clock fault user_input agent_response success duration metadata st =
     (case learn_from_interaction (b_env st) (b_router st) js clock fault
             (interaction_dict user_input agent_response success duration metadata) (b_learner st) of
        ((calls, analysis), l') \<Rightarrow> ((calls, HttpOk analysis), st\<lparr>b_learner := l'\<rparr>))"

definition get_improvement_plan :: "json_lib \<Rightarrow> string \<Rightarrow> backend \<Rightarrow> handler_result" where
  "get_improvement_plan js now_iso st =
     (case generate_improvement_plan (b_env st) (b_router st) js now_iso (b_learner st) of
        (calls, plan) \<Rightarrow> ((calls, HttpOk plan), st))"

definition learn_from_code ::
  "json_lib \<Rightarrow> string \<times> string \<Rightarrow> store_fault option \<Rightarrow> path \<Rightarrow> string \<Rightarrow> backend \<Rightarrow> handler_result" where
  "learn_from_code js clock fault p changes st =
     (case read_file (b_files st) p of
        Inl e \<Rightarrow> (([], HttpError 500 (exc_str e)), st)
      | Inr old_code \<Rightarrow>
          (case learn_from_code_changes (b_env st) (b_router st) js clock fault p old_code changes (b_learner st) of
             ((calls, analysis), l') \<Rightarrow> ((calls, HttpOk analysis), st\<lparr>b_learner := l'\<rparr>)))"

section \<open>Fixtures\<close>

definition demo_backend :: backend where
  "demo_backend = backend_init (tag_cipher ''k1'') None silent_env [] scenario_before"

section \<open>Properties\<close>

lemma store_api_key_ok:
  "store_api_key None service key st =
     (([], HttpOk (status_msg (''API key for '' @ service @ '' stored''))),
      register_provider service key
        (st\<lparr>b_km := (b_km st)\<lparr>km_keys := dict_set (km_keys (b_km st)) service (f_encrypt (km_fernet (b_km st)) key)\<rparr>,
            b_keys_file := Some (dict_set (km_keys (b_km st)) service (f_encrypt (km_fernet (b_km st)) key))\<rparr>))"
  by (simp add: store_api_key_def store_key_def save_keys_def Let_def)

lemma register_openai:
  "b_router (register_provider ''openai'' key st) =
     register_model ''gpt-3.5-turbo'' OpenAIModel (register_model ''gpt-4'' OpenAIModel (b_router st)) \<and>
   openai_api_key (b_env (register_provider ''openai'' key st)) = Some key \<and>
   b_km (register_provider ''openai'' key st) = b_km st"
  by (simp add: register_provider_def openai_init_def)

lemma remove_api_key_router:
  "remove_api_key fault service st = (out, st') \<Longrightarrow>
     b_router st' = b_router st \<and> b_env st' = b_env st \<and>
     (\<exists>r kf'. remove_key fault service (b_km st) (b_keys_file st) = (r, b_km st', kf'))"
  by (auto simp: remove_api_key_def split: prod.splits sum.splits bool.splits)

lemma keys_file_after_store:
  "store_api_key None service k st = (out, st1) \<Longrightarrow>
     b_keys_file st1 = Some (dict_set (km_keys (b_km st)) service (f_encrypt (km_fernet (b_km st)) k))"
  by (auto simp: store_api_key_ok register_provider_def openai_init_def split: prod.splits)

lemma chat_unrouted:
  "get_model (b_router st) model = None \<Longrightarrow>
     fst (chat clock msg model st) =
       ([], HttpOk (PDict [(''reply'', PStr (''Error processing request: Model '' @ model @ '' not found''))]))"
  by (simp add: chat_def process_request_def route_request_def Let_def split: prod.splits)

lemma improve_agent_400_is_500:
  assumes "read_file (b_files st) target = Inr code"
    and "implement_improvements parse unparse ft target (snd (suggest_improvements (b_env st) (b_router st) js code))
           (b_files st) = (error_dict m, fs')"
    and "m \<noteq> []"
  shows "snd (fst (improve_agent parse unparse ft js target ''implement'' st)) = HttpError 500 (''400: '' @ m)"
proof -
  obtain calls sg where sg: "suggest_improvements (b_env st) (b_router st) js code = (calls, sg)" by fastforce
  have "dec_str 400 = ''400''" by simp
  then show ?thesis
    using assms sg by (simp add: improve_agent_def py_get_def error_dict_def http_exc_str_def)
qed

text \<open>
  C28: deleting a key does not unregister its models: after \<open>POST /api/keys\<close> for
  \<open>openai\<close> and \<open>DELETE /api/keys/openai\<close>, the service is no longer listed, but
  \<open>gpt-4\<close> and \<open>gpt-3.5-turbo\<close> are still routed to OpenAI with the deleted key, which
  stays the process-global \<open>openai.api_key\<close>.
\<close>

theorem removed_key_still_routes:
  assumes "store_api_key None ''openai'' k st = (out1, st1)"
    and "remove_api_key fault ''openai'' st1 = (out2, st2)"
  shows "''openai'' \<notin> set (list_services (b_km st2)) \<and>
         get_model (b_router st2) ''gpt-4'' = Some OpenAIModel \<and>
         get_model (b_router st2) ''gpt-3.5-turbo'' = Some OpenAIModel \<and>
         openai_api_key (b_env st2) = Some k"
proof -
  obtain r kf' where rk: "remove_key fault ''openai'' (b_km st1) (b_keys_file st1) = (r, b_km st2, kf')"
    and rt: "b_router st2 = b_router st1" and ev: "b_env st2 = b_env st1"
    using remove_api_key_router[OF assms(2)] by blast
  have "''openai'' \<notin> set (list_services (b_km st2))" using remove_key_spec[OF rk] by blast
  moreover have "b_router st1 = register_model ''gpt-3.5-turbo'' OpenAIModel (register_model ''gpt-4'' OpenAIModel (b_router st))"
    and "openai_api_key (b_env st1) = Some k"
    using assms(1) register_openai by (auto simp: store_api_key_ok)
  ultimately show ?thesis using rt ev by (simp add: get_model_def register_model_def)
qed

theorem removed_key_still_routes_witness:
  "\<exists>out1 st1 out2 st2. store_api_key None ''openai'' ''sk-1'' demo_backend = (out1, st1) \<and>
     remove_api_key None ''openai'' st1 = (out2, st2) \<and>
     ''openai'' \<notin> set (list_services (b_km st2)) \<and>
     get_model (b_router st2) ''gpt-4'' = Some OpenAIModel \<and>
     get_model (b_router st2) ''gpt-3.5-turbo'' = Some OpenAIModel \<and>
     openai_api_key (b_env st2) = Some ''sk-1''"
proof -
  obtain out1 st1 where a: "store_api_key None ''openai'' ''sk-1'' demo_backend = (out1, st1)" by fastforce
  obtain out2 st2 where b: "remove_api_key None ''openai'' st1 = (out2, st2)" by fastforce
  from a b removed_key_still_routes[OF a b] show ?thesis by blast
qed

text \<open>
  C29: a restart forgets the models but not the keys: after a key for \<open>openai\<close> was
  stored, a new process lists \<open>openai\<close> among the services, yet a chat for \<open>gpt-4\<close>
  is answered with \<open>Model gpt-4 not found\<close> and no provider is called.
\<close>

theorem restart_forgets_models:
  assumes "store_api_key None ''openai'' k (backend_init f1 kf env dir fs) = (out, st1)"
  shows "''openai'' \<in> set (list_services (b_km (backend_init f2 (b_keys_file st1) env' dir' fs'))) \<and>
         fst (chat clock msg ''gpt-4'' (backend_init f2 (b_keys_file st1) env' dir' fs')) =
           ([], HttpOk (PDict [(''reply'', PStr ''Error processing request: Model gpt-4 not found'')]))"
proof -
  have "''openai'' \<in> set (list_services (b_km (backend_init f2 (b_keys_file st1) env' dir' fs')))"
    using keys_file_after_store[OF assms]
    by (simp add: backend_init_def km_init_def list_services_def set_keys_dict_set del: set_map)
  moreover have "get_model (b_router (backend_init f2 (b_keys_file st1) env' dir' fs')) ''gpt-4'' = None"
    by (simp add: backend_init_def get_model_def router_init_def)
  ultimately show ?thesis using chat_unrouted by simp
qed

theorem restart_forgets_models_witness:
  "\<exists>out st1. store_api_key None ''openai'' ''sk-1'' (backend_init (tag_cipher ''k1'') None silent_env [] scenario_before) = (out, st1) \<and>
     ''openai'' \<in> set (list_services (b_km (backend_init (tag_cipher ''k2'') (b_keys_file st1) silent_env [] scenario_before))) \<and>
     fst (chat (0, 1) ''hello'' ''gpt-4'' (backend_init (tag_cipher ''k2'') (b_keys_file st1) silent_env [] scenario_before)) =
       ([], HttpOk (PDict [(''reply'', PStr ''Error processing request: Model gpt-4 not found'')]))"
proof -
  obtain out st1 where a: "store_api_key None ''openai'' ''sk-1'' (backend_init (tag_cipher ''k1'') None silent_env [] scenario_before) = (out, st1)"
    by fastforce
  from a restart_forgets_models[OF a, of "tag_cipher ''k2''" silent_env "[]" scenario_before "(0, 1)" "''hello''"]
  show ?thesis by blast
qed

end
