(* ===== verification/Requests.thy ===== *)
theory Requests
  imports Endpoints
begin

text \<open>
  The request bodies of src/backend/api/endpoints.py (lines 33-55) and the application
  object that routes a request to its handler. A pydantic \<open>BaseModel\<close> is a record with
  the declared fields; FastAPI validates the JSON body against it before the handler
  runs and answers 422 with the list of every failing field, in declaration order.
  Validation follows pydantic's lax mode for the declared types: \<open>str\<close> takes a JSON
  string only, \<open>bool\<close> a boolean, the integers 0 and 1 or one of pydantic's
  truth words, \<open>Optional[Dict]\<close> \<open>null\<close> or an object; which other JSON values a
  \<open>float\<close> field takes (JSON floats, numeric strings) is the parameter \<open>float_ok\<close>, as
  \<open>pyval\<close> does not distinguish floats. Unknown fields are ignored. The 422 detail is
  rendered as the locations and error types of the failing fields.
\<close>

section \<open>Field validation\<close>

datatype field_error = Missing string | Invalid string string
  \<comment> \<open>the field's name, and for \<open>Invalid\<close> pydantic's error type\<close>

type_synonym 'a valid = "field_error list + 'a"

text \<open>All fields are validated; the errors of both are kept, in field order.\<close>

fun v_pair :: "'a valid \<Rightarrow> 'b valid \<Rightarrow> ('a \<times> 'b) valid" where
  "v_pair (Inr a) (Inr b) = Inr (a, b)"
| "v_pair (Inl e) (Inr _) = Inl e"
| "v_pair (Inr _) (Inl e) = Inl e"
| "v_pair (Inl e1) (Inl e2) = Inl (e1 @ e2)"

definition req_field ::
  "(string \<times> pyval) list \<Rightarrow> string \<Rightarrow> 'a option \<Rightarrow> (string \<Rightarrow> pyval \<Rightarrow> 'a valid) \<Rightarrow> 'a valid" where
  "req_field d k dflt check =
     (case dict_get d k of
        None \<Rightarrow> (case dflt of None \<Rightarrow> Inl [Missing k] | Some x \<Rightarrow> Inr x)
      | Some v \<Rightarrow> check k v)"

definition v_str :: "string \<Rightarrow> pyval \<Rightarrow> string valid" where
  "v_str k v = (case v of PStr s \<Rightarrow> Inr s | _ \<Rightarrow> Inl [Invalid k ''string_type''])"

definition ascii_lower :: "char \<Rightarrow> char" where
  "ascii_lower c = (let n = of_char c :: nat in if 65 \<le> n \<and> n \<le> 90 then char_of (n + 32) else c)"

definition v_bool :: "string \<Rightarrow> pyval \<Rightarrow> bool valid" where
  "v_bool k v =
     (case v of
        PBool b \<Rightarrow> Inr b
      | PInt i \<Rightarrow> if i = 0 then Inr False else if i = 1 then Inr True else Inl [Invalid k ''bool_parsing'']
      | PStr s \<Rightarrow>
          (let l = map ascii_lower s in
           if l \<in> set [''0'', ''off'', ''f'', ''false'', ''n'', ''no''] then Inr False
           else if l \<in> set [''1'', ''on'', ''t'', ''true'', ''y'', ''yes''] then Inr True
           else Inl [Invalid k ''bool_parsing''])
      | _ \<Rightarrow> Inl [Invalid k ''bool_type''])"

definition v_float :: "(pyval \<Rightarrow> bool) \<Rightarrow> string \<Rightarrow> pyval \<Rightarrow> pyval valid" where
  "v_float float_ok k v =
     (case v of PInt _ \<Rightarrow> Inr v | _ \<Rightarrow> if float_ok v then Inr v else Inl [Invalid k ''float_parsing''])"

definition v_opt_dict :: "string \<Rightarrow> pyval \<Rightarrow> pyval option valid" where
  "v_opt_dict k v =
     (case v of PNone \<Rightarrow> Inr None | PDict d \<Rightarrow> Inr (Some (PDict d)) | _ \<Rightarrow> Inl [Invalid k ''dict_type''])"

text \<open>A body that is not a JSON object fails as a whole.\<close>

definition with_object :: "pyval \<Rightarrow> ((string \<times> pyval) list \<Rightarrow> 'a valid) \<Rightarrow> 'a valid" where
  "with_object body f = (case body of PDict d \<Rightarrow> f d | _ \<Rightarrow> Inl [Invalid ''body'' ''model_attributes_type''])"

fun field_error_str :: "field_error \<Rightarrow> string" where
  "field_error_str (Missing k) = ''body.'' @ k @ '': missing''"
| "field_error_str (Invalid k t) = (if k = ''body'' then ''body'' else ''body.'' @ k) @ '': '' @ t"

definition unprocessable :: "field_error list \<Rightarrow> http_response" where
  "unprocessable errs = HttpError 422 (py_join ''; '' (map field_error_str errs))"

section \<open>The request models of endpoints.py\<close>

record api_key_req =
  akr_service :: string
  akr_key :: string

definition parse_api_key_req :: "pyval \<Rightarrow> api_key_req valid" where
  "parse_api_key_req body = with_object body (\<lambda>d.
     map_sum id (\<lambda>(s, k). \<lparr>akr_service = s, akr_key = k\<rparr>)
       (v_pair (req_field d ''service'' None v_str) (req_field d ''key'' None v_str)))"

record chat_req =
  cr_message :: string
  cr_model :: string

definition parse_chat_req :: "pyval \<Rightarrow> chat_req valid" where
  "parse_chat_req body = with_object body (\<lambda>d.
     map_sum id (\<lambda>(m, md). \<lparr>cr_message = m, cr_model = md\<rparr>)
       (v_pair (req_field d ''message'' None v_str) (req_field d ''model'' (Some ''gpt-4'') v_str)))"

record code_mod_req =
  cmr_file_path :: string
  cmr_changes :: string

definition parse_code_mod_req :: "pyval \<Rightarrow> code_mod_req valid" where
  "parse_code_mod_req body = with_object body (\<lambda>d.
     map_sum id (\<lambda>(p, c). \<lparr>cmr_file_path = p, cmr_changes = c\<rparr>)
       (v_pair (req_field d ''file_path'' None v_str) (req_field d ''changes'' None v_str)))"

record learning_req =
  lir_user_input :: string
  lir_agent_response :: string
  lir_success :: bool
  lir_duration :: pyval
  lir_metadata :: "pyval option"

definition parse_learning_req :: "(pyval \<Rightarrow> bool) \<Rightarrow> pyval \<Rightarrow> learning_req valid" where
  "parse_learning_req float_ok body = with_object body (\<lambda>d.
     map_sum id (\<lambda>(u, a, s, du, md). \<lparr>lir_user_input = u, lir_agent_response = a, lir_success = s,
                                      lir_duration = du, lir_metadata = md\<rparr>)
       (v_pair (req_field d ''user_input'' None v_str)
         (v_pair (req_field d ''agent_response'' None v_str)
           (v_pair (req_field d ''success'' None v_bool)
             (v_pair (req_field d ''duration'' None (v_float float_ok))
               (req_field d ''metadata'' (Some None) v_opt_dict))))))"

record improvement_req =
  ir_target_file :: string
  ir_improvement_type :: string
  ir_context :: "pyval option"

definition parse_improvement_req :: "pyval \<Rightarrow> improvement_req valid" where
  "parse_improvement_req body = with_object body (\<lambda>d.
     map_sum id (\<lambda>(t, ty, c). \<lparr>ir_target_file = t, ir_improvement_type = ty, ir_context = c\<rparr>)
       (v_pair (req_field d ''target_file'' None v_str)
         (v_pair (req_field d ''improvement_type'' None v_str)
           (req_field d ''context'' (Some None) v_opt_dict))))"

section \<open>The application: routes and requests in sequence\<close>

text \<open>
  The routes of \<open>app\<close>, with the body or path parameter each carries, and what the
  outside world does while one request is served: the parser, the OS faults, the JSON
  library, the clocks and the faults of the key and learning files.
\<close>

datatype http_request =
    PostKeys pyval            \<comment> \<open>\<open>POST /api/keys\<close>\<close>
  | GetServices               \<comment> \<open>\<open>GET /api/keys/services\<close>\<close>
  | DeleteKey string          \<comment> \<open>\<open>DELETE /api/keys/{service}\<close>\<close>
  | PostChat pyval            \<comment> \<open>\<open>POST /api/chat\<close>\<close>
  | PostModify pyval          \<comment> \<open>\<open>POST /api/code/modify\<close>\<close>
  | GetAnalysis               \<comment> \<open>\<open>GET /api/agent/analysis\<close>\<close>
  | PostImprove pyval         \<comment> \<open>\<open>POST /api/agent/improve\<close>\<close>
  | PostLearn pyval           \<comment> \<open>\<open>POST /api/agent/learn\<close>\<close>
  | GetPlan                   \<comment> \<open>\<open>GET /api/agent/improvement-plan\<close>\<close>
  | PostCodeLearning pyval    \<comment> \<open>\<open>POST /api/agent/code-learning\<close>\<close>

record world =
  w_parse :: parser
  w_unparse :: "pynode \<Rightarrow> string"
  w_faults :: faults
  w_json :: json_lib
  w_clock :: "rat \<times> rat"
  w_iso_clock :: "string \<times> string"
  w_key_fault :: "py_exc option"
  w_store_fault :: "store_fault option"
  w_sources :: "(string \<times> string) list"
  w_now_iso :: string
  w_float_ok :: "pyval \<Rightarrow> bool"

text \<open>A body that fails validation is answered 422 before the handler runs.\<close>

definition with_body ::
  "'r valid \<Rightarrow> ('r \<Rightarrow> backend \<Rightarrow> handler_result) \<Rightarrow> backend \<Rightarrow> handler_result" where
  "with_body v h st = (case v of Inl errs \<Rightarrow> (([], unprocessable errs), st) | Inr r \<Rightarrow> h r st)"

fun serve :: "world \<Rightarrow> http_request \<Rightarrow> backend \<Rightarrow> handler_result" where
  "serve w (PostKeys body) st =
     with_body (parse_api_key_req body) (\<lambda>r. store_api_key (w_key_fault w) (akr_service r) (akr_key r)) st"
| "serve w GetServices st = list_services_h st"
| "serve w (DeleteKey service) st = remove_api_key (w_key_fault w) service st"
| "serve w (PostChat body) st =
     with_body (parse_chat_req body) (\<lambda>r. chat (w_clock w) (cr_message r) (cr_model r)) st"
| "serve w (PostModify body) st =
     with_body (parse_code_mod_req body)
       (\<lambda>r. modify_code (w_parse w) (w_faults w) (cmr_file_path r) (cmr_changes r)) st"
| "serve w GetAnalysis st = analyze_agent (w_sources w) st"
| "serve w (PostImprove body) st =
     with_body (parse_improvement_req body)
       (\<lambda>r. improve_agent (w_parse w) (w_unparse w) (w_faults w) (w_json w)
              (ir_target_file r) (ir_improvement_type r)) st"
| "serve w (PostLearn body) st =
     with_body (parse_learning_req (w_float_ok w) body)
       (\<lambda>r. record_learning (w_json w) (w_iso_clock w) (w_store_fault w) (lir_user_input r)
              (lir_agent_response r) (lir_success r) (lir_duration r) (lir_metadata r)) st"
| "serve w GetPlan st = get_improvement_plan (w_json w) (w_now_iso w) st"
| "serve w (PostCodeLearning body) st =
     with_body (parse_code_mod_req body)
       (\<lambda>r. learn_from_code (w_json w) (w_iso_clock w) (w_store_fault w) (cmr_file_path r) (cmr_changes r)) st"

text \<open>Requests served one after the other, each to completion, on the shared instances.\<close>

fun serve_all :: "(world \<times> http_request) list \<Rightarrow> backend \<Rightarrow> (api_request list \<times> http_response) list \<times> backend" where
  "serve_all [] st = ([], st)"
| "serve_all ((w, q) # qs) st =
     (case serve w q st of (out, st') \<Rightarrow> (case serve_all qs st' of (outs, st'') \<Rightarrow> (out # outs, st'')))"

section \<open>Fixtures and the errors a request's body has\<close>

definition demo_world :: world where
  "demo_world =
     \<lparr>w_parse = (\<lambda>_. Inr (Node ''Module'' [])), w_unparse = (\<lambda>_. []), w_faults = no_faults,
      w_json = \<lparr>loads = (\<lambda>_. Inr PNone), dumps_indent2 = (\<lambda>_. [])\<rparr>, w_clock = (0, 1),
      w_iso_clock = (''20240101_000000'', ''2024-01-01T00:00:00''), w_key_fault = None,
      w_store_fault = None, w_sources = [], w_now_iso = ''2024-01-01T00:00:00'', w_float_ok = (\<lambda>_. False)\<rparr>"

definition body_errors :: "'a valid \<Rightarrow> field_error list option" where
  "body_errors v = (case v of Inl e \<Rightarrow> Some e | Inr _ \<Rightarrow> None)"

fun request_errors :: "(pyval \<Rightarrow> bool) \<Rightarrow> http_request \<Rightarrow> field_error list option" where
  "request_errors fo (PostKeys b) = body_errors (parse_api_key_req b)"
| "request_errors fo (PostChat b) = body_errors (parse_chat_req b)"
| "request_errors fo (PostModify b) = body_errors (parse_code_mod_req b)"
| "request_errors fo (PostImprove b) = body_errors (parse_improvement_req b)"
| "request_errors fo (PostLearn b) = body_errors (parse_learning_req fo b)"
| "request_errors fo (PostCodeLearning b) = body_errors (parse_code_mod_req b)"
| "request_errors fo _ = None"

text \<open>
  The well-formedness of the backend's state: the key dict, the key file, the model
  registry and the learning directory keep distinct keys, and every memory entry has one
  of the three roles the agent writes.
\<close>

definition agent_role :: "mem_entry \<Rightarrow> bool" where
  "agent_role e \<longleftrightarrow> m_role e \<in> set [''user'', ''assistant'', ''error'']"

definition backend_wf :: "backend \<Rightarrow> bool" where
  "backend_wf st \<longleftrightarrow>
     dict_wf (km_keys (b_km st)) \<and> pred_option dict_wf (b_keys_file st) \<and>
     dict_wf (models (b_router st)) \<and> dict_wf (learning_dir (b_learner st)) \<and>
     list_all agent_role (memory (b_agent st))"

section \<open>Properties\<close>

lemma with_body_rejects: "body_errors v = Some errs \<Longrightarrow> with_body v h st = (([], unprocessable errs), st)"
  by (simp add: body_errors_def with_body_def split: sum.splits)

text \<open>
  Validation comes first: a request whose body fails validation is answered 422 with
  the errors of its fields, makes no provider request and changes no state.
\<close>

theorem invalid_body_rejected:
  assumes "request_errors (w_float_ok w) q = Some errs"
  shows "serve w q st = (([], unprocessable errs), st)"
  using assms by (cases q) (simp_all add: with_body_rejects)

lemma v_pair_Inr: "v_pair a b = Inr (x, y) \<longleftrightarrow> a = Inr x \<and> b = Inr y"
  by (cases a; cases b) auto

lemma v_str_Inr: "v_str k v = Inr s \<longleftrightarrow> v = PStr s"
  by (cases v) (auto simp: v_str_def)

lemma req_field_str_Inr:
  "req_field d k dflt v_str = Inr s \<longleftrightarrow>
     (case dict_get d k of None \<Rightarrow> dflt = Some s | Some v \<Rightarrow> v = PStr s)"
  by (auto simp: req_field_def v_str_Inr split: option.splits)

theorem invalid_body_rejected_witness:
  "request_errors (w_float_ok demo_world) (PostChat (PDict [(''model'', PInt 4)])) =
     Some [Missing ''message'', Invalid ''model'' ''string_type''] \<and>
   serve demo_world (PostChat (PDict [(''model'', PInt 4)])) demo_backend =
     (([], unprocessable [Missing ''message'', Invalid ''model'' ''string_type'']), demo_backend)"
proof -
  have e: "request_errors (w_float_ok demo_world) (PostChat (PDict [(''model'', PInt 4)])) =
             Some [Missing ''message'', Invalid ''model'' ''string_type'']"
    by (simp add: body_errors_def parse_chat_req_def with_object_def req_field_def v_str_def)
  from e invalid_body_rejected[OF e, of demo_backend] show ?thesis by simp
qed

text \<open>
  The body of \<open>POST /api/chat\<close> is accepted exactly when \<open>message\<close> is a string and
  \<open>model\<close> is a string or absent; an absent \<open>model\<close> is \<open>gpt-4\<close>.
\<close>

theorem parse_chat_req_spec:
  "parse_chat_req (PDict d) = Inr r \<longleftrightarrow>
     dict_get d ''message'' = Some (PStr (cr_message r)) \<and>
     (case dict_get d ''model'' of None \<Rightarrow> cr_model r = ''gpt-4'' | Some v \<Rightarrow> v = PStr (cr_model r))"
proof -
  have "parse_chat_req (PDict d) = Inr r \<longleftrightarrow>
        v_pair (req_field d ''message'' None v_str) (req_field d ''model'' (Some ''gpt-4'') v_str) =
          Inr (cr_message r, cr_model r)"
    by (cases "v_pair (req_field d ''message'' None v_str) (req_field d ''model'' (Some ''gpt-4'') v_str)")
       (auto simp: parse_chat_req_def with_object_def)
  then show ?thesis
    by (auto simp: v_pair_Inr req_field_str_Inr split: option.splits)
qed


text \<open>
  C31: progress after storing a key: whatever the state, once \<open>POST /api/keys\<close> stores an
  OpenAI key (the key file writable), the next \<open>POST /api/chat\<close> is answered by one
  OpenAI request with that key, for \<open>gpt-4\<close>, whose last message is the user's.
\<close>

theorem stored_openai_key_serves_chat:
  assumes "w_key_fault w1 = None"
  shows "\<exists>msgs resp st'.
           serve_all [(w1, PostKeys (PDict [(''service'', PStr ''openai''), (''key'', PStr k)])),
                      (w2, PostChat (PDict [(''message'', PStr m)]))] st =
             ([([], HttpOk (status_msg ''API key for openai stored'')),
               ([OpenAIChat (Some k) ''gpt-4'' msgs (7 / 10) 2000], resp)], st') \<and>
           last msgs = \<lparr>role = ''user'', content = m\<rparr>"
proof -
  obtain out1 st1 where s1: "store_api_key None ''openai'' k st = (out1, st1)" by fastforce
  have o1: "out1 = ([], HttpOk (status_msg ''API key for openai stored''))"
    using s1 by (simp add: store_api_key_ok)
  have r1: "get_model (b_router st1) ''gpt-4'' = Some OpenAIModel" and k1: "openai_api_key (b_env st1) = Some k"
    using s1 register_openai by (auto simp: store_api_key_ok get_model_def register_model_def)
  have p1: "serve w1 (PostKeys (PDict [(''service'', PStr ''openai''), (''key'', PStr k)])) st = (out1, st1)"
    using assms s1 by (simp add: with_body_def parse_api_key_req_def with_object_def req_field_def v_str_def)
  obtain calls reply ag' where pr: "process_request (b_env st1) (b_router st1) (w_clock w2) m ''gpt-4'' (b_agent st1) =
      ((calls, reply), ag')" by (metis prod.exhaust)
  have p2: "serve w2 (PostChat (PDict [(''message'', PStr m)])) st1 =
      ((calls, HttpOk (PDict [(''reply'', PStr reply)])), st1\<lparr>b_agent := ag'\<rparr>)"
    using pr by (simp add: with_body_def parse_chat_req_def with_object_def req_field_def v_str_def chat_def)
  have "calls = [OpenAIChat (Some k) ''gpt-4'' (context_messages (memory (b_agent st1) @ [user_entry (w_clock w2) m])) (7 / 10) 2000] \<and>
        last (context_messages (memory (b_agent st1) @ [user_entry (w_clock w2) m])) = \<lparr>role = ''user'', content = m\<rparr>"
    using process_request_openai_request_effect[OF r1, of "b_env st1" "w_clock w2" m "b_agent st1"] pr k1 by simp
  then show ?thesis using p1 p2 o1 by auto
qed

theorem stored_openai_key_serves_chat_witness:
  "w_key_fault demo_world = None \<and>
   (\<exists>msgs resp st'.
      serve_all [(demo_world, PostKeys (PDict [(''service'', PStr ''openai''), (''key'', PStr ''sk-test'')])),
                 (demo_world, PostChat (PDict [(''message'', PStr ''hi'')]))] demo_backend =
        ([([], HttpOk (status_msg ''API key for openai stored'')),
          ([OpenAIChat (Some ''sk-test'') ''gpt-4'' msgs (7 / 10) 2000], resp)], st') \<and>
      last msgs = \<lparr>role = ''user'', content = ''hi''\<rparr>)"
proof -
  have w: "w_key_fault demo_world = None" by (simp add: demo_world_def)
  from w stored_openai_key_serves_chat[OF w, of "''sk-test''" demo_world "''hi''" demo_backend] show ?thesis
    by blast
qed

section \<open>Every route keeps the state well formed\<close>

lemma save_keys_wf: "save_keys fault km file = (r, file') \<Longrightarrow> dict_wf (km_keys km) \<Longrightarrow>
    pred_option dict_wf file \<Longrightarrow> pred_option dict_wf file'"
  by (auto simp: save_keys_def split: option.splits)

lemma store_api_key_wf: "backend_wf st \<Longrightarrow> backend_wf (snd (store_api_key fault s k st))"
  by (auto simp: backend_wf_def store_api_key_def store_key_def save_keys_def register_provider_def
      openai_init_def register_model_def Let_def split: option.splits prod.splits sum.splits)

lemma remove_api_key_wf: "backend_wf st \<Longrightarrow> backend_wf (snd (remove_api_key fault s st))"
  by (auto simp: backend_wf_def remove_api_key_def remove_key_def save_keys_def Let_def
      split: option.splits prod.splits sum.splits bool.splits)

lemma chat_wf: "backend_wf st \<Longrightarrow> backend_wf (snd (chat clock m model st))"
proof -
  assume wf: "backend_wf st"
  obtain calls reply ag' where pr: "process_request (b_env st) (b_router st) clock m model (b_agent st) =
      ((calls, reply), ag')" by (metis prod.exhaust)
  obtain e where "memory ag' = memory (b_agent st) @ [user_entry clock m, e]" and "m_role e \<in> {''assistant'', ''error''}"
    using process_request_memory_effect[OF pr] by blast
  then show ?thesis using wf pr by (auto simp: backend_wf_def chat_def agent_role_def user_entry_def)
qed

lemma store_learning_wf:
  "dict_wf (learning_dir l) \<Longrightarrow> dict_wf (learning_dir (snd (store_learning stamp fault x l)))"
  by (simp add: store_learning_def Let_def split: option.splits store_fault.splits)

lemma learn_steps_wf:
  "dict_wf (learning_dir l) \<Longrightarrow> dict_wf (learning_dir (snd (learn_from_interaction env r js clock fault i l)))"
  "dict_wf (learning_dir l) \<Longrightarrow> dict_wf (learning_dir (snd (learn_from_code_changes env r js clock fault p old new l)))"
  using store_learning_wf[of l]
  by (simp_all add: learn_from_interaction_def learn_from_code_changes_def split: prod.splits sum.splits)
     (metis snd_conv)+

lemma record_learning_wf:
  assumes wf: "backend_wf st"
  shows "backend_wf (snd (record_learning js clock fault u a s d md st))"
proof -
  obtain res l' where l: "learn_from_interaction (b_env st) (b_router st) js clock fault
      (interaction_dict u a s d md) (b_learner st) = (res, l')" by fastforce
  have "dict_wf (learning_dir l')"
    using learn_steps_wf(1)[of "b_learner st"] wf l by (metis backend_wf_def snd_conv)
  then show ?thesis using wf l by (simp add: backend_wf_def record_learning_def split: prod.splits)
qed

lemma learn_from_code_wf:
  assumes wf: "backend_wf st"
  shows "backend_wf (snd (learn_from_code js clock fault p c st))"
proof (cases "read_file (b_files st) p")
  case (Inl e)
  then show ?thesis using wf by (simp add: learn_from_code_def)
next
  case (Inr old)
  obtain res l' where l: "learn_from_code_changes (b_env st) (b_router st) js clock fault p old c (b_learner st) = (res, l')"
    by fastforce
  have "dict_wf (learning_dir l')"
    using learn_steps_wf(2)[of "b_learner st"] wf l by (metis backend_wf_def snd_conv)
  then show ?thesis using wf Inr l by (simp add: backend_wf_def learn_from_code_def split: prod.splits)
qed

lemma files_only_wf:
  "backend_wf st \<Longrightarrow> backend_wf (snd (modify_code parse ft p c st)) \<and>
     backend_wf (snd (improve_agent parse unparse ft js p ty st)) \<and>
     backend_wf (snd (analyze_agent srcs st)) \<and> backend_wf (snd (list_services_h st)) \<and>
     backend_wf (snd (get_improvement_plan js now st))"
  by (simp add: backend_wf_def modify_code_def improve_agent_def analyze_agent_def list_services_h_def
      get_improvement_plan_def split: prod.splits sum.splits if_splits)

lemma with_body_wf:
  "backend_wf st \<Longrightarrow> (\<And>r. backend_wf (snd (h r st))) \<Longrightarrow> backend_wf (snd (with_body v h st))"
  by (simp add: with_body_def split: sum.splits)

lemma serve_wf: "backend_wf st \<Longrightarrow> backend_wf (snd (serve w q st))"
  by (cases q) (simp_all add: with_body_wf store_api_key_wf remove_api_key_wf chat_wf record_learning_wf
      learn_from_code_wf files_only_wf)

text \<open>
  Whatever sequence of requests the application serves, from a well-formed state,
  each request gets exactly one response and the state stays well formed.
\<close>

theorem serve_all_wf:
  assumes "backend_wf st"
  shows "backend_wf (snd (serve_all qs st)) \<and> length (fst (serve_all qs st)) = length qs"
  using assms
proof (induction qs arbitrary: st)
  case Nil
  then show ?case by simp
next
  case (Cons wq qs)
  obtain w q where wq: "wq = (w, q)" by fastforce
  obtain out st' where s: "serve w q st = (out, st')" by fastforce
  have "backend_wf st'" using serve_wf[OF Cons.prems, of w q] s by simp
  moreover obtain outs st'' where "serve_all qs st' = (outs, st'')" by fastforce
  ultimately show ?case using Cons.IH[of st'] wq s by simp
qed

theorem serve_all_wf_witness:
  "backend_wf demo_backend \<and>
   backend_wf (snd (serve_all [(demo_world, PostKeys (PDict [(''service'', PStr ''openai''), (''key'', PStr ''sk-test'')])),
                               (demo_world, PostChat (PDict [(''message'', PStr ''hi'')])),
                               (demo_world, DeleteKey ''openai'')] demo_backend)) \<and>
   length (fst (serve_all [(demo_world, PostKeys (PDict [(''service'', PStr ''openai''), (''key'', PStr ''sk-test'')])),
                           (demo_world, PostChat (PDict [(''message'', PStr ''hi'')])),
                           (demo_world, DeleteKey ''openai'')] demo_backend)) = 3"
proof -
  have wf: "backend_wf demo_backend"
    by (simp add: backend_wf_def demo_backend_def backend_init_def km_init_def learning_init_def
        agent_init_def router_init_def)
  from wf serve_all_wf[OF wf, of "[(demo_world, PostKeys (PDict [(''service'', PStr ''openai''), (''key'', PStr ''sk-test'')])),
       (demo_world, PostChat (PDict [(''message'', PStr ''hi'')])), (demo_world, DeleteKey ''openai'')]"]
  show ?thesis by simp
qed

end
