(* ===== verification/Workspace.thy ===== *)
theory Workspace
  imports Requests
begin

text \<open>
  The standalone file API, src/backend/main.py: \<open>create_file\<close> and \<open>read_file\<close> join the
  request's file name to \<open>Path("workspace")\<close> with pathlib's \<open>/\<close>. A path is its list
  of components; \<open>pure_join\<close> is \<open>PurePosixPath.__truediv__\<close> (an absolute right
  operand replaces the left one; empty and \<open>.\<close> components vanish; \<open>..\<close> is kept), and
  \<open>os_path\<close> is the file the operating system opens for it relative to the working
  directory, \<open>..\<close> taking away one component (there are no symbolic links in the
  model). The file system is Mutator's map, keyed by these resolved paths. The module
  sets \<open>openai.api_key\<close> from the environment variable at import (\<open>main_env\<close>);
  \<open>/chat\<close> makes one synchronous \<open>ChatCompletion.create\<close> for the client's model
  with a fixed system prompt and no memory, outside any \<open>try\<close>; \<open>list_files\<close> filters
  the directory listing, whose order is the operating system's (a parameter), to files.
  The request bodies are validated as in the Requests theory.
\<close>

fun path_split :: "string \<Rightarrow> string \<Rightarrow> string list" where
  "path_split cur [] = [cur]"
| "path_split cur (c # s) = (if c = CHR ''/'' then cur # path_split [] s else path_split (cur @ [c]) s)"

definition components :: "string \<Rightarrow> string list" where
  "components s = filter (\<lambda>x. x \<noteq> [] \<and> x \<noteq> ''.'') (path_split [] s)"

definition is_absolute :: "string \<Rightarrow> bool" where
  "is_absolute s \<longleftrightarrow> s \<noteq> [] \<and> hd s = CHR ''/''"

record pure_path =
  pp_abs :: bool
  pp_parts :: "string list"

definition pure_path_of :: "string \<Rightarrow> pure_path" where
  "pure_path_of s = \<lparr>pp_abs = is_absolute s, pp_parts = components s\<rparr>"

definition pure_join :: "pure_path \<Rightarrow> string \<Rightarrow> pure_path" where
  "pure_join base name =
     (if is_absolute name then pure_path_of name
      else base\<lparr>pp_parts := pp_parts base @ components name\<rparr>)"

definition pure_str :: "pure_path \<Rightarrow> string" where
  "pure_str pp =
     (if pp_abs pp then ''/'' @ py_join ''/'' (pp_parts pp)
      else if pp_parts pp = [] then ''.'' else py_join ''/'' (pp_parts pp))"

text \<open>Resolution by the kernel, on a stack of components (the last one first).\<close>

fun resolve_parts :: "bool \<Rightarrow> string list \<Rightarrow> string list \<Rightarrow> string list" where
  "resolve_parts ab st [] = st"
| "resolve_parts ab st (p # ps) =
     (if p = ''..'' then
        (case st of
           [] \<Rightarrow> resolve_parts ab (if ab then [] else [''..'']) ps
         | q # st' \<Rightarrow> resolve_parts ab (if q = ''..'' then ''..'' # st else st') ps)
      else resolve_parts ab (p # st) ps)"

definition os_path :: "pure_path \<Rightarrow> path" where
  "os_path pp = pure_str (pp\<lparr>pp_parts := rev (resolve_parts (pp_abs pp) [] (pp_parts pp))\<rparr>)"

definition workspace_dir :: pure_path where
  "workspace_dir = pure_path_of ''workspace''"

definition in_workspace :: "path \<Rightarrow> bool" where
  "in_workspace p \<longleftrightarrow> 10 < length p \<and> take 10 p = ''workspace/''"

text \<open>Line 8, at import: \<open>openai.api_key = os.getenv("OPENAI_API_KEY")\<close>.\<close>

definition main_env :: "(string \<Rightarrow> string option) \<Rightarrow> provider_env \<Rightarrow> provider_env" where
  "main_env getenv env = env\<lparr>openai_api_key := getenv ''OPENAI_API_KEY''\<rparr>"

section \<open>Handlers\<close>

text \<open>
  \<open>/chat\<close> takes main.py's own \<open>ChatRequest\<close>, declared as endpoints.py's (a string
  \<open>message\<close> and a \<open>model\<close> defaulting to \<open>gpt-4\<close>), so it is validated by
  \<open>parse_chat_req\<close>. A provider error propagates: 500.
\<close>

definition main_chat_messages :: "string \<Rightarrow> message list" where
  "main_chat_messages message =
     [\<lparr>role = ''system'', content = ''Du bist Aiden, ein hilfsbereiter KI-Operator.''\<rparr>,
      \<lparr>role = ''user'', content = message\<rparr>]"

definition main_chat :: "provider_env \<Rightarrow> pyval \<Rightarrow> api_request list \<times> http_response" where
  "main_chat env body =
     (case parse_chat_req body of
        Inl errs \<Rightarrow> ([], unprocessable errs)
      | Inr r \<Rightarrow>
          (let req = OpenAICreate (openai_api_key env) (cr_model r) (main_chat_messages (cr_message r))
           in ([req], case api env req of
                        Inl _ \<Rightarrow> internal_error
                      | Inr reply \<Rightarrow> HttpOk (PDict [(''reply'', PStr reply)]))))"

record file_req =
  fr_filename :: string
  fr_content :: string

definition parse_file_req :: "pyval \<Rightarrow> file_req valid" where
  "parse_file_req body = with_object body (\<lambda>d.
     map_sum id (\<lambda>(f, c). \<lparr>fr_filename = f, fr_content = c\<rparr>)
       (v_pair (req_field d ''filename'' None v_str) (req_field d ''content'' None v_str)))"


text \<open>\<open>create_file\<close>: \<open>file_path.write_text(...)\<close> raises outside any \<open>try\<close>.\<close>

definition create_file :: "faults \<Rightarrow> string \<Rightarrow> string \<Rightarrow> files \<Rightarrow> http_response \<times> files" where
  "create_file ft filename text fs =
     (let file_path = pure_join workspace_dir filename
      in case write_text ft (os_path file_path) text fs of
           (Inl _, fs') \<Rightarrow> (internal_error, fs')
         | (Inr _, fs') \<Rightarrow>
             (HttpOk (PDict [(''status'', PStr ''created''), (''path'', PStr (pure_str file_path))]), fs'))"

definition create_file_body :: "faults \<Rightarrow> pyval \<Rightarrow> files \<Rightarrow> http_response \<times> files" where
  "create_file_body ft body fs =
     (case parse_file_req body of
        Inl errs \<Rightarrow> (unprocessable errs, fs)
      | Inr r \<Rightarrow> create_file ft (fr_filename r) (fr_content r) fs)"

text \<open>
  \<open>list_files\<close>: the names \<open>iterdir\<close> yields, in the operating system's order, kept when
  the entry is a file.
\<close>

definition list_files :: "string list \<Rightarrow> files \<Rightarrow> http_response" where
  "list_files listing fs =
     HttpOk (PDict [(''files'', PList (map PStr
       (filter (\<lambda>n. fs (os_path (pure_join workspace_dir n)) \<noteq> None) listing)))])"

definition read_file_h :: "string \<Rightarrow> files \<Rightarrow> http_response" where
  "read_file_h filename fs =
     (let file_path = pure_join workspace_dir filename
      in case fs (os_path file_path) of
           Some c \<Rightarrow> HttpOk (PDict [(''content'', PStr c)])
         | None \<Rightarrow> HttpOk (PDict [(''error'', PStr ''Datei nicht gefunden'')]))"

section \<open>Properties\<close>

lemma create_then_list:
  "n \<in> set listing \<Longrightarrow>
   \<exists>ns. list_files listing (snd (create_file no_faults n text fs)) = HttpOk (PDict [(''files'', PList (map PStr ns))]) \<and>
        n \<in> set ns"
  by (auto simp: list_files_def create_file_def write_text_def no_faults_def Let_def)

text \<open>
  What \<open>create_file\<close> writes, \<open>read_file\<close> returns, for every file name: both
  resolve \<open>WORKSPACE_DIR / filename\<close> to the same file.
\<close>

theorem create_then_read:
  "read_file_h name (snd (create_file no_faults name text fs)) = HttpOk (PDict [(''content'', PStr text)])"
  by (simp add: create_file_def read_file_h_def write_text_def no_faults_def Let_def)

text \<open>
  Main.py's \<open>/chat\<close> sends the client's model name as it is, with the fixed system
  prompt and the message and no conversation memory, under the key of the environment
  variable; a provider error is a 500.
\<close>

theorem main_chat_forwards_model:
  assumes "parse_chat_req body = Inr r"
  shows "fst (main_chat env body) = [OpenAICreate (openai_api_key env) (cr_model r) (main_chat_messages (cr_message r))] \<and>
         (snd (main_chat env body) = internal_error \<longleftrightarrow>
            isl (api env (OpenAICreate (openai_api_key env) (cr_model r) (main_chat_messages (cr_message r)))))"
  using assms by (auto simp: main_chat_def internal_error_def Let_def split: sum.splits)

theorem main_chat_forwards_model_witness:
  "parse_chat_req (PDict [(''message'', PStr ''hi''), (''model'', PStr ''gpt-3.5-turbo'')]) =
     Inr \<lparr>cr_message = ''hi'', cr_model = ''gpt-3.5-turbo''\<rparr> \<and>
   fst (main_chat (main_env (\<lambda>_. Some ''sk-env'') silent_env)
          (PDict [(''message'', PStr ''hi''), (''model'', PStr ''gpt-3.5-turbo'')])) =
     [OpenAICreate (Some ''sk-env'') ''gpt-3.5-turbo'' (main_chat_messages ''hi'')] \<and>
   (snd (main_chat (main_env (\<lambda>_. Some ''sk-env'') silent_env)
          (PDict [(''message'', PStr ''hi''), (''model'', PStr ''gpt-3.5-turbo'')])) = internal_error \<longleftrightarrow>
    isl (api silent_env (OpenAICreate (Some ''sk-env'') ''gpt-3.5-turbo'' (main_chat_messages ''hi''))))"
proof -
  have p: "parse_chat_req (PDict [(''message'', PStr ''hi''), (''model'', PStr ''gpt-3.5-turbo'')]) =
             Inr \<lparr>cr_message = ''hi'', cr_model = ''gpt-3.5-turbo''\<rparr>"
    by (simp add: parse_chat_req_def with_object_def req_field_def v_str_def)
  have e: "openai_api_key (main_env (\<lambda>_. Some ''sk-env'') silent_env) = Some ''sk-env''"
    "api (main_env (\<lambda>_. Some ''sk-env'') silent_env) = api silent_env"
    by (simp_all add: main_env_def)
  from p main_chat_forwards_model[OF p, of "main_env (\<lambda>_. Some ''sk-env'') silent_env"] show ?thesis
    by (simp only: e) simp
qed

lemma os_path_absolute: "pp_abs pp \<Longrightarrow> \<exists>rest. os_path pp = CHR ''/'' # rest"
  by (simp add: os_path_def pure_str_def)

text \<open>
  C32: an absolute file name escapes the workspace: \<open>Path("workspace") / name\<close> is
  \<open>name\<close> itself, so \<open>create_file\<close> writes, and \<open>read_file\<close> reads, any path of
  the machine the process may access.
\<close>

theorem absolute_name_escapes:
  assumes "is_absolute name"
  shows "os_path (pure_join workspace_dir name) = os_path (pure_path_of name) \<and>
         \<not> in_workspace (os_path (pure_join workspace_dir name)) \<and>
         snd (create_file no_faults name text fs) = fs(os_path (pure_path_of name) \<mapsto> text)"
proof -
  have j: "pure_join workspace_dir name = pure_path_of name" using assms by (simp add: pure_join_def)
  obtain rest where "os_path (pure_path_of name) = CHR ''/'' # rest"
    using os_path_absolute[of "pure_path_of name"] assms by (auto simp: pure_path_of_def)
  then have "\<not> in_workspace (os_path (pure_path_of name))" by (simp add: in_workspace_def)
  moreover have "snd (create_file no_faults name text fs) = fs(os_path (pure_path_of name) \<mapsto> text)"
    by (simp add: create_file_def j write_text_def no_faults_def Let_def)
  ultimately show ?thesis by (simp add: j)
qed

theorem absolute_name_escapes_witness:
  "is_absolute ''/etc/cron.d/job'' \<and>
   os_path (pure_join workspace_dir ''/etc/cron.d/job'') = os_path (pure_path_of ''/etc/cron.d/job'') \<and>
   \<not> in_workspace (os_path (pure_join workspace_dir ''/etc/cron.d/job'')) \<and>
   snd (create_file no_faults ''/etc/cron.d/job'' ''* * * * * root sh /tmp/x'' scenario_before) =
     scenario_before(os_path (pure_path_of ''/etc/cron.d/job'') \<mapsto> ''* * * * * root sh /tmp/x'') \<and>
   os_path (pure_path_of ''/etc/cron.d/job'') = ''/etc/cron.d/job''"
proof -
  have a: "is_absolute ''/etc/cron.d/job''" by (simp add: is_absolute_def)
  have p: "os_path (pure_path_of ''/etc/cron.d/job'') = ''/etc/cron.d/job''"
    by (simp add: os_path_def pure_path_of_def is_absolute_def components_def pure_str_def)
  from a p absolute_name_escapes[OF a, of "''* * * * * root sh /tmp/x''" scenario_before] show ?thesis by blast
qed

end
