(* ===== verification/Memory.thy ===== *)
theory Memory
  imports Workspace
begin

text \<open>
  The agent's memory file, \<open>Agent.save_memory\<close> and \<open>Agent.load_memory\<close>
  (src/backend/core/agent/agent.py). \<open>save_memory\<close> opens the file for writing and
  \<open>json.dump\<close>s the memory, indented by two, into it; \<open>load_memory\<close>, if the file exists,
  replaces the memory by whatever \<open>json.load\<close> returns. Both default to
  \<open>workspace/memory.json\<close>; a given path is opened as it is. Paths are resolved as in the
  Workspace theory and the files are Mutator's map with its faults. A memory entry is
  the dict \<open>process_request\<close> appends; its timestamp is the float of
  \<open>loop.time()\<close>, which enters JSON through the parameter \<open>float_codec\<close>, as
  \<open>pyval\<close> does not carry floats. The loaded value is returned as it is: a memory that
  is not a list of such entries is not a state of the typed agent of the Agent theory.
\<close>

record float_codec =
  fl_json :: "rat \<Rightarrow> pyval"           \<comment> \<open>the JSON value \<open>json.dump\<close> writes for a float\<close>
  fl_read :: "pyval \<Rightarrow> rat option"    \<comment> \<open>the float \<open>json.load\<close> reads back, if it is one\<close>

definition entry_json :: "float_codec \<Rightarrow> mem_entry \<Rightarrow> pyval" where
  "entry_json fc e =
     PDict [(''role'', PStr (m_role e)), (''content'', PStr (m_content e)),
            (''timestamp'', fl_json fc (m_time e))]"

definition memory_json :: "float_codec \<Rightarrow> mem_entry list \<Rightarrow> pyval" where
  "memory_json fc mem = PList (map (entry_json fc) mem)"

text \<open>\<open>file_path = self.workspace_path / "memory.json"\<close> when no path is given.\<close>

definition memory_path :: "string option \<Rightarrow> path" where
  "memory_path file_path =
     (case file_path of
        None \<Rightarrow> os_path (pure_join workspace_dir ''memory.json'')
      | Some q \<Rightarrow> os_path (pure_path_of q))"

definition save_memory ::
  "json_lib \<Rightarrow> float_codec \<Rightarrow> faults \<Rightarrow> string option \<Rightarrow> agent \<Rightarrow> files \<Rightarrow> unit py \<times> files" where
  "save_memory js fc ft file_path ag fs =
     write_text ft (memory_path file_path) (dumps_indent2 js (memory_json fc (memory ag))) fs"

text \<open>\<open>None\<close>: the file does not exist and the memory is kept; \<open>Some v\<close>: the memory becomes \<open>v\<close>.\<close>

definition load_memory :: "json_lib \<Rightarrow> string option \<Rightarrow> files \<Rightarrow> pyval option py" where
  "load_memory js file_path fs =
     (case fs (memory_path file_path) of
        None \<Rightarrow> Inr None
      | Some text \<Rightarrow> (case loads js text of Inl e \<Rightarrow> Inl e | Inr v \<Rightarrow> Inr (Some v)))"

text \<open>The typed memory a loaded value stands for, when it is a list of entries.\<close>

definition entry_of_json :: "float_codec \<Rightarrow> pyval \<Rightarrow> mem_entry option" where
  "entry_of_json fc v =
     (case v of
        PDict d \<Rightarrow>
          (case (dict_get d ''role'', dict_get d ''content'', dict_get d ''timestamp'') of
             (Some (PStr r), Some (PStr c), Some t) \<Rightarrow>
               map_option (\<lambda>x. \<lparr>m_role = r, m_content = c, m_time = x\<rparr>) (fl_read fc t)
           | _ \<Rightarrow> None)
      | _ \<Rightarrow> None)"

definition memory_of_json :: "float_codec \<Rightarrow> pyval \<Rightarrow> mem_entry list option" where
  "memory_of_json fc v = (case v of PList xs \<Rightarrow> those (map (entry_of_json fc) xs) | _ \<Rightarrow> None)"

section \<open>Fixtures\<close>

definition int_codec :: float_codec where
  "int_codec = \<lparr>fl_json = (\<lambda>r. PInt \<lfloor>r\<rfloor>), fl_read = (\<lambda>v. case v of PInt i \<Rightarrow> Some (of_int i) | _ \<Rightarrow> None)\<rparr>"

definition chatted :: agent where
  "chatted = \<lparr>memory = [\<lparr>m_role = ''user'', m_content = ''hi'', m_time = 1\<rparr>,
                        \<lparr>m_role = ''assistant'', m_content = ''hello'', m_time = 2\<rparr>]\<rparr>"

definition chatted_text :: string where
  "chatted_text = ''[{\"role\": \"user\"}]''"

definition memory_json_lib :: json_lib where
  "memory_json_lib =
     \<lparr>loads = (\<lambda>s. if s = chatted_text then Inr (memory_json int_codec (memory chatted))
                   else Inl (ValueError ''Expecting value'')),
      dumps_indent2 = (\<lambda>v. if v = memory_json int_codec (memory chatted) then chatted_text else [])\<rparr>"

definition disk_full_at :: "nat \<Rightarrow> faults" where
  "disk_full_at n = no_faults\<lparr>write_err := [memory_path None \<mapsto> (n, ''[Errno 28] No space left on device'')]\<rparr>"

section \<open>Properties\<close>

lemma memory_of_memory_json:
  "list_all (\<lambda>e. fl_read fc (fl_json fc (m_time e)) = Some (m_time e)) mem \<Longrightarrow>
   memory_of_json fc (memory_json fc mem) = Some mem"
  by (induction mem) (simp_all add: memory_of_json_def memory_json_def entry_json_def entry_of_json_def)

lemma load_memory_missing: "fs (memory_path p) = None \<Longrightarrow> load_memory js p fs = Inr None"
  by (simp add: load_memory_def)

text \<open>
  C18: what \<open>save_memory\<close> writes, \<open>load_memory\<close> reads back: when \<open>json.load\<close> inverts
  \<open>json.dump\<close> on the saved memory and the timestamps survive as floats, saving without
  a fault and loading from the same path gives back a JSON value that stands for exactly
  the saved memory.
\<close>

theorem save_load_roundtrip:
  assumes "loads js (dumps_indent2 js (memory_json fc (memory ag))) = Inr (memory_json fc (memory ag))"
    and "list_all (\<lambda>e. fl_read fc (fl_json fc (m_time e)) = Some (m_time e)) (memory ag)"
  shows "fst (save_memory js fc no_faults p ag fs) = Inr () \<and>
         (\<exists>v. load_memory js p (snd (save_memory js fc no_faults p ag fs)) = Inr (Some v) \<and>
              memory_of_json fc v = Some (memory ag))"
  using assms memory_of_memory_json[OF assms(2)]
  by (simp add: save_memory_def load_memory_def write_text_def no_faults_def)

text \<open>
  C19: the memory file is rewritten in place: when the write fails after \<open>open\<close> has
  truncated the file, \<open>save_memory\<close> raises, the file holds only a prefix of the new
  JSON, and the next \<open>load_memory\<close> raises; neither the old nor the new memory can be
  loaded.
\<close>

theorem interrupted_save_loses_memory:
  assumes "open_err ft (memory_path p) = None"
    and "write_err ft (memory_path p) = Some (n, m)"
    and "isl (loads js (take n (dumps_indent2 js (memory_json fc (memory ag)))))"
  shows "fst (save_memory js fc ft p ag fs) = Inl (OSError m) \<and>
         snd (save_memory js fc ft p ag fs) (memory_path p) =
           Some (take n (dumps_indent2 js (memory_json fc (memory ag)))) \<and>
         isl (load_memory js p (snd (save_memory js fc ft p ag fs)))"
  using assms by (auto simp: save_memory_def load_memory_def write_text_def split: sum.splits)

theorem save_load_roundtrip_witness:
  "loads memory_json_lib (dumps_indent2 memory_json_lib (memory_json int_codec (memory chatted))) =
     Inr (memory_json int_codec (memory chatted)) \<and>
   list_all (\<lambda>e. fl_read int_codec (fl_json int_codec (m_time e)) = Some (m_time e)) (memory chatted) \<and>
   fst (save_memory memory_json_lib int_codec no_faults None chatted Map.empty) = Inr () \<and>
   (\<exists>v. load_memory memory_json_lib None (snd (save_memory memory_json_lib int_codec no_faults None chatted Map.empty)) =
          Inr (Some v) \<and> memory_of_json int_codec v = Some (memory chatted))"
proof -
  have l: "loads memory_json_lib (dumps_indent2 memory_json_lib (memory_json int_codec (memory chatted))) =
             Inr (memory_json int_codec (memory chatted))"
    by (simp add: memory_json_lib_def)
  have c: "list_all (\<lambda>e. fl_read int_codec (fl_json int_codec (m_time e)) = Some (m_time e)) (memory chatted)"
    by (simp add: int_codec_def chatted_def)
  from l c save_load_roundtrip[OF l c, of None "Map.empty"] show ?thesis by blast
qed

theorem interrupted_save_loses_memory_witness:
  "open_err (disk_full_at 5) (memory_path None) = None \<and>
   write_err (disk_full_at 5) (memory_path None) = Some (5, ''[Errno 28] No space left on device'') \<and>
   isl (loads memory_json_lib (take 5 (dumps_indent2 memory_json_lib (memory_json int_codec (memory chatted))))) \<and>
   fst (save_memory memory_json_lib int_codec (disk_full_at 5) None chatted Map.empty) =
     Inl (OSError ''[Errno 28] No space left on device'') \<and>
   snd (save_memory memory_json_lib int_codec (disk_full_at 5) None chatted Map.empty) (memory_path None) =
     Some (take 5 (dumps_indent2 memory_json_lib (memory_json int_codec (memory chatted)))) \<and>
   isl (load_memory memory_json_lib None (snd (save_memory memory_json_lib int_codec (disk_full_at 5) None chatted Map.empty)))"
proof -
  have o: "open_err (disk_full_at 5) (memory_path None) = None" by (simp add: disk_full_at_def no_faults_def)
  have w: "write_err (disk_full_at 5) (memory_path None) = Some (5, ''[Errno 28] No space left on device'')"
    by (simp add: disk_full_at_def)
  have d: "isl (loads memory_json_lib (take 5 (dumps_indent2 memory_json_lib (memory_json int_codec (memory chatted)))))"
    by (simp add: memory_json_lib_def chatted_text_def)
  from o w d interrupted_save_loses_memory[OF o w d, of "Map.empty"] show ?thesis by blast
qed

end
