(* ===== verification/Concurrency.thy ===== *)
theory Concurrency
  imports Agent
begin

text \<open>
  Concurrent chats. FastAPI runs the \<open>/api/chat\<close> handler of several requests on one
  event loop, and \<open>Agent.process_request\<close> (src/backend/core/agent/agent.py) suspends at
  \<open>await self.model_router.route_request(...)\<close>. Its body is split there into two steps of
  the relation \<open>chat_step\<close>: \<open>send\<close> appends the user's entry and sends the request built
  from the memory at that moment; \<open>recv\<close> appends the entry of its reply (or error) at a
  later time, after any number of steps of other requests. A configuration holds the
  shared memory, the requests in flight with the entry each will append, and the message
  lists that were sent.
\<close>

record chat_conf =
  c_mem :: "mem_entry list"
  c_pending :: "(nat \<times> string \<times> string) list"
  c_sent :: "(nat \<times> message list) list"

definition idle :: "mem_entry list \<Rightarrow> chat_conf" where
  "idle mem = \<lparr>c_mem = mem, c_pending = [], c_sent = []\<rparr>"

text \<open>Role and content of the entry \<open>process_request\<close> appends after the await.\<close>

definition reply_of :: "string py \<Rightarrow> string \<times> string" where
  "reply_of res =
     (case res of
        Inr resp \<Rightarrow> (''assistant'', resp)
      | Inl e \<Rightarrow> (''error'', ''Error processing request: '' @ exc_str e))"

definition chat_request :: "mem_entry list \<Rightarrow> kwargs" where
  "chat_request mem = no_kwargs\<lparr>kw_messages := Some (context_messages mem)\<rparr>"

inductive chat_step :: "provider_env \<Rightarrow> router \<Rightarrow> chat_conf \<Rightarrow> chat_conf \<Rightarrow> bool"
  for env :: provider_env and r :: router where
  send: "i \<notin> fst ` set (c_pending c) \<Longrightarrow>
          route_request env r model ''chat'' (chat_request (c_mem c @ [\<lparr>m_role = ''user'', m_content = msg, m_time = t\<rparr>])) =
            (calls, res) \<Longrightarrow>
          chat_step env r c
            (c\<lparr>c_mem := c_mem c @ [\<lparr>m_role = ''user'', m_content = msg, m_time = t\<rparr>],
               c_pending := c_pending c @ [(i, reply_of (map_sum id reply_text res))],
               c_sent := c_sent c @ [(i, context_messages (c_mem c @ [\<lparr>m_role = ''user'', m_content = msg, m_time = t\<rparr>]))]\<rparr>)"
| recv: "(i, ro, co) \<in> set (c_pending c) \<Longrightarrow>
           chat_step env r c
             (c\<lparr>c_mem := c_mem c @ [\<lparr>m_role = ro, m_content = co, m_time = t\<rparr>],
                c_pending := remove1 (i, ro, co) (c_pending c)\<rparr>)"


text \<open>Entries of the user's messages; every other entry is a reply.\<close>

definition is_user :: "mem_entry \<Rightarrow> bool" where
  "is_user e \<longleftrightarrow> m_role e = ''user''"

section \<open>Fixtures\<close>

definition first_chat :: chat_conf where
  "first_chat =
     \<lparr>c_mem = [\<lparr>m_role = ''user'', m_content = ''hi'', m_time = 0\<rparr>],
      c_pending = [(0, ''error'', ''Error processing request: Model gpt-4 not found'')],
      c_sent = [(0, context_messages [\<lparr>m_role = ''user'', m_content = ''hi'', m_time = 0\<rparr>])]\<rparr>"

section \<open>Properties\<close>

lemma reply_of_role: "fst (reply_of res) \<in> {''assistant'', ''error''}"
  by (simp add: reply_of_def split: sum.splits)

lemma process_request_reply_of:
  "process_request env r clock msg model ag =
     (let mem1 = memory ag @ [user_entry clock msg];
          (calls, res) = route_request env r model ''chat'' (chat_request mem1);
          rc = reply_of (map_sum id reply_text res)
      in ((calls, snd rc), ag\<lparr>memory := mem1 @ [\<lparr>m_role = fst rc, m_content = snd rc, m_time = snd clock\<rparr>]\<rparr>))"
  by (simp add: process_request_cases chat_request_def reply_of_def Let_def split: prod.splits sum.splits)

text \<open>The sequential \<open>process_request\<close> is a \<open>send\<close> followed at once by its \<open>recv\<close>.\<close>

lemma process_request_two_steps:
  assumes "process_request env r clock msg model ag = (out, ag')"
  shows "\<exists>c. (chat_step env r)\<^sup>*\<^sup>* (idle (memory ag)) c \<and> c_mem c = memory ag' \<and> c_pending c = []"
proof -
  define u where "u = \<lparr>m_role = ''user'', m_content = msg, m_time = fst clock\<rparr>"
  obtain calls res where rr: "route_request env r model ''chat'' (chat_request (memory ag @ [u])) = (calls, res)"
    by fastforce
  define rc where "rc = reply_of (map_sum id reply_text res)"
  define c1 where "c1 = (idle (memory ag))\<lparr>c_mem := memory ag @ [u], c_pending := [(0::nat, rc)],
                         c_sent := [(0, context_messages (memory ag @ [u]))]\<rparr>"
  have s1: "chat_step env r (idle (memory ag)) c1"
    using chat_step.send[of 0 "idle (memory ag)" env r model msg "fst clock" calls res] rr
    by (simp add: idle_def c1_def rc_def u_def)
  have s2: "chat_step env r c1 (c1\<lparr>c_mem := c_mem c1 @ [\<lparr>m_role = fst rc, m_content = snd rc, m_time = snd clock\<rparr>],
                                  c_pending := remove1 (0, fst rc, snd rc) (c_pending c1)\<rparr>)"
    by (rule chat_step.recv) (simp add: c1_def)
  have "memory ag' = memory ag @ [u, \<lparr>m_role = fst rc, m_content = snd rc, m_time = snd clock\<rparr>]"
    using assms rr by (auto simp: process_request_reply_of user_entry_def u_def rc_def Let_def split: prod.splits)
  then show ?thesis
    using s1 s2 by (intro exI[of _ "c1\<lparr>c_mem := c_mem c1 @ [\<lparr>m_role = fst rc, m_content = snd rc, m_time = snd clock\<rparr>],
                                  c_pending := remove1 (0, fst rc, snd rc) (c_pending c1)\<rparr>"])
      (auto simp: c1_def)
qed

lemma chat_steps_inv:
  assumes "(chat_step env r)\<^sup>*\<^sup>* (idle mem) c"
  shows "prefix mem (c_mem c) \<and>
         (\<forall>p \<in> set (c_pending c). fst (snd p) \<noteq> ''user'') \<and>
         length (filter is_user (drop (length mem) (c_mem c))) =
           length (filter (Not \<circ> is_user) (drop (length mem) (c_mem c))) + length (c_pending c)"
  using assms
proof (induction rule: rtranclp_induct)
  case base
  then show ?case by (simp add: idle_def)
next
  case (step c c')
  from step.hyps(2) show ?case
  proof (cases rule: chat_step.cases)
    case (send i model msg t calls res)
    have "fst (reply_of (map_sum id reply_text res)) \<noteq> ''user''"
      using reply_of_role[of "map_sum id reply_text res"] by auto
    with step.IH show ?thesis
      by (auto simp: send is_user_def prefix_def)
  next
    case (recv i ro co t)
    have ro: "ro \<noteq> ''user''" using step.IH recv(2) by fastforce
    have len: "length (c_pending c) = Suc (length (remove1 (i, ro, co) (c_pending c)))"
    proof -
      have "0 < length (c_pending c)" using recv(2) by (cases "c_pending c") auto
      then show ?thesis using recv(2) by (simp add: length_remove1)
    qed
    from step.IH ro len show ?thesis
      by (auto simp: recv is_user_def prefix_def dest: set_remove1_subset[THEN subsetD])
  qed
qed

text \<open>
  C33: in every interleaving of concurrent chats that starts from a memory \<open>mem\<close>, the memory
  only grows from \<open>mem\<close>, and its new entries hold one user entry per request sent and
  one reply per request answered: the user entries outnumber the replies by the requests
  still in flight.
\<close>

theorem chat_steps_balance:
  assumes "(chat_step env r)\<^sup>*\<^sup>* (idle mem) c"
  shows "prefix mem (c_mem c) \<and>
         length (filter is_user (drop (length mem) (c_mem c))) =
           length (filter (Not \<circ> is_user) (drop (length mem) (c_mem c))) + length (c_pending c)"
  using chat_steps_inv[OF assms] by blast

theorem chat_steps_balance_witness:
  "(chat_step silent_env router_init)\<^sup>*\<^sup>* (idle []) first_chat \<and>
   prefix [] (c_mem first_chat) \<and>
   length (filter is_user (drop (length ([] :: mem_entry list)) (c_mem first_chat))) =
     length (filter (Not \<circ> is_user) (drop (length ([] :: mem_entry list)) (c_mem first_chat))) +
       length (c_pending first_chat)"
proof -
  have rr: "route_request silent_env router_init ''gpt-4'' ''chat''
              (chat_request ([] @ [\<lparr>m_role = ''user'', m_content = ''hi'', m_time = 0\<rparr>])) =
            ([], Inl (ModelNotFoundError ''Model gpt-4 not found''))"
    by (simp add: route_request_def get_model_def router_init_def)
  have "chat_step silent_env router_init (idle []) first_chat"
    using chat_step.send[of 0 "idle []" silent_env router_init "''gpt-4''" "''hi''" 0 "[]"
        "Inl (ModelNotFoundError ''Model gpt-4 not found'')"] rr
    by (simp add: idle_def first_chat_def reply_of_def)
  then have run: "(chat_step silent_env router_init)\<^sup>*\<^sup>* (idle []) first_chat" by simp
  from run chat_steps_balance[OF run] show ?thesis by blast
qed

lemma context_messages_roles:
  "length mem \<le> 5 \<Longrightarrow> map role (context_messages mem) = ''system'' # map m_role mem"
  by (simp add: context_messages_def)

text \<open>
  C34: two concurrent chats can interleave at the await: for every provider and router,
  there is an execution from the empty memory in which the second request is sent with
  the first user message and no reply to it, and the memory ends as two user entries
  followed by the two replies.
\<close>

theorem interleaved_chats:
  "\<exists>c. (chat_step env r)\<^sup>*\<^sup>* (idle []) c \<and> c_pending c = [] \<and>
       map m_role (c_mem c) = [''user'', ''user'', m_role (c_mem c ! 2), m_role (c_mem c ! 3)] \<and>
       m_role (c_mem c ! 2) \<in> {''assistant'', ''error''} \<and> m_role (c_mem c ! 3) \<in> {''assistant'', ''error''} \<and>
       m_content (c_mem c ! 0) = m1 \<and> m_content (c_mem c ! 1) = m2 \<and>
       (\<exists>msgs. (1, msgs) \<in> set (c_sent c) \<and> map role msgs = [''system'', ''user'', ''user''])"
proof -
  define u1 where "u1 = \<lparr>m_role = ''user'', m_content = m1, m_time = 0\<rparr>"
  define u2 where "u2 = \<lparr>m_role = ''user'', m_content = m2, m_time = 1\<rparr>"
  obtain calls1 res1 where r1: "route_request env r ''gpt-4'' ''chat'' (chat_request ([] @ [u1])) = (calls1, res1)"
    by fastforce
  obtain calls2 res2 where r2: "route_request env r ''gpt-4'' ''chat'' (chat_request ([u1] @ [u2])) = (calls2, res2)"
    by fastforce
  define rc1 where "rc1 = reply_of (map_sum id reply_text res1)"
  define rc2 where "rc2 = reply_of (map_sum id reply_text res2)"
  define c1 where "c1 = \<lparr>c_mem = [u1], c_pending = [(0::nat, rc1)], c_sent = [(0::nat, context_messages [u1])]\<rparr>"
  define c2 where "c2 = \<lparr>c_mem = [u1, u2], c_pending = [(0::nat, rc1), (1, rc2)],
                         c_sent = [(0::nat, context_messages [u1]), (1, context_messages [u1, u2])]\<rparr>"
  define a1 where "a1 = \<lparr>m_role = fst rc1, m_content = snd rc1, m_time = 2\<rparr>"
  define a2 where "a2 = \<lparr>m_role = fst rc2, m_content = snd rc2, m_time = 3\<rparr>"
  define c3 where "c3 = c2\<lparr>c_mem := [u1, u2, a1], c_pending := [(1, rc2)]\<rparr>"
  define c4 where "c4 = c3\<lparr>c_mem := [u1, u2, a1, a2], c_pending := []\<rparr>"
  have s1: "chat_step env r (idle []) c1"
    using chat_step.send[of 0 "idle []" env r "''gpt-4''" m1 0 calls1 res1] r1
    by (simp add: idle_def c1_def rc1_def u1_def)
  have s2: "chat_step env r c1 c2"
    using chat_step.send[of 1 c1 env r "''gpt-4''" m2 1 calls2 res2] r2
    by (simp add: c1_def c2_def rc2_def u1_def u2_def)
  have s3: "chat_step env r c2 c3"
    using chat_step.recv[of 0 "fst rc1" "snd rc1" c2 env r 2]
    by (simp add: c2_def c3_def a1_def)
  have s4: "chat_step env r c3 c4"
    using chat_step.recv[of 1 "fst rc2" "snd rc2" c3 env r 3]
    by (simp add: c2_def c3_def c4_def a2_def)
  have run: "(chat_step env r)\<^sup>*\<^sup>* (idle []) c4"
    using s1 s2 s3 s4 by (rule steps4)
  have sent: "(1, context_messages [u1, u2]) \<in> set (c_sent c4)"
    by (simp add: c2_def c3_def c4_def)
  have "map role (context_messages [u1, u2]) = [''system'', ''user'', ''user'']"
    by (simp add: context_messages_roles u1_def u2_def)
  moreover have "fst rc1 \<in> {''assistant'', ''error''}" and "fst rc2 \<in> {''assistant'', ''error''}"
    unfolding rc1_def rc2_def by (rule reply_of_role)+
  ultimately show ?thesis using run sent
    by (intro exI[of _ c4]) (auto simp: c2_def c3_def c4_def u1_def u2_def a1_def a2_def)
qed

end
