(* ===== verification/Edits.thy ===== *)
theory Edits
  imports Agent
begin

text \<open>
  Concurrent code modifications. \<open>Agent.execute_code_modification\<close>
  (src/backend/core/agent/agent.py) suspends once, in
  \<open>CodeModifier.analyze_code_changes\<close> (modifier.py), at the \<open>await\<close> of the analysis,
  after reading the file; the rest, \<open>apply_changes\<close> included, has no \<open>await\<close> and runs
  without interruption. The relation \<open>mod_step\<close> splits the operation there: \<open>start\<close>
  reads the file and obtains the analysis, \<open>finish\<close> runs the remainder
  (\<open>mod_finish\<close>) on the files as they are then. Spec section 5 asks whoever exposes the
  mutator at a request boundary to serialise the modifications of one path;
  \<open>/api/code/modify\<close> does not.
\<close>

text \<open>What \<open>execute_code_modification\<close> does after the analysis has returned.\<close>

definition mod_finish :: "parser \<Rightarrow> faults \<Rightarrow> path \<Rightarrow> string \<Rightarrow> pyval py \<Rightarrow> files \<Rightarrow> mod_result \<times> files" where
  "mod_finish parse ft p changes res fs =
     (case res of
        Inl e \<Rightarrow> (ModError (Some (exc_str e)) None, fs)
      | Inr analysis \<Rightarrow>
          (case py_get analysis ''critical_issues'' of
             Inl e \<Rightarrow> (ModError (Some (exc_str e)) None, fs)
           | Inr issues \<Rightarrow>
               if \<not> py_truthy issues then
                 (case apply_changes parse ft p changes True fs of
                    (Inl e, fs') \<Rightarrow> (ModError (Some (exc_str e)) None, fs')
                  | (Inr (success, err), fs') \<Rightarrow>
                      if success then (ModSuccess analysis, fs')
                      else (ModError err (Some analysis), fs'))
               else (ModRejected issues, fs)))"

record mod_conf =
  md_files :: files
  md_pending :: "(nat \<times> path \<times> string \<times> pyval py) list"
  md_done :: "(nat \<times> mod_result) list"

definition mod_idle :: "files \<Rightarrow> mod_conf" where
  "mod_idle fs = \<lparr>md_files = fs, md_pending = [], md_done = []\<rparr>"

inductive mod_step :: "provider_env \<Rightarrow> router \<Rightarrow> parser \<Rightarrow> faults \<Rightarrow> mod_conf \<Rightarrow> mod_conf \<Rightarrow> bool"
  for env :: provider_env and r :: router and parse :: parser and ft :: faults where
  start: "i \<notin> fst ` set (md_pending c) \<Longrightarrow> i \<notin> fst ` set (md_done c) \<Longrightarrow>
          analyze_code_changes env r (md_files c) p ch = (calls, res) \<Longrightarrow>
          mod_step env r parse ft c (c\<lparr>md_pending := md_pending c @ [(i, p, ch, res)]\<rparr>)"
| finish: "(i, p, ch, res) \<in> set (md_pending c) \<Longrightarrow>
           mod_finish parse ft p ch res (md_files c) = (out, fs') \<Longrightarrow>
           mod_step env r parse ft c
             (c\<lparr>md_files := fs', md_pending := remove1 (i, p, ch, res) (md_pending c),
                md_done := md_done c @ [(i, out)]\<rparr>)"

section \<open>Properties\<close>

text \<open>The sequential operation is the analysis followed by \<open>mod_finish\<close>.\<close>

lemma execute_code_modification_split:
  "execute_code_modification env r parse ft p ch fs =
     (case analyze_code_changes env r fs p ch of
        (calls, res) \<Rightarrow> (case mod_finish parse ft p ch res fs of (out, fs') \<Rightarrow> ((calls, out), fs')))"
  by (simp add: execute_code_modification_def mod_finish_def split: prod.splits sum.splits)

lemma execute_two_steps:
  assumes "execute_code_modification env r parse ft p ch fs = ((calls, out), fs')"
  shows "(mod_step env r parse ft)\<^sup>*\<^sup>* (mod_idle fs) \<lparr>md_files = fs', md_pending = [], md_done = [(0, out)]\<rparr>"
proof -
  obtain calls' res where a: "analyze_code_changes env r fs p ch = (calls', res)" by fastforce
  have f: "mod_finish parse ft p ch res fs = (out, fs')"
    using assms a by (simp add: execute_code_modification_split split: prod.splits)
  have s1: "mod_step env r parse ft (mod_idle fs) \<lparr>md_files = fs, md_pending = [(0, p, ch, res)], md_done = []\<rparr>"
    using mod_step.start[of 0 "mod_idle fs" env r p ch calls' res parse ft] a by (simp add: mod_idle_def)
  have s2: "mod_step env r parse ft \<lparr>md_files = fs, md_pending = [(0, p, ch, res)], md_done = []\<rparr>
              \<lparr>md_files = fs', md_pending = [], md_done = [(0, out)]\<rparr>"
    using mod_step.finish[of 0 p ch res "\<lparr>md_files = fs, md_pending = [(0, p, ch, res)], md_done = []\<rparr>" parse ft out fs' env r] f
    by simp
  show ?thesis using s1 s2 by (rule steps2)
qed

lemma mod_finish_applies:
  assumes "changes_pass parse ch" and "fs p = Some old"
    and "py_get a ''critical_issues'' = Inr i" and "\<not> py_truthy i"
  shows "mod_finish parse no_faults p ch (Inr a) fs =
           (ModSuccess a, ((fs(p := None))(backup_path p \<mapsto> old))(p \<mapsto> ch))"
  using assms
  by (simp add: mod_finish_def apply_changes_backup path_rename_def write_text_def no_faults_def)

text \<open>
  C35: two modifications of one file interleaved at the analysis's await both succeed,
  although the second was analysed against the original text and is written over the
  first, which it never saw: the file holds the second change and the backup the first,
  so an original text that differs from both changes is in neither.
\<close>

theorem interleaved_modifications_lose_update:
  assumes "fs p = Some orig" and "changes_pass parse ch1" and "changes_pass parse ch2"
    and "analyze_code_changes env r fs p ch1 = (calls1, Inr a1)"
    and "analyze_code_changes env r fs p ch2 = (calls2, Inr a2)"
    and "py_get a1 ''critical_issues'' = Inr i1" and "\<not> py_truthy i1"
    and "py_get a2 ''critical_issues'' = Inr i2" and "\<not> py_truthy i2"
  shows "\<exists>c. (mod_step env r parse no_faults)\<^sup>*\<^sup>* (mod_idle fs) c \<and> md_pending c = [] \<and>
             md_done c = [(0, ModSuccess a1), (1, ModSuccess a2)] \<and>
             md_files c p = Some ch2 \<and> md_files c (backup_path p) = Some ch1"
proof -
  define c1 where "c1 = \<lparr>md_files = fs, md_pending = [(0::nat, p, ch1, Inr a1)], md_done = []\<rparr>"
  define c2 where "c2 = \<lparr>md_files = fs, md_pending = [(0::nat, p, ch1, Inr a1), (1, p, ch2, Inr a2)], md_done = []\<rparr>"
  define fs1 where "fs1 = ((fs(p := None))(backup_path p \<mapsto> orig))(p \<mapsto> ch1)"
  define c3 where "c3 = \<lparr>md_files = fs1, md_pending = [(1::nat, p, ch2, Inr a2)], md_done = [(0, ModSuccess a1)]\<rparr>"
  define fs2 where "fs2 = ((fs1(p := None))(backup_path p \<mapsto> ch1))(p \<mapsto> ch2)"
  define c4 where "c4 = \<lparr>md_files = fs2, md_pending = [], md_done = [(0::nat, ModSuccess a1), (1, ModSuccess a2)]\<rparr>"
  have s1: "mod_step env r parse no_faults (mod_idle fs) c1"
    using mod_step.start[of 0 "mod_idle fs" env r p ch1 calls1 "Inr a1" parse no_faults] assms(1,4)
    by (simp add: mod_idle_def c1_def)
  have s2: "mod_step env r parse no_faults c1 c2"
    using mod_step.start[of 1 c1 env r p ch2 calls2 "Inr a2" parse no_faults] assms(5)
    by (simp add: c1_def c2_def)
  have f1: "mod_finish parse no_faults p ch1 (Inr a1) fs = (ModSuccess a1, fs1)"
    using mod_finish_applies[of parse ch1 fs p orig a1 i1] assms(1,2,6,7) by (simp add: fs1_def)
  have s3: "mod_step env r parse no_faults c2 c3"
    using mod_step.finish[of 0 p ch1 "Inr a1" c2 parse no_faults "ModSuccess a1" fs1 env r] f1
    by (simp add: c2_def c3_def)
  have "fs1 p = Some ch1" by (simp add: fs1_def)
  then have f2: "mod_finish parse no_faults p ch2 (Inr a2) fs1 = (ModSuccess a2, fs2)"
    using mod_finish_applies[of parse ch2 fs1 p ch1 a2 i2] assms(3,8,9) by (simp add: fs2_def)
  have s4: "mod_step env r parse no_faults c3 c4"
    using mod_step.finish[of 1 p ch2 "Inr a2" c3 parse no_faults "ModSuccess a2" fs2 env r] f2
    by (simp add: c3_def c4_def)
  have "(mod_step env r parse no_faults)\<^sup>*\<^sup>* (mod_idle fs) c4"
    using s1 s2 s3 s4 by (rule steps4)
  then show ?thesis by (intro exI[of _ c4]) (simp add: c4_def fs2_def)
qed

theorem interleaved_modifications_lose_update_witness:
  "scenario_before ''f.py'' = Some ''x = 1'' \<and>
   changes_pass scenario_parser ''x = 2'' \<and> changes_pass scenario_parser ''x = 3'' \<and>
   (\<exists>calls. analyze_code_changes approving_env openai_router scenario_before ''f.py'' ''x = 2'' = (calls, Inr (PDict []))) \<and>
   (\<exists>calls. analyze_code_changes approving_env openai_router scenario_before ''f.py'' ''x = 3'' = (calls, Inr (PDict []))) \<and>
   py_get (PDict []) ''critical_issues'' = Inr PNone \<and> \<not> py_truthy PNone \<and>
   (\<exists>c. (mod_step approving_env openai_router scenario_parser no_faults)\<^sup>*\<^sup>* (mod_idle scenario_before) c \<and>
        md_pending c = [] \<and> md_done c = [(0, ModSuccess (PDict [])), (1, ModSuccess (PDict []))] \<and>
        md_files c ''f.py'' = Some ''x = 3'' \<and> md_files c (backup_path ''f.py'') = Some ''x = 2'')"
proof -
  have fs: "scenario_before ''f.py'' = Some ''x = 1''" by (simp add: scenario_before_def)
  have p2: "changes_pass scenario_parser ''x = 2''" and p3: "changes_pass scenario_parser ''x = 3''"
    by (simp_all add: changes_pass_def validate_syntax_def validate_safety_def scenario_parser_def
        ast_walk_tree_def modifier_dangerous_modules_def)
  obtain calls2 where a2: "analyze_code_changes approving_env openai_router scenario_before ''f.py'' ''x = 2'' =
      (calls2, Inr (PDict []))"
    by (simp add: analyze_code_changes_def read_file_def scenario_before_def route_request_def
        openai_router_def get_model_def register_model_def router_init_def map_call_def
        openai_analyze_code_def wrap_analysis_def openai_generate_response_def approving_env_def
        silent_env_def no_kwargs_def kw_get_def)
  obtain calls3 where a3: "analyze_code_changes approving_env openai_router scenario_before ''f.py'' ''x = 3'' =
      (calls3, Inr (PDict []))"
    by (simp add: analyze_code_changes_def read_file_def scenario_before_def route_request_def
        openai_router_def get_model_def register_model_def router_init_def map_call_def
        openai_analyze_code_def wrap_analysis_def openai_generate_response_def approving_env_def
        silent_env_def no_kwargs_def kw_get_def)
  have g: "py_get (PDict []) ''critical_issues'' = Inr PNone" and t: "\<not> py_truthy PNone"
    by (simp_all add: py_get_def)
  from interleaved_modifications_lose_update[OF fs p2 p3 a2 a3 g t g t] fs p2 p3 a2 a3 g t
  show ?thesis by blast
qed

end
