(* ===== verification/Streaming.thy ===== *)
theory Streaming
  imports Adapters
begin

text \<open>
  The streaming methods of the adapters: \<open>OpenAIModel.stream_response\<close>
  (src/backend/core/models/openai_model.py) and \<open>AnthropicModel.stream_response\<close>
  (anthropic_model.py). An async generator is modelled by what its consumer sees: the
  texts it yields, in order, and the exception that ends it, if any. OpenAI's streaming
  endpoint is the parameter \<open>stream_api\<close>: for a request it gives the chunks delivered and,
  if the stream broke, the text of the error. A chunk is falsy (\<open>NoChunk\<close>) or carries the
  \<open>delta.content\<close> of each of its choices. (The module as written does not import: the
  annotation \<open>AsyncGenerator\<close> is not imported; the method is modelled as it runs once
  that import is added.)
\<close>

datatype chunk = NoChunk | Chunk "string option list"

datatype stream_request =
  OpenAIStreamReq "string option" string "message list" rat nat
    \<comment> \<open>\<open>acreate(..., stream=True)\<close>: global key, model, messages, temperature, max_tokens\<close>

type_synonym stream_api = "stream_request \<Rightarrow> chunk list \<times> string option"

record stream_out =
  s_calls :: "api_request list"
  s_streams :: "stream_request list"
  s_yields :: "string list"
  s_exc :: "py_exc option"

text \<open>\<open>if chunk and chunk.choices and chunk.choices[0].delta.get('content')\<close>.\<close>

fun chunk_text :: "chunk \<Rightarrow> string list" where
  "chunk_text NoChunk = []"
| "chunk_text (Chunk []) = []"
| "chunk_text (Chunk (d # ds)) = (case d of Some s \<Rightarrow> if s = [] then [] else [s] | None \<Rightarrow> [])"

definition openai_stream_response ::
  "provider_env \<Rightarrow> stream_api \<Rightarrow> message list \<Rightarrow> kwargs \<Rightarrow> stream_out" where
  "openai_stream_response env sapi msgs kw =
     (let req = OpenAIStreamReq (openai_api_key env) (kw_get (kw_model kw) ''gpt-4'') msgs
                  (kw_get (kw_temperature kw) (7 / 10)) (kw_get (kw_max_tokens kw) 2000)
      in case sapi req of
           (chunks, err) \<Rightarrow>
             \<lparr>s_calls = [], s_streams = [req], s_yields = concat (map chunk_text chunks),
              s_exc = map_option (\<lambda>m. Exception (''OpenAI streaming error: '' @ m)) err\<rparr>)"

text \<open>Anthropic's "placeholder": the whole reply of \<open>generate_response\<close>, yielded once.\<close>

definition anthropic_stream_response ::
  "provider_env \<Rightarrow> string \<Rightarrow> string \<Rightarrow> message list \<Rightarrow> kwargs \<Rightarrow> stream_out" where
  "anthropic_stream_response env key default_model msgs kw =
     (case anthropic_generate_response env key default_model msgs kw of
        (calls, Inr response) \<Rightarrow> \<lparr>s_calls = calls, s_streams = [], s_yields = [response], s_exc = None\<rparr>
      | (calls, Inl e) \<Rightarrow> \<lparr>s_calls = calls, s_streams = [], s_yields = [], s_exc = Some e\<rparr>)"

fun stream_response :: "provider_env \<Rightarrow> stream_api \<Rightarrow> adapter \<Rightarrow> message list \<Rightarrow> kwargs \<Rightarrow> stream_out" where
  "stream_response env sapi OpenAIModel msgs kw = openai_stream_response env sapi msgs kw"
| "stream_response env sapi (AnthropicModel key dm) msgs kw = anthropic_stream_response env key dm msgs kw"

text \<open>
  What a chunk carries, read without the generator's test: the \<open>delta.content\<close> of its
  first choice, empty when the chunk, its choices or the content are missing.
\<close>

fun delta_content :: "chunk \<Rightarrow> string" where
  "delta_content NoChunk = []"
| "delta_content (Chunk []) = []"
| "delta_content (Chunk (d # ds)) = (case d of Some s \<Rightarrow> s | None \<Rightarrow> [])"

text \<open>
  The provider's consistency contract: the stream for a request delivers, chunk by chunk,
  first-choice deltas that spell the reply the non-streaming endpoint gives for the same
  key, model, messages and options, and breaks when that endpoint fails.
\<close>

definition stream_consistent :: "provider_env \<Rightarrow> stream_api \<Rightarrow> bool" where
  "stream_consistent env sapi \<longleftrightarrow>
     (\<forall>k m msgs t n.
        case api env (OpenAIChat k m msgs t n) of
          Inr reply \<Rightarrow> (\<exists>chunks. sapi (OpenAIStreamReq k m msgs t n) = (chunks, None) \<and>
                                  concat (map delta_content chunks) = reply)
        | Inl err \<Rightarrow> (\<exists>chunks. sapi (OpenAIStreamReq k m msgs t n) = (chunks, Some err)))"

section \<open>The stream as the provider delivers it\<close>

text \<open>
  Nothing bounds the stream the provider returns: \<open>async for chunk in stream\<close> takes the
  events of an unbounded source, each a chunk, the end of the stream or its failure, and
  \<open>drain\<close> is that loop as a partial function: \<open>None\<close> is a loop that never ends.
  \<open>finite_source\<close> is the source of a stream given, as above, by its chunks and its error.
\<close>

datatype stream_event = Delivered chunk | Ended | Broke string

primrec delivered :: "stream_event \<Rightarrow> bool" where
  "delivered (Delivered _) = True"
| "delivered Ended = False"
| "delivered (Broke _) = False"

partial_function (option) drain :: "(nat \<Rightarrow> stream_event) \<Rightarrow> nat \<Rightarrow> (string list \<times> string option) option" where
  "drain src i =
     (case src i of
        Ended \<Rightarrow> Some ([], None)
      | Broke m \<Rightarrow> Some ([], Some m)
      | Delivered ch \<Rightarrow> Option.bind (drain src (Suc i)) (\<lambda>(ys, e). Some (chunk_text ch @ ys, e)))"

definition finite_source :: "chunk list \<Rightarrow> string option \<Rightarrow> nat \<Rightarrow> stream_event" where
  "finite_source cs err j =
     (if j < length cs then Delivered (cs ! j) else case err of None \<Rightarrow> Ended | Some m \<Rightarrow> Broke m)"

section \<open>Fixtures\<close>

definition hello_env :: provider_env where
  "hello_env = silent_env\<lparr>api := (\<lambda>_. Inr ''hello'')\<rparr>"

definition hello_stream :: stream_api where
  "hello_stream = (\<lambda>_. ([Chunk [Some ''hel''], NoChunk, Chunk [Some []], Chunk [], Chunk [Some ''lo'']], None))"

section \<open>Properties\<close>

text \<open>The generator's test drops only chunks that carry no text.\<close>

lemma concat_chunk_text: "concat (chunk_text c) = delta_content c"
  by (cases c rule: chunk_text.cases) (auto split: option.splits)

lemma concat_yields: "concat (concat (map chunk_text cs)) = concat (map delta_content cs)"
  by (induction cs) (simp_all add: concat_chunk_text)

text \<open>
  C36: streaming is equivalent to a single call when the provider is consistent: the
  texts \<open>stream_response\<close> yields, concatenated, are the reply of \<open>generate_response\<close>
  with the same adapter, messages and options (so the generator's test on each chunk loses
  no text of the first choice's deltas), and the stream ends in an exception exactly when
  the call fails.
\<close>

theorem stream_matches_generate:
  assumes "stream_consistent env sapi"
  shows "case snd (generate_response env a msgs kw) of
           Inr reply \<Rightarrow> concat (s_yields (stream_response env sapi a msgs kw)) = reply \<and>
                        s_exc (stream_response env sapi a msgs kw) = None
         | Inl e \<Rightarrow> s_exc (stream_response env sapi a msgs kw) \<noteq> None"
proof (cases a)
  case OpenAIModel
  define req where "req = OpenAIChat (openai_api_key env) (kw_get (kw_model kw) ''gpt-4'') msgs
                            (kw_get (kw_temperature kw) (7 / 10)) (kw_get (kw_max_tokens kw) 2000)"
  have c: "case api env req of
             Inr reply \<Rightarrow> (\<exists>chunks. sapi (OpenAIStreamReq (openai_api_key env) (kw_get (kw_model kw) ''gpt-4'') msgs
                            (kw_get (kw_temperature kw) (7 / 10)) (kw_get (kw_max_tokens kw) 2000)) = (chunks, None) \<and>
                                     concat (map delta_content chunks) = reply)
           | Inl err \<Rightarrow> (\<exists>chunks. sapi (OpenAIStreamReq (openai_api_key env) (kw_get (kw_model kw) ''gpt-4'') msgs
                            (kw_get (kw_temperature kw) (7 / 10)) (kw_get (kw_max_tokens kw) 2000)) = (chunks, Some err))"
    using assms unfolding stream_consistent_def req_def by blast
  show ?thesis
    using c OpenAIModel
    by (auto simp: openai_generate_response_def openai_stream_response_def req_def Let_def concat_yields
        split: sum.splits)
next
  case (AnthropicModel key dm)
  then show ?thesis
    by (auto simp: anthropic_stream_response_def split: prod.splits sum.splits)
qed

theorem stream_matches_generate_witness:
  "stream_consistent hello_env hello_stream \<and>
   snd (generate_response hello_env OpenAIModel [] no_kwargs) = Inr ''hello'' \<and>
   concat (s_yields (stream_response hello_env hello_stream OpenAIModel [] no_kwargs)) = ''hello'' \<and>
   s_exc (stream_response hello_env hello_stream OpenAIModel [] no_kwargs) = None"
proof -
  have c: "stream_consistent hello_env hello_stream"
    by (simp add: stream_consistent_def hello_env_def hello_stream_def)
  have g: "snd (generate_response hello_env OpenAIModel [] no_kwargs) = Inr ''hello''"
    by (simp add: openai_generate_response_def hello_env_def Let_def)
  from stream_matches_generate[OF c, of OpenAIModel "[]" no_kwargs] g c show ?thesis by simp
qed

section \<open>The streaming loop ends exactly when the stream does\<close>

lemma drain_returns_ended:
  "\<not> delivered (src n) \<Longrightarrow> \<forall>j. i \<le> j \<and> j < n \<longrightarrow> delivered (src j) \<Longrightarrow> i \<le> n \<Longrightarrow> \<exists>r. drain src i = Some r"
proof (induction "n - i" arbitrary: i)
  case 0
  then have "i = n" by simp
  with 0 show ?case by (cases "src n") (simp_all add: drain.simps)
next
  case (Suc k)
  then have lt: "i < n" by simp
  then obtain ch where ch: "src i = Delivered ch" using Suc.prems(2) by (cases "src i") auto
  have k: "k = n - Suc i" using Suc.hyps(2) by arith
  have all: "\<forall>j. Suc i \<le> j \<and> j < n \<longrightarrow> delivered (src j)" using Suc.prems(2) by simp
  obtain r where "drain src (Suc i) = Some r" using Suc.hyps(1)[OF k Suc.prems(1) all] lt by auto
  then show ?case using ch by (cases r) (simp add: drain.simps)
qed

lemma drain_Some_ends:
  assumes "drain src i = Some r"
  shows "\<exists>n\<ge>i. \<not> delivered (src n)"
proof (rule drain.raw_induct[where P = "\<lambda>src i r. \<exists>n\<ge>i. \<not> delivered (src n)", OF _ assms])
  fix drain' :: "(nat \<Rightarrow> stream_event) \<Rightarrow> nat \<Rightarrow> (string list \<times> string option) option"
    and src i r
  assume ih: "\<And>src i r. drain' src i = Some r \<Longrightarrow> \<exists>n\<ge>i. \<not> delivered (src n)"
    and step: "(case src i of
                 Delivered ch \<Rightarrow> Option.bind (drain' src (Suc i)) (\<lambda>(ys, e). Some (chunk_text ch @ ys, e))
               | Ended \<Rightarrow> Some ([], None) | Broke m \<Rightarrow> Some ([], Some m)) = Some r"
  show "\<exists>n\<ge>i. \<not> delivered (src n)"
  proof (cases "src i")
    case (Delivered ch)
    then obtain r' where "drain' src (Suc i) = Some r'" using step by (auto split: Option.bind_splits)
    then obtain n where "n \<ge> Suc i" "\<not> delivered (src n)" using ih by blast
    then show ?thesis by (intro exI[of _ n]) simp
  qed auto
qed

lemma drain_finite_source:
  "i \<le> length cs \<Longrightarrow> drain (finite_source cs err) i = Some (concat (map chunk_text (drop i cs)), err)"
proof (induction "length cs - i" arbitrary: i)
  case 0
  then show ?case by (cases err) (simp_all add: drain.simps finite_source_def)
next
  case (Suc k)
  then have lt: "i < length cs" by simp
  then have d: "drop i cs = cs ! i # drop (Suc i) cs" by (simp add: Cons_nth_drop_Suc)
  have "k = length cs - Suc i" using Suc.hyps(2) by arith
  then have "drain (finite_source cs err) (Suc i) = Some (concat (map chunk_text (drop (Suc i) cs)), err)"
    using Suc.hyps(1) lt by simp
  with lt d show ?case by (simp add: drain.simps[of _ i] finite_source_def)
qed

lemma openai_stream_response_drain:
  "sapi (OpenAIStreamReq (openai_api_key env) (kw_get (kw_model kw) ''gpt-4'') msgs
           (kw_get (kw_temperature kw) (7 / 10)) (kw_get (kw_max_tokens kw) 2000)) = (cs, err) \<Longrightarrow>
   drain (finite_source cs err) 0 =
     Some (s_yields (openai_stream_response env sapi msgs kw), err)"
  by (simp add: drain_finite_source openai_stream_response_def Let_def)

text \<open>
  Termination of \<open>stream_response\<close>'s loop: it returns exactly when the provider's
  stream ends or fails at some later point; on a stream that keeps delivering chunks it
  never returns, as no timeout bounds it (spec section 5 recommends one).
\<close>

theorem drain_terminates_iff:
  "drain src i \<noteq> None \<longleftrightarrow> (\<exists>n\<ge>i. \<not> delivered (src n))"
proof
  assume "drain src i \<noteq> None"
  then show "\<exists>n\<ge>i. \<not> delivered (src n)" using drain_Some_ends by blast
next
  assume "\<exists>n\<ge>i. \<not> delivered (src n)"
  then obtain n where n: "n \<ge> i" "\<not> delivered (src n)" and least: "\<forall>j. i \<le> j \<and> j < n \<longrightarrow> delivered (src j)"
    using exists_least_iff[of "\<lambda>n. n \<ge> i \<and> \<not> delivered (src n)"] by (metis le_trans less_imp_le_nat not_less)
  show "drain src i \<noteq> None" using drain_returns_ended[OF n(2) least n(1)] by auto
qed

end
