(* ===== verification/Spec2Isabelle.thy ===== *)
theory Spec2Isabelle
  imports Prelude Safety Mutator Adapters Router Agent Learning KeyManager Improvement Endpoints Workspace
    Requests Memory Concurrency Edits Streaming
begin

text \<open>
  \<^bold>\<open>A verification development of the Aiden backend (src/backend).\<close>

  Aiden is an agent that talks to large language models and can rewrite its own source.
  Its parts and how they call each other:
  \<^item> the model adapters, \<open>AIModel\<close> and its two providers \<open>OpenAIModel\<close> and
    \<open>AnthropicModel\<close> (src/backend/core/models/base.py, openai_model.py,
    anthropic_model.py);
  \<^item> the router \<open>ModelRouter\<close> (core/models/model_router.py), a dict from logical
    model names to adapters that dispatches a \<open>chat\<close> or \<open>code_analysis\<close> request;
  \<^item> the agent \<open>Agent\<close> (core/agent/agent.py), which keeps a conversation memory,
    sends chats through the router, and applies code changes through the code modifier;
  \<^item> the code modifier \<open>CodeModifier\<close> (core/agent/modifier.py), which asks the router
    to analyse a change, validates it (syntax and an import denylist) and writes it to
    disk with a backup;
  \<^item> the improvement engine \<open>CodeImprovement\<close> (core/agent/improvement.py), with its own,
    larger battery of safety checks;
  \<^item> the learning history \<open>AgentLearning\<close> (core/agent/learning.py), which has
    \<open>gpt-4\<close> analyse interactions and code changes, keeps each learning in memory and in
    a JSON file, and asks for an improvement plan built from the recent learnings;
  \<^item> the key store \<open>APIKeyManager\<close> (core/config/key_manager.py), Fernet tokens per
    service, persisted in config/keys.json;
  \<^item> the HTTP layer (api/endpoints.py), which builds one instance of each component at
    import time, registers the provider models when a key is stored, and exposes chat,
    code modification, self-analysis, improvement and learning;
  \<^item> a standalone file API (main.py) that reads and writes files under workspace/.

  \<^medskip>\<^bold>\<open>Theories.\<close>
  \<^descr>[Prelude] Python's values and idioms shared by all parts: strings and the
    \<open>in\<close> operator (\<open>py_in\<close>, proved equal to \<open>sublist\<close>), the exception classes as the
    datatype \<open>py_exc\<close>, results as \<open>'a py = py_exc + 'a\<close> (\<open>Inl\<close> is a raise), JSON-like
    values \<open>pyval\<close>, and dicts as association lists (\<open>dict_set\<close>, \<open>dict_del\<close>) that refine
    HOL maps (\<open>map_of_dict_set\<close>) and keep their keys distinct (\<open>dict_wf\<close>).
  \<^descr>[Safety] the AST as the datatype \<open>pynode\<close>; \<open>ast.parse\<close> is a parameter of type
    \<open>parser\<close> and \<open>ast.walk\<close> is its breadth-first queue loop \<open>ast_walk\<close>, proved to
    visit every node exactly once (\<open>ast_walk_mset\<close>) and equivalent to the depth-first
    traversal \<open>all_nodes\<close>. On top: the validators
    \<open>validate_syntax\<close>, \<open>validate_safety\<close> of modifier.py and the four ordered checks of
    improvement.py (\<open>check_syntax\<close>, \<open>check_dangerous_imports\<close>, \<open>check_file_operations\<close>,
    \<open>check_network_operations\<close>) run by the first-failure loop \<open>run_checks\<close>. The
    lemmas characterise the import scan exactly, give the battery's verdict as a
    predicate on the parse tree and the text, and document that the pattern checks are
    substring tests (false alarms) and that every dotted import (\<open>import os.path\<close>)
    evades both denylists.
  \<^descr>[Mutator] the file system as a map \<open>path \<rightharpoonup> string\<close> with injectable OS faults
    (\<open>faults\<close>: failing open, a write that fails after a prefix, a failing rename);
    \<open>path_rename\<close> and \<open>write_text\<close> model \<open>Path.rename\<close> and \<open>open(p,'w').write\<close>, and
    \<open>apply_changes\<close> is \<open>CodeModifier.apply_changes\<close> line by line. The lemmas show the
    effect of success, that no fault loses the original content when a backup is
    taken, the restoration after a failed write, and the three paths where the code's
    promise fails (a missing file, no backup, a failed restoring rename that leaves the
    target missing).
  \<^descr>[Adapters] messages, keyword arguments and provider requests; the provider APIs,
    Python's \<open>eval\<close> and the module global \<open>openai.api_key\<close> form the environment
    \<open>provider_env\<close>. Each call returns the provider requests it made with its result.
    The lemmas: Claude's prompt conversion, one request per call, the error wrapping, the
    defaults, that \<open>changes\<close> is never sent, and that the OpenAI key is process-global.
  \<^descr>[Router] the registry as a dict refined to a HOL map (\<open>models_map\<close>), and
    \<open>route_request\<close>'s lookup, dispatch and three errors.
  \<^descr>[Agent] the memory as a list of entries; \<open>process_request\<close> with its five-entry
    context window and error entries, and \<open>execute_code_modification\<close> composing
    \<open>CodeModifier.analyze_code_changes\<close> (through the router, always for \<open>gpt-4\<close>) with
    \<open>apply_changes\<close>.
  \<^descr>[Learning] the learner's state (\<open>current_learnings\<close> and the directory as a dict
    from file names to what \<open>json.load\<close> returns), \<open>_store_learning\<close> with its two
    failure points, \<open>_get_recent_learnings\<close> with the glob, the per-file \<open>except\<close> and
    Python's stable \<open>sorted(..., reverse=True)\<close> (\<open>py_sorted_desc\<close>), the two
    \<open>learn_from_*\<close> operations and \<open>generate_improvement_plan\<close>. The lemmas show that
    every learning step records exactly one learning, that a learning of the running
    process is returned twice, that two learnings of one second share a file, that the
    recent learnings are bounded and newest first, and that one non-dict file blocks
    every plan.
  \<^descr>[KeyManager] the key store over an abstract Fernet (\<open>fernet\<close>, with its roundtrip
    contract as a predicate) and keys.json as an optional dict: storing then getting a key
    returns it, a store under a fresh Fernet key cannot read the previous process's tokens,
    and removal.
  \<^descr>[Improvement] \<open>CodeImprovement.suggest_improvements\<close> and
    \<open>implement_improvements\<close> (backup, write, restore, the battery of Safety), and
    \<open>Agent.analyze_self\<close>/\<open>improve_self\<close>. The lemmas show that a reported success
    only re-prints the original code, and that \<open>improve_self\<close> raises \<open>TypeError\<close> on an
    analysis that is not iterable.
  \<^descr>[Endpoints] the record \<open>backend\<close> of all module-level instances, the provider
    environment and the file system, and one function per handler returning the provider
    requests, the response and the new state. The lemmas show that deleting a key leaves
    its models routable with the deleted key, that a restart lists the stored services but
    registers no model, and that the 400 of \<open>improve_agent\<close> reaches the client as 500.
  \<^descr>[Requests] the pydantic request models of endpoints.py as records with their
    validation (\<open>parse_chat_req\<close> and its siblings; 422 with every failing field), the
    routes as the datatype \<open>http_request\<close>, \<open>serve\<close> dispatching one request to its
    handler and \<open>serve_all\<close> serving a sequence on the shared state. The lemmas show that
    validation precedes every effect, the exact contract of \<open>POST /api/chat\<close> with its
    \<open>ChatRequest\<close> model (accepted bodies, the default model, the 422 detail), that a chat after storing an OpenAI key always reaches OpenAI with it, and
    that every sequence of requests answers each once and keeps the state well formed
    (\<open>backend_wf\<close>: distinct keys in every dict, only user, assistant and error entries
    in the memory).
  \<^descr>[Workspace] main.py: \<open>create_file\<close> and \<open>read_file\<close> with pathlib's join and the
    kernel's resolution of \<open>..\<close>, \<open>list_files\<close>, the key read from the environment at
    import and the memoryless \<open>/chat\<close>. The lemmas: what is written is read back, an
    absolute name escapes the workspace, and \<open>/chat\<close> forwards the client's model.
  \<^descr>[Memory] \<open>save_memory\<close> and \<open>load_memory\<close> of agent.py: the memory as the JSON
    \<open>json.dump\<close> writes (\<open>memory_json\<close>), the default path resolved as in Workspace, the
    loaded value returned as it is. The lemmas: saving then loading gives back the saved
    memory, and a save interrupted after \<open>open\<close> destroys the memory file.
  \<^descr>[Concurrency] concurrent \<open>process_request\<close> calls on one agent, split at their
    await into a send step (user entry appended, request made) and a receive step (reply
    or error entry appended), as the inductive relation \<open>chat_step\<close>. The lemmas show
    that \<open>process_request\<close> is a send followed by its receive, that every interleaving keeps
    one new user entry per request and one reply per answered request, and that two chats
    can interleave so that the second is sent with the first message and no reply.
  \<^descr>[Edits] concurrent \<open>execute_code_modification\<close> calls, split at the await of
    their analysis into \<open>start\<close> and \<open>finish\<close> (the relation \<open>mod_step\<close>; \<open>mod_finish\<close> is
    the code after the await, proved to compose with the analysis into the sequential
    operation). The lemma shows the lost update the missing per-path gate of spec section 5
    allows.
  \<^descr>[Streaming] the adapters' \<open>stream_response\<close>: the OpenAI chunk stream as a
    parameter \<open>stream_api\<close>, Anthropic's placeholder yielding the whole reply once. The
    lemma shows that, for a provider whose stream spells its non-streaming reply, the
    yields concatenate to the reply of \<open>generate_response\<close> and the stream raises exactly
    when the call fails. The provider's stream is also taken as an unbounded source of
    events, and the \<open>async for\<close> loop as the partial function \<open>drain\<close>
    (\<open>partial_function (option)\<close>, \<open>None\<close> for a loop that never ends): it returns
    exactly when the stream ends or fails, and agrees with the finite model on a finite
    stream.
  \<^descr>[Spec2Isabelle] this theory: the safety engine against the modifier. The
    engine's battery refines the modifier's checks, and every text that only the engine's
    larger denylist or its patterns reject is written by \<open>apply_changes\<close>.

  \<^medskip>\<^bold>\<open>Modelling choices.\<close> Strings are \<open>string\<close>, numbers \<open>int\<close>/\<open>rat\<close>; dicts keep
  insertion order. \<open>await\<close> is sequential composition: each handler runs to completion
  before the next one starts, except for the chat and the code modification, whose
  interleavings at their awaits are the step relations of the Concurrency and Edits
  theories; the other handlers sharing the module-level instances are not interleaved. Clocks (\<open>datetime.now()\<close>) are
  parameters. There is no fuel: every loop of the modelled code runs over a finite list, except the
  loop over the provider's stream, which is a partial function whose termination is
  characterised exactly (\<open>drain_terminates_iff\<close>); \<open>ast_walk\<close> terminates by the
  measure of the queue's total size; its equivalence
  with the depth-first reference \<open>all_nodes\<close> is \<open>ast_walk_tree_equiv\<close>.

  \<^medskip>\<^bold>\<open>Not modelled.\<close> The provider SDKs, \<open>ast.parse\<close> itself, Fernet encryption and
  JSON encoding are libraries the code only calls, and enter as parameters
  (\<open>parser\<close>, \<open>provider_env\<close>, \<open>json_lib\<close>); a learning file holds the value
  \<open>json.dump\<close> wrote, since learnings are built from JSON values only. Pydantic's
  coercions are modelled for the declared field types only, the float field's through the
  parameter \<open>float_ok\<close>. The agent's memory persistence is modelled up to the value \<open>load_memory\<close>
  returns; a chat on a loaded memory that is not a list of role and content strings is
  not modelled, as the provider messages of the model are typed and the code would pass
  any JSON on. Timestamps are floats, which \<open>pyval\<close> does not carry: they enter the
  memory file through the parameter \<open>float_codec\<close>. The CORS middleware and
  \<open>mkdir\<close> of the workspace directory are not modelled. endpoints.py, improvement.py and openai_model.py do
  not import as written (an undefined \<open>Any\<close>, a syntax error at improvement.py line 193,
  and the annotation \<open>AsyncGenerator\<close>, never imported); their code is modelled as it
  runs once those lines are fixed.
\<close>

section \<open>The improvement engine against the code modifier\<close>

definition shutil_parser :: parser where
  "shutil_parser = (\<lambda>_. Inr (Node ''Module'' [Import [''shutil'']]))"

lemma changes_pass_imports:
  assumes "parse code = Inr t" and "set (tree_imports t) \<inter> set modifier_dangerous_modules = {}"
  shows "changes_pass parse code"
  using assms by (simp add: changes_pass_def validate_syntax_def validate_safety_def
      scan_walk_None[symmetric] split: option.splits)

text \<open>
  C20: the battery of the improvement engine is at least as strict as the validators of
  the code modifier: a text the battery passes also passes both checks of
  \<open>apply_changes\<close>.
\<close>

theorem engine_safe_implies_changes_pass:
  assumes "safety_verdict parse code = Inr Safe"
  shows "changes_pass parse code"
proof -
  from assms have "check_dangerous_imports parse code = Safe"
    by (auto simp: safety_verdict_unfold split: sum.splits verdict.splits)
  then obtain t where t: "parse code = Inr t"
    and di: "set (tree_imports t) \<inter> set improvement_dangerous_modules = {}"
    by (auto simp: check_dangerous_imports_Safe)
  have "set (tree_imports t) \<inter> set modifier_dangerous_modules = {}"
    using di by (auto simp: improvement_dangerous_modules_def modifier_dangerous_modules_def)
  with t show ?thesis by (rule changes_pass_imports)
qed

theorem engine_safe_implies_changes_pass_witness:
  "safety_verdict scenario_parser ''x = 2'' = Inr Safe \<and> changes_pass scenario_parser ''x = 2''"
proof -
  have s: "safety_verdict scenario_parser ''x = 2'' = Inr Safe"
    by (simp add: safety_verdict_unfold check_syntax_def check_dangerous_imports_def
        check_file_operations_def check_network_operations_def scenario_parser_def ast_walk_tree_def
        improvement_dangerous_modules_def file_operation_patterns_def network_operation_patterns_def)
  from s engine_safe_implies_changes_pass[OF s] show ?thesis by blast
qed

lemma safety_verdict_Safe_checks:
  "safety_verdict parse code = Inr Safe \<Longrightarrow>
     check_dangerous_imports parse code = Safe \<and> check_file_operations code = Safe \<and>
     check_network_operations code = Safe"
  by (auto simp: safety_verdict_unfold split: sum.splits verdict.splits)

text \<open>
  C21: the converse fails. Every text that parses and imports none of the modifier's three
  denied modules, but imports another module of the engine's denylist or contains one of
  its file or network patterns, is rejected by the improvement engine and yet written to
  disk, with success, by \<open>apply_changes\<close>.
\<close>

theorem modifier_writes_engine_rejected:
  assumes "parse code = Inr t"
    and "set (tree_imports t) \<inter> set modifier_dangerous_modules = {}"
    and "set (tree_imports t) \<inter> set improvement_dangerous_modules \<noteq> {} \<or>
         (\<exists>q \<in> set file_operation_patterns. py_in q code) \<or>
         (\<exists>q \<in> set network_operation_patterns. py_in q code)"
    and "fs p = Some old"
  shows "safety_verdict parse code \<noteq> Inr Safe \<and>
         apply_changes parse no_faults p code True fs =
           (Inr (True, None), ((fs(p := None))(backup_path p \<mapsto> old))(p \<mapsto> code))"
proof
  show "safety_verdict parse code \<noteq> Inr Safe"
  proof
    assume "safety_verdict parse code = Inr Safe"
    then have "check_dangerous_imports parse code = Safe" and "check_file_operations code = Safe"
      and "check_network_operations code = Safe"
      using safety_verdict_Safe_checks by blast+
    then show False
      using assms(1,3) by (auto simp: check_dangerous_imports_Safe check_file_operations_Safe
          check_network_operations_Safe)
  qed
  have "changes_pass parse code" using assms(1,2) by (rule changes_pass_imports)
  then show "apply_changes parse no_faults p code True fs =
               (Inr (True, None), ((fs(p := None))(backup_path p \<mapsto> old))(p \<mapsto> code))"
    using assms(4) by (simp add: apply_changes_backup path_rename_def write_text_def no_faults_def)
qed

theorem modifier_writes_engine_rejected_witness:
  "shutil_parser ''import shutil'' = Inr (Node ''Module'' [Import [''shutil'']]) \<and>
   set (tree_imports (Node ''Module'' [Import [''shutil'']])) \<inter> set modifier_dangerous_modules = {} \<and>
   set (tree_imports (Node ''Module'' [Import [''shutil'']])) \<inter> set improvement_dangerous_modules \<noteq> {} \<and>
   scenario_before ''f.py'' = Some ''x = 1'' \<and>
   safety_verdict shutil_parser ''import shutil'' \<noteq> Inr Safe \<and>
   apply_changes shutil_parser no_faults ''f.py'' ''import shutil'' True scenario_before =
     (Inr (True, None), ((scenario_before(''f.py'' := None))(backup_path ''f.py'' \<mapsto> ''x = 1''))(''f.py'' \<mapsto> ''import shutil''))"
proof -
  have p: "shutil_parser ''import shutil'' = Inr (Node ''Module'' [Import [''shutil'']])"
    by (simp add: shutil_parser_def)
  have m: "set (tree_imports (Node ''Module'' [Import [''shutil'']])) \<inter> set modifier_dangerous_modules = {}"
    by (simp add: tree_imports_def modifier_dangerous_modules_def)
  have e: "set (tree_imports (Node ''Module'' [Import [''shutil'']])) \<inter> set improvement_dangerous_modules \<noteq> {}"
    by (simp add: tree_imports_def improvement_dangerous_modules_def)
  have f: "scenario_before ''f.py'' = Some ''x = 1''" by (simp add: scenario_before_def)
  from p m e f modifier_writes_engine_rejected[of shutil_parser "''import shutil''" _ scenario_before "''f.py''", OF p m disjI1[OF e] f] show ?thesis by blast
qed

end
